(* ===== verification/Prelude.thy ===== *)
theory Prelude
  imports Complex_Main "HOL-Library.Word" "HOL-Library.Multiset" "HOL-Library.Code_Target_Numeral"
begin

text \<open>
  Shared vocabulary of the bookies development.  Go strings that users supply
  are sequences of Unicode code points (\<open>ustr\<close>), because every check the
  program applies to them (the \<open>gte\<close>/\<open>lte\<close> length tags of the validator, the
  name regular expression) counts runes, not bytes.  Go's \<open>int\<close> is 64 bits
  wide; the model computes on \<open>int\<close> and states the int64 range explicitly,
  and Go's integer \<open>/\<close> and \<open>%\<close> truncate towards zero, unlike HOL's \<open>div\<close>
  and \<open>mod\<close>, so they are written out here as \<open>go_div\<close> and \<open>go_mod\<close>.
\<close>

named_theorems model_simps "definitions of the model unfolded when evaluating a handler"

type_synonym rune = nat
type_synonym ustr = "rune list"

definition ustr_of :: "string \<Rightarrow> ustr" where
  "ustr_of s = map of_char s"

subsection \<open>Go integers\<close>

definition int64_min :: int where
  "int64_min = - (2 ^ 63)"

definition int64_max :: int where
  "int64_max = 2 ^ 63 - 1"

definition in_int64 :: "int \<Rightarrow> bool" where
  "in_int64 x \<longleftrightarrow> int64_min \<le> x \<and> x \<le> int64_max"

text \<open>Go's \<open>a / b\<close> and \<open>a % b\<close> on \<open>int\<close> (truncating, for \<open>b \<noteq> 0\<close>).\<close>

definition go_div :: "int \<Rightarrow> int \<Rightarrow> int" where
  "go_div a b = sgn a * sgn b * (\<bar>a\<bar> div \<bar>b\<bar>)"

definition go_mod :: "int \<Rightarrow> int \<Rightarrow> int" where
  "go_mod a b = a - b * go_div a b"

text \<open>The conversion \<open>int(x)\<close> of Go's \<open>math.Ceil\<close> on the quotient of two
  \<open>float64\<close> values, with the quotient taken exactly.  This is Go's value when
  \<open>0 \<le> a < 2^53\<close> and \<open>b > 0\<close>: \<open>float64(a)\<close> and \<open>float64(b)\<close> are exact, and
  a quotient \<open>q\<close> that is not an integer lies at least \<open>1/b\<close> from the
  integers while rounding moves it by at most \<open>q * 2^-53 < 1/b\<close>, so the
  ceiling is unchanged.  Above \<open>2^53\<close> Go's result can exceed the exact
  ceiling; a table keyed by \<open>int4\<close> ids never has that many rows.\<close>

definition float_ceil_div :: "int \<Rightarrow> int \<Rightarrow> int" where
  "float_ceil_div a b = \<lceil>real_of_int a / real_of_int b\<rceil>"

subsection \<open>Runes\<close>

definition is_ascii_digit :: "rune \<Rightarrow> bool" where
  "is_ascii_digit c \<longleftrightarrow> 48 \<le> c \<and> c \<le> 57"

definition digit_value :: "rune \<Rightarrow> nat" where
  "digit_value c = c - 48"

subsection \<open>Generic lemmas\<close>

lemma go_div_nonneg [simp]:
  assumes "0 \<le> a" and "0 < b"
  shows "go_div a b = a div b"
proof (cases "a = 0")
  case True
  then show ?thesis by (simp add: go_div_def)
next
  case False
  with assms have "sgn a = 1" "sgn b = 1" by simp_all
  with assms show ?thesis by (simp add: go_div_def)
qed

lemma go_mod_nonneg [simp]:
  assumes "0 \<le> a" and "0 < b"
  shows "go_mod a b = a mod b"
  using assms by (simp add: go_mod_def minus_div_mult_eq_mod [symmetric] mult.commute)

lemma float_ceil_div_eq:
  "float_ceil_div a b = - ((- a) div b)"
  unfolding float_ceil_div_def
  by (metis ceiling_def floor_divide_of_int_eq minus_divide_left of_int_minus)

lemma neg_div_ceiling:
  assumes b: "0 < (b::int)"
  shows "- ((- a) div b) = (a + b - 1) div b"
proof -
  define q where "q = (a + b - 1) div b"
  define r where "r = (a + b - 1) mod b"
  have e: "a + b - 1 = q * b + r" by (simp add: q_def r_def)
  have r: "0 \<le> r" "r < b" using b by (simp_all add: r_def)
  have na: "- a = (b - 1 - r) + (- q) * b" using e by (simp add: algebra_simps)
  have "((b - 1 - r) + (- q) * b) div b = (- q) + (b - 1 - r) div b"
    using b by (intro div_mult_self1) simp
  moreover have "(b - 1 - r) div b = 0" using r by (simp add: div_pos_pos_trivial)
  ultimately have "(- a) div b = - q" by (simp only: na)
  then show ?thesis by (simp add: q_def)
qed

lemma in_int64_sint:
  assumes "in_int64 x"
  shows "sint (word_of_int x :: 64 word) = x"
  using assms unfolding in_int64_def int64_min_def int64_max_def
  by (simp add: sint_sbintrunc' signed_take_bit_int_eq_self)

lemma ustr_of_simps [simp]:
  "ustr_of [] = []"
  "ustr_of (c # s) = of_char c # ustr_of s"
  by (simp_all add: ustr_of_def)

lemma length_ustr_of [simp]: "length (ustr_of s) = length s"
  by (simp add: ustr_of_def)

text \<open>Lookups by a key that is unique in the list.\<close>

lemma filter_key_unique:
  "distinct (map f xs) \<Longrightarrow> x \<in> set xs \<Longrightarrow> filter (\<lambda>y. f y = f x) xs = [x]"
  by (induction xs) (auto simp: filter_empty_conv image_iff)

lemma filter_key_none: "i \<notin> f ` set xs \<Longrightarrow> filter (\<lambda>y. f y = i) xs = []"
  by (auto simp: filter_empty_conv)

lemma find_key_unique:
  "distinct (map f xs) \<Longrightarrow> x \<in> set xs \<Longrightarrow> find (\<lambda>y. f y = f x) xs = Some x"
  by (induction xs) auto

lemma key_removed [simp]: "i \<notin> f ` {x \<in> A. f x \<noteq> i}"
  by auto

lemma id_count_le_one:
  "distinct (map f xs) \<Longrightarrow> length (filter (\<lambda>y. f y = i) xs) \<le> 1"
  by (induction xs) (auto simp: filter_empty_conv image_iff)

lemma find_map_update_key:
  assumes "distinct (map f xs)" "x \<in> set xs" "\<And>y. f (g y) = f y"
  shows "find (\<lambda>y. f y = f x) (map (\<lambda>y. if f y = f x then g y else y) xs) = Some (g x)"
  using assms by (induction xs) (auto simp: image_iff)

text \<open>Association lists keyed by a field of their elements.\<close>

lemma map_of_keyed_snoc:
  "f x \<notin> f ` set xs \<Longrightarrow> map_of (map (\<lambda>y. (f y, y)) (xs @ [x])) = (map_of (map (\<lambda>y. (f y, y)) xs))(f x \<mapsto> x)"
  by (induction xs) (auto simp: fun_eq_iff)

lemma map_of_keyed_filter:
  "map_of (map (\<lambda>y. (f y, y)) (filter (\<lambda>y. f y \<noteq> i) xs)) = (map_of (map (\<lambda>y. (f y, y)) xs))(i := None)"
  by (induction xs) (auto simp: fun_eq_iff)

lemma map_of_keyed_update:
  assumes "distinct (map f xs)" "x \<in> set xs" "f (g x) = f x"
  shows "map_of (map (\<lambda>y. (f y, y)) (map (\<lambda>y. if f y = f x then g y else y) xs))
           = (map_of (map (\<lambda>y. (f y, y)) xs))(f x \<mapsto> g x)"
  using assms
proof (induction xs)
  case (Cons y ys)
  show ?case
  proof (cases "y = x")
    case True
    then have "x \<notin> set ys" "\<forall>z\<in>set ys. f z \<noteq> f x"
      using Cons.prems(1) by (auto simp: image_iff)
    then have "map (\<lambda>y. if f y = f x then g y else y) ys = ys" by (simp add: map_idI)
    then show ?thesis using True Cons.prems(3) by (simp add: fun_eq_iff)
  next
    case False
    then have "f y \<noteq> f x" using Cons.prems(1,2) by (auto simp: image_iff)
    then show ?thesis using Cons False by (auto simp: fun_eq_iff)
  qed
qed simp

lemma dom_map_of_keyed [simp]: "dom (map_of (map (\<lambda>y. (f y, y)) xs)) = f ` set xs"
  by (simp add: dom_map_of_conv_image_fst image_image)


lemma filter_key_all_removed [simp]: "filter (\<lambda>x. f x \<notin> f ` set xs) xs = []"
  by (auto simp: filter_empty_conv)

end
