(* ===== verification/Pagination.thy ===== *)
theory Pagination
  imports Prelude
begin

text \<open>
  The pagination arithmetic shared by \<open>FetchAuthorDBModel.Fetch\<close>
  (src/pkg/models/author.go) and \<open>FetchBookDBModel.Fetch\<close>
  (src/pkg/models/book.go): after the total record count is read, the page
  count is computed by a ceiling division, the requested page is clamped to
  the last page, the previous/next pointers are set, and the row offset of the
  page is \<open>Limit * (Page - 1)\<close>.  Both Go methods contain the same lines; the
  record \<open>fetch_model\<close> is polymorphic in the row type so that it stands for
  both \<open>FetchAuthorDBModel\<close> and \<open>FetchBookDBModel\<close>.
\<close>

record 'a fetch_model =
  fm_page :: int
  fm_limit :: int
  fm_next :: "int option"
  fm_prev :: "int option"
  fm_record_total :: int
  fm_page_total :: int
  fm_data :: "'a list"

text \<open>\<open>new(models.FetchAuthorDBModel)\<close> followed by the assignments of
  \<open>Page\<close> and \<open>Limit\<close> in the handlers.\<close>

definition init_fetch :: "int \<Rightarrow> int \<Rightarrow> 'a fetch_model" where
  "init_fetch p lmt =
     \<lparr>fm_page = p, fm_limit = lmt, fm_next = None, fm_prev = None,
      fm_record_total = 0, fm_page_total = 0, fm_data = []\<rparr>"

text \<open>The page count: \<open>RecordTotal % Limit > 0\<close> selects
  \<open>int(math.Ceil(float64(RecordTotal) / float64(Limit)))\<close>, otherwise the
  integer quotient.\<close>

definition page_total_of :: "int \<Rightarrow> int \<Rightarrow> int" where
  "page_total_of rt lmt =
     (if go_mod rt lmt > 0 then float_ceil_div rt lmt else go_div rt lmt)"

text \<open>Everything \<open>Fetch\<close> does to its receiver between reading
  \<open>RecordTotal\<close> and issuing the page query, in the order of the code.\<close>

definition paginate :: "int \<Rightarrow> 'a fetch_model \<Rightarrow> 'a fetch_model" where
  "paginate rt m =
     (let m1 = m\<lparr>fm_record_total := rt, fm_page_total := page_total_of rt (fm_limit m)\<rparr>;
          m2 = (if fm_page m1 > fm_page_total m1 then m1\<lparr>fm_page := fm_page_total m1\<rparr> else m1);
          m3 = m2\<lparr>fm_prev := (if fm_page m2 < 2 then None else Some (fm_page m2 - 1))\<rparr>;
          m4 = m3\<lparr>fm_next := (if fm_page m3 = fm_page_total m3 then None else Some (fm_page m3 + 1))\<rparr>
      in m4)"

text \<open>The \<open>offset\<close> argument of the page query.\<close>

definition page_offset :: "'a fetch_model \<Rightarrow> int" where
  "page_offset m = fm_limit m * (fm_page m - 1)"

text \<open>The reference the page count is compared with: ceiling division on
  integers.\<close>

definition ceil_div :: "int \<Rightarrow> int \<Rightarrow> int" where
  "ceil_div a b = (a + b - 1) div b"

text \<open>The range the handlers admit before a fetch is issued.\<close>

definition valid_window :: "int \<Rightarrow> int \<Rightarrow> bool" where
  "valid_window p lmt \<longleftrightarrow> 1 \<le> p \<and> 5 \<le> lmt \<and> lmt \<le> 100"

text \<open>The rows the store returns for \<open>LIMIT l OFFSET off\<close> with non-negative
  arguments (a negative offset is an error of the store, see theory Store).\<close>

definition limit_offset :: "int \<Rightarrow> int \<Rightarrow> 'a list \<Rightarrow> 'a list" where
  "limit_offset l off xs = take (nat l) (drop (nat off) xs)"

subsection \<open>The fields after pagination\<close>

lemma paginate_fields [simp]:
  "fm_record_total (paginate rt m) = rt"
  "fm_page_total (paginate rt m) = page_total_of rt (fm_limit m)"
  "fm_limit (paginate rt m) = fm_limit m"
  "fm_data (paginate rt m) = fm_data m"
  "fm_page (paginate rt m) = min (fm_page m) (page_total_of rt (fm_limit m))"
  by (simp_all add: paginate_def Let_def)

lemmas pagination_eval [model_simps] =
  init_fetch_def page_total_of_def go_mod_def go_div_def float_ceil_div_eq page_offset_def
  valid_window_def limit_offset_def

subsection \<open>Helper lemmas\<close>

lemma paginate_prev:
  "fm_prev (paginate rt m) =
     (if fm_page (paginate rt m) < 2 then None else Some (fm_page (paginate rt m) - 1))"
  by (simp add: paginate_def Let_def)

lemma paginate_next:
  "fm_next (paginate rt m) =
     (if fm_page (paginate rt m) = fm_page_total (paginate rt m) then None
      else Some (fm_page (paginate rt m) + 1))"
  by (simp add: paginate_def Let_def)

lemma page_total_of_nonneg:
  assumes "0 \<le> rt" and "0 < lmt"
  shows "page_total_of rt lmt = ceil_div rt lmt"
proof (cases "rt mod lmt > 0")
  case True
  with assms show ?thesis
    by (simp add: page_total_of_def float_ceil_div_eq neg_div_ceiling ceil_div_def)
next
  case False
  with assms have "rt mod lmt = 0" by (meson not_less order.antisym pos_mod_sign)
  then obtain k where k: "rt = k * lmt" by (metis mult.commute mod_eq_0_iff_dvd dvd_def)
  have "((lmt - 1) + k * lmt) div lmt = k + (lmt - 1) div lmt"
    using assms by (intro div_mult_self1) simp
  moreover have "(lmt - 1) div lmt = 0" using assms by (simp add: div_pos_pos_trivial)
  ultimately have "(rt + lmt - 1) div lmt = rt div lmt"
    using assms k by (simp add: algebra_simps)
  with False assms show ?thesis by (simp add: page_total_of_def ceil_div_def)
qed

lemma page_total_of_zero [simp]:
  "0 < lmt \<Longrightarrow> page_total_of 0 lmt = 0"
  by (simp add: page_total_of_def go_mod_def go_div_def)

lemma ceil_div_pos:
  assumes "0 < rt" and "0 < lmt"
  shows "1 \<le> ceil_div rt lmt"
proof -
  have "lmt div lmt \<le> (rt + lmt - 1) div lmt"
    using assms by (intro zdiv_mono1) simp_all
  with assms show ?thesis by (simp add: ceil_div_def)
qed

lemma ceil_div_bounds:
  assumes "0 < lmt"
  shows "lmt * (ceil_div rt lmt - 1) < rt" and "rt \<le> lmt * ceil_div rt lmt"
proof -
  define q where "q = (rt + lmt - 1) div lmt"
  define r where "r = (rt + lmt - 1) mod lmt"
  have d: "lmt * q + r = rt + lmt - 1" by (simp add: q_def r_def)
  have "0 \<le> r" "r < lmt" using assms by (simp_all add: r_def)
  with d show "lmt * (ceil_div rt lmt - 1) < rt" and "rt \<le> lmt * ceil_div rt lmt"
    by (simp_all add: ceil_div_def q_def [symmetric] right_diff_distrib)
qed



lemma paginate_page_total_pos:
  assumes "0 < rt" and "0 < fm_limit m"
  shows "1 \<le> fm_page_total (paginate rt m)"
  using assms by (simp add: page_total_of_nonneg ceil_div_pos)

lemma paginate_page_range:
  assumes "valid_window (fm_page m) (fm_limit m)" and "0 < rt"
  shows "1 \<le> fm_page (paginate rt m)" and "fm_page (paginate rt m) \<le> fm_page_total (paginate rt m)"
  using assms paginate_page_total_pos [of rt m] by (auto simp: valid_window_def)

lemma paginate_page_le_total:
  assumes "valid_window (fm_page m) (fm_limit m)" and "0 \<le> rt"
  shows "0 \<le> fm_page (paginate rt m)"
    and "fm_limit m * (fm_page (paginate rt m) - 1) < rt \<or> rt = 0"
proof -
  have l: "0 < fm_limit m" using assms by (simp add: valid_window_def)
  have t: "page_total_of rt (fm_limit m) = ceil_div rt (fm_limit m)"
    using assms l by (simp add: page_total_of_nonneg)
  have t0: "0 \<le> ceil_div rt (fm_limit m)"
    using assms l by (simp add: ceil_div_def pos_imp_zdiv_nonneg_iff)
  then show "0 \<le> fm_page (paginate rt m)" using assms t by (simp add: valid_window_def)
  have "fm_limit m * (min (fm_page m) (ceil_div rt (fm_limit m)) - 1)
        \<le> fm_limit m * (ceil_div rt (fm_limit m) - 1)"
    using l by (intro mult_left_mono) simp_all
  then show "fm_limit m * (fm_page (paginate rt m) - 1) < rt \<or> rt = 0"
    using ceil_div_bounds(1) [OF l, of rt] t by simp
qed

lemma next_page_bound:
  fixes l p rt :: int
  assumes "5 \<le> l" and "1 \<le> p" and "l * (p - 1) < rt" and "rt \<le> int64_max"
  shows "p + 1 \<le> int64_max"
proof -
  have "5 * (p - 1) \<le> l * (p - 1)" using assms(1,2) by (intro mult_right_mono) simp_all
  with assms(3,4) show ?thesis by (simp add: int64_max_def)
qed

subsection \<open>Properties of the pagination\<close>

lemma limit_offset_subset: "set (limit_offset l off xs) \<subseteq> set xs"
  unfolding limit_offset_def using set_drop_subset set_take_subset by fast

lemma list_all_limit_offset_filter: "list_all P (limit_offset l off (filter P xs))"
  using limit_offset_subset [of l off "filter P xs"] by (auto simp: list_all_iff)

lemma sorted_limit_offset_filter:
  "sorted_wrt R (map f xs) \<Longrightarrow> sorted_wrt R (map f (limit_offset l off (filter P xs)))"
  by (simp add: limit_offset_def sorted_wrt_map sorted_wrt_take sorted_wrt_drop sorted_wrt_filter)

lemma paginate_offset_nonneg:
  assumes "valid_window p l" "0 < rt"
  shows "0 \<le> page_offset (paginate rt (init_fetch p l))" "fm_limit (paginate rt (init_fetch p l)) = l"
  using paginate_page_range [of "init_fetch p l" rt] assms
  by (auto simp: page_offset_def init_fetch_def valid_window_def)

lemma empty_listing_offset:
  "valid_window p l \<Longrightarrow> page_offset (paginate 0 (init_fetch p l)) < 0"
  by (simp add: paginate_def Let_def page_offset_def init_fetch_def valid_window_def)

lemma paginate_int64_ranges:
  assumes "valid_window (fm_page m) (fm_limit m)" and "0 \<le> rt" and "rt \<le> int64_max"
  shows "in_int64 (page_offset (paginate rt m))" and "in_int64 (fm_page (paginate rt m) + 1)"
proof -
  let ?p = "fm_page (paginate rt m)"
  let ?l = "fm_limit m"
  have w: "valid_window (fm_page m) ?l" using assms(1) .
  have l: "5 \<le> ?l" "?l \<le> 100" using w by (simp_all add: valid_window_def)
  have p0: "0 \<le> ?p" by (rule paginate_page_le_total(1) [OF w assms(2)])
  have off: "?l * (?p - 1) < rt \<or> rt = 0" by (rule paginate_page_le_total(2) [OF w assms(2)])
  have offlo: "- 100 \<le> ?l * (?p - 1)"
  proof (cases "?p = 0")
    case True then show ?thesis using l by simp
  next
    case False
    then have a: "0 \<le> ?p - 1" using p0 by linarith
    have "0 \<le> ?l * (?p - 1)" using a l(1) by (intro mult_nonneg_nonneg) linarith+
    then show ?thesis by linarith
  qed
  have rt0: "rt = 0 \<Longrightarrow> ?p = 0"
    using l w by (simp add: valid_window_def)
  have offhi: "?l * (?p - 1) \<le> int64_max"
    using off assms(3) rt0 l by auto
  have phi: "?p + 1 \<le> int64_max"
  proof (cases "?p = 0")
    case True then show ?thesis by (simp add: int64_max_def)
  next
    case False
    then have "1 \<le> ?p" using p0 by linarith
    moreover have "?l * (?p - 1) < rt" using off rt0 False by blast
    ultimately show ?thesis using next_page_bound l(1) assms(3) by blast
  qed
  show "in_int64 (page_offset (paginate rt m))"
    using offlo offhi by (simp add: in_int64_def int64_min_def page_offset_def)
  show "in_int64 (fm_page (paginate rt m) + 1)"
    using p0 phi by (simp add: in_int64_def int64_min_def)
qed

text \<open>C1: For every admitted window (page at least 1, limit between 5 and 100) and a
  non-empty table, the page returned by \<open>Fetch\<close> lies between 1 and the page
  count, \<open>prev\<close> is null exactly on page 1 and \<open>next\<close> is null exactly on the last
  page.\<close>

theorem paginate_valid_window:
  assumes "valid_window (fm_page m) (fm_limit m)" and "0 < rt"
  shows "1 \<le> fm_page (paginate rt m) \<and> fm_page (paginate rt m) \<le> fm_page_total (paginate rt m)
    \<and> (fm_prev (paginate rt m) = None \<longleftrightarrow> fm_page (paginate rt m) = 1)
    \<and> (fm_next (paginate rt m) = None \<longleftrightarrow> fm_page (paginate rt m) = fm_page_total (paginate rt m))"
proof -
  note r = paginate_page_range [OF assms]
  have "fm_prev (paginate rt m) = None \<longleftrightarrow> fm_page (paginate rt m) = 1"
    using r(1) by (simp add: paginate_prev del: paginate_fields)
  moreover have "fm_next (paginate rt m) = None \<longleftrightarrow>
      fm_page (paginate rt m) = fm_page_total (paginate rt m)"
    by (simp add: paginate_next del: paginate_fields)
  ultimately show ?thesis using r by blast
qed

theorem paginate_valid_window_witness:
  "valid_window (fm_page (init_fetch 7 10 :: nat fetch_model)) (fm_limit (init_fetch 7 10 :: nat fetch_model))
   \<and> (0::int) < 42
   \<and> fm_page (paginate 42 (init_fetch 7 10 :: nat fetch_model)) = 5"
proof -
  have h: "valid_window (fm_page (init_fetch 7 10 :: nat fetch_model)) (fm_limit (init_fetch 7 10 :: nat fetch_model))"
    by (simp add: valid_window_def init_fetch_def)
  have "1 \<le> fm_page (paginate 42 (init_fetch 7 10 :: nat fetch_model))"
    using paginate_valid_window [OF h, of 42] by simp
  then show ?thesis using h
    by (simp add: init_fetch_def page_total_of_def go_mod_def go_div_def float_ceil_div_eq)
qed



text \<open>C3: When \<open>prev\<close> and \<open>next\<close> are set they point at the neighbouring pages, and
  \<open>next\<close> never points past the last page.\<close>

theorem paginate_neighbours:
  assumes "valid_window (fm_page m) (fm_limit m)" and "0 < rt"
  shows "(\<forall>p. fm_prev (paginate rt m) = Some p \<longrightarrow> p + 1 = fm_page (paginate rt m) \<and> 1 \<le> p)
    \<and> (\<forall>n. fm_next (paginate rt m) = Some n \<longrightarrow> n = fm_page (paginate rt m) + 1
          \<and> n \<le> fm_page_total (paginate rt m))"
proof -
  note r = paginate_page_range [OF assms]
  show ?thesis
    using r by (auto simp: paginate_prev paginate_next simp del: paginate_fields)
qed

theorem paginate_neighbours_witness:
  "valid_window (fm_page (init_fetch 3 10 :: nat fetch_model)) (fm_limit (init_fetch 3 10 :: nat fetch_model))
   \<and> (0::int) < 42
   \<and> fm_prev (paginate 42 (init_fetch 3 10 :: nat fetch_model)) = Some 2
   \<and> fm_next (paginate 42 (init_fetch 3 10 :: nat fetch_model)) = Some 4
   \<and> 4 \<le> fm_page_total (paginate 42 (init_fetch 3 10 :: nat fetch_model))"
proof -
  have h: "valid_window (fm_page (init_fetch 3 10 :: nat fetch_model)) (fm_limit (init_fetch 3 10 :: nat fetch_model))"
    by (simp add: valid_window_def init_fetch_def)
  have e: "paginate 42 (init_fetch 3 10 :: nat fetch_model) =
      \<lparr>fm_page = 3, fm_limit = 10, fm_next = Some 4, fm_prev = Some 2,
       fm_record_total = 42, fm_page_total = 5, fm_data = []\<rparr>"
    by (simp add: paginate_def Let_def model_simps)
  have "\<forall>n. fm_next (paginate 42 (init_fetch 3 10 :: nat fetch_model)) = Some n
          \<longrightarrow> n = fm_page (paginate 42 (init_fetch 3 10 :: nat fetch_model)) + 1
             \<and> n \<le> fm_page_total (paginate 42 (init_fetch 3 10 :: nat fetch_model))"
    using paginate_neighbours [OF h, of 42] by simp
  then show ?thesis using h unfolding e by simp
qed

text \<open>C4: On an empty table the page is clamped to 0, below the admitted range, and
  the offset passed to the page query is \<open>-Limit\<close>, a negative number.\<close>

theorem paginate_empty_offset:
  assumes "valid_window (fm_page m) (fm_limit m)"
  shows "fm_page (paginate 0 m) = 0 \<and> fm_page_total (paginate 0 m) = 0
    \<and> fm_prev (paginate 0 m) = None \<and> fm_next (paginate 0 m) = None
    \<and> page_offset (paginate 0 m) = - fm_limit m \<and> page_offset (paginate 0 m) < 0"
  using assms
  by (simp add: valid_window_def paginate_prev paginate_next page_offset_def)

theorem paginate_empty_offset_witness:
  "valid_window (fm_page (init_fetch 3 10 :: nat fetch_model)) (fm_limit (init_fetch 3 10 :: nat fetch_model))
   \<and> page_offset (paginate 0 (init_fetch 3 10 :: nat fetch_model)) = -10"
proof -
  have h: "valid_window (fm_page (init_fetch 3 10 :: nat fetch_model)) (fm_limit (init_fetch 3 10 :: nat fetch_model))"
    by (simp add: valid_window_def init_fetch_def)
  show ?thesis using h paginate_empty_offset [OF h] by (simp add: init_fetch_def)
qed



text \<open>C6: For record counts below \<open>2^53\<close>, where the \<open>float64\<close> page count
  is exact, the 64-bit computations of the offset \<open>Limit * (Page - 1)\<close> and of
  \<open>Page + 1\<close> do not wrap around, whatever page the client asked for: they
  equal the exact integer values the model uses.\<close>

theorem paginate_no_overflow:
  assumes "valid_window (fm_page m) (fm_limit m)" and "0 \<le> rt" and "rt < 2 ^ 53"
  shows "sint ((word_of_int (fm_limit (paginate rt m)) :: 64 word)
               * (word_of_int (fm_page (paginate rt m)) - 1)) = page_offset (paginate rt m)
    \<and> sint ((word_of_int (fm_page (paginate rt m)) :: 64 word) + 1) = fm_page (paginate rt m) + 1"
proof -
  let ?p = "fm_page (paginate rt m)"
  let ?l = "fm_limit m"
  have "rt \<le> int64_max" using assms(3) by (simp add: int64_max_def)
  note r = paginate_int64_ranges [OF assms(1,2) this]
  have e1: "(word_of_int ?l :: 64 word) * (word_of_int ?p - 1) = word_of_int (page_offset (paginate rt m))"
    by (simp add: page_offset_def)
  have e2: "(word_of_int ?p :: 64 word) + 1 = word_of_int (?p + 1)"
    by simp
  show ?thesis using in_int64_sint [OF r(1)] in_int64_sint [OF r(2)] e1 e2 by simp
qed


theorem paginate_no_overflow_witness:
  "valid_window (fm_page (init_fetch 3 10 :: nat fetch_model)) (fm_limit (init_fetch 3 10 :: nat fetch_model))
   \<and> (0::int) \<le> 42 \<and> (42::int) < 2 ^ 53
   \<and> sint ((word_of_int (fm_limit (paginate 42 (init_fetch 3 10 :: nat fetch_model))) :: 64 word)
        * (word_of_int (fm_page (paginate 42 (init_fetch 3 10 :: nat fetch_model))) - 1)) = 20"
proof -
  have h: "valid_window (fm_page (init_fetch 3 10 :: nat fetch_model)) (fm_limit (init_fetch 3 10 :: nat fetch_model))"
    by (simp add: valid_window_def init_fetch_def)
  have b: "(0::int) \<le> 42" "(42::int) < 2 ^ 53" by simp_all
  have e: "paginate 42 (init_fetch 3 10 :: nat fetch_model) =
      \<lparr>fm_page = 3, fm_limit = 10, fm_next = Some 4, fm_prev = Some 2,
       fm_record_total = 42, fm_page_total = 5, fm_data = []\<rparr>"
    by (simp add: paginate_def Let_def model_simps)
  have "sint ((word_of_int (fm_limit (paginate 42 (init_fetch 3 10 :: nat fetch_model))) :: 64 word)
        * (word_of_int (fm_page (paginate 42 (init_fetch 3 10 :: nat fetch_model))) - 1))
      = page_offset (paginate 42 (init_fetch 3 10 :: nat fetch_model))"
    using paginate_no_overflow [OF h b] by blast
  then show ?thesis using h b unfolding e by (simp add: page_offset_def)
qed

end
