(* ===== verification/Validation.thy ===== *)
theory Validation
  imports Prelude "HOL-Library.Sublist"
begin

text \<open>
  The validation layer: the binding tags of \<open>AuthorBaseModel\<close>,
  \<open>BookBaseModel\<close> and \<open>IdentifierURI\<close> (src/pkg/models/author.go and
  book.go) as the validator library evaluates them, the custom \<open>validname\<close>
  check (src/pkg/validators/validname.go), the translation of field errors
  into messages (\<open>ParseValidationError\<close>, src/pkg/utilities/error.go), and
  the parsing of the \<open>page\<close>/\<open>limit\<close> query parameters and of the path
  identifier with \<open>strconv.Atoi\<close> in the handlers.  The Unicode letter class
  \<open>\p{L}\<close> of the name check and the validator's e-mail regular expression are
  tables of libraries the code only calls: they are parameters of the model
  (record \<open>vcfg\<close>), and the properties state what they need of them.
\<close>

subsection \<open>Dates in the layout 2006-01-02\<close>

type_synonym date = "int \<times> nat \<times> nat"

text \<open>\<open>time.atoi\<close>: an optional sign and decimal digits, all of the input.\<close>

definition digits_value :: "ustr \<Rightarrow> nat option" where
  "digits_value s =
     (if s \<noteq> [] \<and> list_all is_ascii_digit s
      then Some (foldl (\<lambda>n c. 10 * n + digit_value c) 0 s) else None)"

definition time_atoi :: "ustr \<Rightarrow> int option" where
  "time_atoi s =
     (case s of
        c # r \<Rightarrow>
          if c = 45 then map_option (\<lambda>n. - int n) (digits_value r)
          else if c = 43 then map_option int (digits_value r)
          else map_option int (digits_value s)
      | [] \<Rightarrow> None)"

text \<open>Go's \<open>isLeap\<close> and \<open>daysIn\<close>.\<close>

definition is_leap :: "int \<Rightarrow> bool" where
  "is_leap y \<longleftrightarrow> 4 dvd y \<and> (\<not> 100 dvd y \<or> 400 dvd y)"

definition days_in :: "nat \<Rightarrow> int \<Rightarrow> nat" where
  "days_in m y =
     (if m = 2 then (if is_leap y then 29 else 28)
      else if m \<in> {4, 6, 9, 11} then 30 else 31)"

text \<open>\<open>time.Parse("2006-01-02", s)\<close> succeeds exactly on ten runes: a year of
  four runes read by \<open>time.atoi\<close>, a dash, a two-digit month in 1..12, a dash
  and a two-digit day that exists in that month and year.\<close>

definition two_digits :: "rune \<Rightarrow> rune \<Rightarrow> nat option" where
  "two_digits a b =
     (if is_ascii_digit a \<and> is_ascii_digit b then Some (10 * digit_value a + digit_value b)
      else None)"

definition go_date_parse :: "ustr \<Rightarrow> date option" where
  "go_date_parse s =
     (if length s \<noteq> 10 \<or> s ! 4 \<noteq> 45 \<or> s ! 7 \<noteq> 45 then None
      else case (time_atoi (take 4 s), two_digits (s ! 5) (s ! 6), two_digits (s ! 8) (s ! 9)) of
        (Some y, Some m, Some d) \<Rightarrow>
          if 1 \<le> m \<and> m \<le> 12 \<and> 1 \<le> d \<and> d \<le> days_in m y then Some (y, m, d) else None
      | _ \<Rightarrow> None)"

text \<open>\<open>pgtype.Date\<close>'s JSON form, \<open>Time.Format("2006-01-02")\<close>, for years
  0 to 9999.\<close>

definition digit_rune :: "nat \<Rightarrow> rune" where
  "digit_rune n = 48 + n"

definition pad2 :: "nat \<Rightarrow> ustr" where
  "pad2 n = [digit_rune (n div 10), digit_rune (n mod 10)]"

definition pad4 :: "nat \<Rightarrow> ustr" where
  "pad4 n = [digit_rune (n div 1000), digit_rune (n div 100 mod 10),
             digit_rune (n div 10 mod 10), digit_rune (n mod 10)]"

definition format_date :: "date \<Rightarrow> ustr" where
  "format_date d = (case d of (y, m, dd) \<Rightarrow> pad4 (nat y) @ [45] @ pad2 m @ [45] @ pad2 dd)"

subsection \<open>strconv.Atoi\<close>

text \<open>\<open>strconv.ParseUint(s, 10, 64)\<close> after the sign is stripped: \<open>None\<close> for
  a syntax error, \<open>Some (n, ok)\<close> otherwise, where an overflow stops the scan at
  once with the value \<open>MaxUint64\<close> and \<open>ok = False\<close>.\<close>

definition uint64_max :: nat where
  "uint64_max = 2 ^ 64 - 1"

fun parse_uint_digits :: "nat \<Rightarrow> ustr \<Rightarrow> (nat \<times> bool) option" where
  "parse_uint_digits n [] = Some (n, True)"
| "parse_uint_digits n (c # cs) =
     (if \<not> is_ascii_digit c then None
      else if n \<ge> uint64_max div 10 + 1 then Some (uint64_max, False)
      else if 10 * n + digit_value c > uint64_max then Some (uint64_max, False)
      else parse_uint_digits (10 * n + digit_value c) cs)"

definition parse_uint :: "ustr \<Rightarrow> (nat \<times> bool) option" where
  "parse_uint s = (if s = [] then None else parse_uint_digits 0 s)"

text \<open>\<open>strconv.Atoi\<close> on a 64-bit platform (its fast path for short inputs
  computes the same): an optional sign, then \<open>ParseUint\<close>; out of range the
  nearest int64 bound with an error, on a syntax error 0.  The result is the
  value and whether the error is \<open>nil\<close>.\<close>

definition go_atoi :: "ustr \<Rightarrow> int \<times> bool" where
  "go_atoi s =
     (let (neg, body) = (case s of c # r \<Rightarrow> if c = 45 then (True, r) else if c = 43 then (False, r)
                                            else (False, s)
                                 | [] \<Rightarrow> (False, s))
      in case parse_uint body of
           None \<Rightarrow> (0, False)
         | Some (n, ok) \<Rightarrow>
             if neg then (if int n > 2 ^ 63 then (int64_min, False) else (- int n, ok))
             else (if int n > int64_max then (int64_max, False) else (int n, ok)))"

text \<open>\<open>c.DefaultQuery(key, default)\<close>: the parameter when present (even empty),
  the default otherwise.\<close>

definition default_query :: "ustr option \<Rightarrow> ustr \<Rightarrow> ustr" where
  "default_query q d = (case q of Some v \<Rightarrow> v | None \<Rightarrow> d)"

text \<open>The \<open>page\<close> and \<open>limit\<close> checks of the listing handlers: \<open>None\<close> is the
  422 answer.\<close>

definition page_param :: "ustr option \<Rightarrow> int option" where
  "page_param q =
     (let (p, ok) = go_atoi (default_query q (ustr_of ''1''))
      in if \<not> ok \<or> p < 1 then None else Some p)"

definition limit_param :: "ustr option \<Rightarrow> int option" where
  "limit_param q =
     (let (l, ok) = go_atoi (default_query q (ustr_of ''10''))
      in if \<not> ok \<or> l < 5 \<or> l > 100 then None else Some l)"

subsection \<open>The bound request structs\<close>

text \<open>\<open>AuthorBaseModel\<close>, \<open>BookBaseModel\<close> and \<open>IdentifierURI\<close>; a JSON
  \<open>null\<close> or an absent optional field is \<open>None\<close>.\<close>

record author_base =
  ab_name :: ustr
  ab_email :: ustr
  ab_birth_date :: "ustr option"
  ab_bio :: "ustr option"

record book_base =
  bb_title :: ustr
  bb_desc :: "ustr option"
  bb_pub_date :: ustr
  bb_author_id :: ustr

record identifier_uri =
  uri_id :: ustr

subsection \<open>Validator tags\<close>

text \<open>The libraries' tables the checks consult: the Unicode class \<open>\p{L}\<close>
  and the validator's e-mail syntax.\<close>

record vcfg =
  is_letter :: "rune \<Rightarrow> bool"
  is_email :: "ustr \<Rightarrow> bool"

text \<open>\<open>ValidName\<close>: the whole value matches \<open>^[\p{L} \.'\-]+$\<close>.\<close>

definition valid_name :: "vcfg \<Rightarrow> ustr \<Rightarrow> bool" where
  "valid_name cfg s \<longleftrightarrow>
     s \<noteq> [] \<and> list_all (\<lambda>c. is_letter cfg c \<or> c = 32 \<or> c = 46 \<or> c = 39 \<or> c = 45) s"

datatype tag = TagRequired | TagValidName | TagEmail | TagGte nat | TagLte nat
  | TagDatetime | TagNumber

fun nat_string :: "nat \<Rightarrow> string" where
  "nat_string n = (if n < 10 then [char_of (48 + n)] else nat_string (n div 10) @ [char_of (48 + n mod 10)])"

text \<open>\<open>fe.Tag()\<close> and \<open>fe.Param()\<close> of a failed tag.\<close>

fun tag_name :: "tag \<Rightarrow> string" where
  "tag_name TagRequired = ''required''"
| "tag_name TagValidName = ''validname''"
| "tag_name TagEmail = ''email''"
| "tag_name (TagGte _) = ''gte''"
| "tag_name (TagLte _) = ''lte''"
| "tag_name TagDatetime = ''datetime''"
| "tag_name TagNumber = ''number''"

fun tag_param :: "tag \<Rightarrow> string" where
  "tag_param (TagGte n) = nat_string n"
| "tag_param (TagLte n) = nat_string n"
| "tag_param TagDatetime = ''2006-01-02''"
| "tag_param _ = []"

text \<open>Each tag on a string field: \<open>required\<close> is a non-empty string, \<open>gte\<close>
  and \<open>lte\<close> count runes, \<open>number\<close> is the regular expression
  \<open>^[0-9]+$\<close>, \<open>datetime\<close> is \<open>time.Parse\<close> without error.\<close>

fun tag_ok :: "vcfg \<Rightarrow> tag \<Rightarrow> ustr \<Rightarrow> bool" where
  "tag_ok cfg TagRequired s \<longleftrightarrow> s \<noteq> []"
| "tag_ok cfg TagValidName s \<longleftrightarrow> valid_name cfg s"
| "tag_ok cfg TagEmail s \<longleftrightarrow> is_email cfg s"
| "tag_ok cfg (TagGte n) s \<longleftrightarrow> n \<le> length s"
| "tag_ok cfg (TagLte n) s \<longleftrightarrow> length s \<le> n"
| "tag_ok cfg TagDatetime s \<longleftrightarrow> go_date_parse s \<noteq> None"
| "tag_ok cfg TagNumber s \<longleftrightarrow> s \<noteq> [] \<and> list_all is_ascii_digit s"

text \<open>A \<open>validator.FieldError\<close>.\<close>

record field_error =
  fe_tag :: string
  fe_field :: string
  fe_param :: string
  fe_value :: ustr

text \<open>The tags of one field are tried in their order; the first that fails is
  reported and the rest of the field's tags are skipped.\<close>

fun first_failure :: "vcfg \<Rightarrow> string \<Rightarrow> ustr \<Rightarrow> tag list \<Rightarrow> field_error option" where
  "first_failure cfg f v [] = None"
| "first_failure cfg f v (t # ts) =
     (if tag_ok cfg t v then first_failure cfg f v ts
      else Some \<lparr>fe_tag = tag_name t, fe_field = f, fe_param = tag_param t, fe_value = v\<rparr>)"

text \<open>\<open>omitempty\<close> on a pointer field: a nil pointer skips the field's tags.\<close>

definition omit_empty :: "vcfg \<Rightarrow> string \<Rightarrow> ustr option \<Rightarrow> tag list \<Rightarrow> field_error option" where
  "omit_empty cfg f v ts = (case v of None \<Rightarrow> None | Some s \<Rightarrow> first_failure cfg f s ts)"

text \<open>The struct's fields in declaration order, with their \<open>binding\<close> tags.\<close>

definition validate_author_base :: "vcfg \<Rightarrow> author_base \<Rightarrow> field_error list" where
  "validate_author_base cfg a =
     [e. Some e \<leftarrow> [first_failure cfg ''Name'' (ab_name a) [TagRequired, TagValidName, TagGte 3, TagLte 65],
                   first_failure cfg ''Email'' (ab_email a) [TagRequired, TagEmail],
                   omit_empty cfg ''BirthDate'' (ab_birth_date a) [TagDatetime]]]"

definition validate_book_base :: "vcfg \<Rightarrow> book_base \<Rightarrow> field_error list" where
  "validate_book_base cfg b =
     [e. Some e \<leftarrow> [first_failure cfg ''Title'' (bb_title b) [TagRequired, TagLte 128, TagGte 1],
                   first_failure cfg ''PubDate'' (bb_pub_date b) [TagRequired, TagDatetime],
                   first_failure cfg ''AuthorID'' (bb_author_id b) [TagRequired, TagNumber]]]"

definition validate_identifier_uri :: "vcfg \<Rightarrow> identifier_uri \<Rightarrow> field_error list" where
  "validate_identifier_uri cfg u =
     [e. Some e \<leftarrow> [first_failure cfg ''ID'' (uri_id u) [TagRequired, TagNumber, TagGte 1]]]"

subsection \<open>Messages\<close>

text \<open>\<open>ValidationErrorMsg\<close> and the tag switch of \<open>ParseValidationError\<close>.\<close>

record validation_msg =
  vm_field :: string
  vm_message :: string
  vm_value :: ustr

definition error_message :: "field_error \<Rightarrow> string" where
  "error_message fe =
     (if fe_tag fe = ''required'' then fe_field fe @ '' is required''
      else if fe_tag fe = ''email'' then ''invalid email format''
      else if fe_tag fe = ''validname'' then ''invalid name (digit is not allowed)''
      else if fe_tag fe = ''gte'' then ''value must be greater or equal than '' @ fe_param fe
      else if fe_tag fe = ''lte'' then ''value must be less or equal than '' @ fe_param fe
      else if fe_tag fe = ''datetime'' then ''datetime format must be '' @ fe_param fe
      else if fe_tag fe = ''number'' then ''only accept positive number''
      else ''invalid value'')"

definition parse_validation_error :: "field_error list \<Rightarrow> validation_msg list" where
  "parse_validation_error errs =
     map (\<lambda>fe. \<lparr>vm_field = fe_field fe, vm_message = error_message fe, vm_value = fe_value fe\<rparr>) errs"

text \<open>A concrete table for the witnesses: ASCII and Latin-1 letters, and an
  address with one \<open>@\<close> between non-empty parts.\<close>

definition example_cfg :: vcfg where
  "example_cfg =
     \<lparr>is_letter = (\<lambda>c. (65 \<le> c \<and> c \<le> 90) \<or> (97 \<le> c \<and> c \<le> 122) \<or> c = 170 \<or> c = 181 \<or> c = 186
                     \<or> (192 \<le> c \<and> c \<le> 255 \<and> c \<noteq> 215 \<and> c \<noteq> 247)),
      is_email = (\<lambda>s. count_list s 64 = 1 \<and> hd s \<noteq> 64 \<and> last s \<noteq> 64 \<and> s \<noteq> [])\<rparr>"

text \<open>The decimal form of a non-negative id, as a client writes it in a path
  (\<open>strconv.Itoa\<close>), and the digit step of \<open>ParseUint\<close>'s loop.\<close>

fun decimal :: "nat \<Rightarrow> ustr" where
  "decimal n = (if n < 10 then [48 + n] else decimal (n div 10) @ [48 + n mod 10])"

declare decimal.simps [simp del]

definition digit_step :: "nat \<Rightarrow> rune \<Rightarrow> nat" where
  "digit_step n c = 10 * n + digit_value c"

subsection \<open>Helper lemmas\<close>

lemma first_failure_None_iff:
  "first_failure cfg f v ts = None \<longleftrightarrow> list_all (\<lambda>t. tag_ok cfg t v) ts"
  by (induction ts) auto

lemma first_failure_field:
  "first_failure cfg f v ts = Some e \<Longrightarrow> fe_field e = f \<and> fe_value e = v"
  by (induction ts) (auto split: if_splits)

lemma omit_empty_field:
  "omit_empty cfg f v ts = Some e \<Longrightarrow> fe_field e = f"
  by (auto simp: omit_empty_def first_failure_field split: option.splits)

lemma digit_rune_value [simp]: "is_ascii_digit a \<Longrightarrow> digit_rune (digit_value a) = a"
  by (simp add: digit_rune_def digit_value_def is_ascii_digit_def)

lemma digit_value_lt [simp]: "is_ascii_digit a \<Longrightarrow> digit_value a < 10"
  unfolding digit_value_def is_ascii_digit_def by linarith

lemma pad2_digits:
  assumes "is_ascii_digit a" "is_ascii_digit b"
  shows "pad2 (10 * digit_value a + digit_value b) = [a, b]"
  using assms digit_value_lt [OF assms(1)] digit_value_lt [OF assms(2)] by (simp add: pad2_def)

lemma pad4_digits:
  assumes "is_ascii_digit a" "is_ascii_digit b" "is_ascii_digit c" "is_ascii_digit d"
  shows "pad4 (1000 * digit_value a + 100 * digit_value b + 10 * digit_value c + digit_value d) = [a, b, c, d]"
proof -
  note lt = digit_value_lt [OF assms(1)] digit_value_lt [OF assms(2)] digit_value_lt [OF assms(3)] digit_value_lt [OF assms(4)]
  define hi where "hi = 10 * digit_value a + digit_value b"
  define lo where "lo = 10 * digit_value c + digit_value d"
  have n: "1000 * digit_value a + 100 * digit_value b + 10 * digit_value c + digit_value d = lo + 100 * hi"
    by (simp add: hi_def lo_def)
  have lo: "lo < 100" using lt by (simp add: lo_def)
  have hi: "hi < 100" using lt by (simp add: hi_def)
  have d100: "(lo + 100 * hi) div 100 = hi" using lo by simp
  have "(lo + 100 * hi) div (100 * 10) = (lo + 100 * hi) div 100 div 10"
    by (rule div_mult2_eq)
  then have "(lo + 100 * hi) div 1000 = hi div 10" using d100 by simp
  moreover have "(lo + 100 * hi) div 10 mod 10 = digit_value c"
  proof -
    have "lo + 100 * hi = digit_value d + (digit_value c + 10 * hi) * 10"
      by (simp add: lo_def)
    then have "(lo + 100 * hi) div 10 = digit_value c + 10 * hi"
      using lt by simp
    then show ?thesis using lt by simp
  qed
  moreover have "(lo + 100 * hi) mod 10 = digit_value d"
  proof -
    have e: "lo + 100 * hi = digit_value d + (digit_value c + 10 * hi) * 10"
      by (simp add: lo_def)
    have "(digit_value d + (digit_value c + 10 * hi) * 10) mod 10 = digit_value d mod 10"
      by (rule mod_mult_self1)
    then show ?thesis using lt unfolding e by simp
  qed
  ultimately show ?thesis using assms lt d100 unfolding n by (simp add: pad4_def hi_def)
qed

lemma length_10_cases:
  assumes "length s = 10"
  obtains a b c d e f g h i j where "s = [a, b, c, d, e, f, g, h, i, j]"
proof -
  have "\<exists>a b c d e f g h i j. s = [a, b, c, d, e, f, g, h, i, j]"
    using assms by (fastforce simp: length_Suc_conv numeral_eq_Suc)
  then show ?thesis using that by blast
qed

lemma digits_value_4:
  assumes "is_ascii_digit a" "is_ascii_digit b" "is_ascii_digit c" "is_ascii_digit d"
  shows "digits_value [a, b, c, d] =
           Some (1000 * digit_value a + 100 * digit_value b + 10 * digit_value c + digit_value d)"
  using assms by (simp add: digits_value_def)

lemma go_date_parse_shape:
  assumes "go_date_parse s = Some (y, m, dd)" and "is_ascii_digit (hd s)"
  shows "\<exists>a b c d f g i j. s = [a, b, c, d, 45, f, g, 45, i, j]
     \<and> is_ascii_digit a \<and> is_ascii_digit b \<and> is_ascii_digit c \<and> is_ascii_digit d
     \<and> is_ascii_digit f \<and> is_ascii_digit g \<and> is_ascii_digit i \<and> is_ascii_digit j
     \<and> y = int (1000 * digit_value a + 100 * digit_value b + 10 * digit_value c + digit_value d)
     \<and> m = 10 * digit_value f + digit_value g \<and> dd = 10 * digit_value i + digit_value j"
proof -
  have "length s = 10" using assms(1) by (simp add: go_date_parse_def split: if_splits)
  then obtain a b c d e f g h i j where s: "s = [a, b, c, d, e, f, g, h, i, j]"
    by (rule length_10_cases)
  have a: "is_ascii_digit a" using assms(2) s by simp
  then have na: "a \<noteq> 45" "a \<noteq> 43" by (auto simp: is_ascii_digit_def)
  show ?thesis
    using assms(1) a na unfolding s
    by (auto simp: go_date_parse_def time_atoi_def digits_value_def two_digits_def
        split: if_splits option.splits)
qed

lemma foldl_digit_step_ge: "k \<le> foldl digit_step k xs"
proof (induction xs arbitrary: k)
  case (Cons a xs)
  have "k \<le> digit_step k a" by (simp add: digit_step_def)
  also have "\<dots> \<le> foldl digit_step (digit_step k a) xs" by (rule Cons.IH)
  finally show ?case by simp
qed simp

lemma parse_uint_digits_ok:
  assumes "list_all is_ascii_digit xs" and "foldl digit_step k xs \<le> uint64_max"
  shows "parse_uint_digits k xs = Some (foldl digit_step k xs, True)"
  using assms
proof (induction xs arbitrary: k)
  case Nil
  then show ?case by simp
next
  case (Cons c cs)
  have le: "digit_step k c \<le> uint64_max"
    using Cons.prems(2) foldl_digit_step_ge [of "digit_step k c" cs] by simp
  then have "\<not> k \<ge> uint64_max div 10 + 1"
    by (simp add: digit_step_def uint64_max_def)
  moreover have "\<not> 10 * k + digit_value c > uint64_max"
    using le by (simp add: digit_step_def)
  ultimately show ?case using Cons by (simp add: digit_step_def [symmetric])
qed

lemma decimal_small: "n < 10 \<Longrightarrow> decimal n = [48 + n]"
  by (subst decimal.simps) simp

lemma decimal_big: "\<not> n < 10 \<Longrightarrow> decimal n = decimal (n div 10) @ [48 + n mod 10]"
  by (subst decimal.simps) simp

lemma decimal_digits: "list_all is_ascii_digit (decimal n) \<and> foldl digit_step 0 (decimal n) = n"
proof (induction n rule: decimal.induct)
  case (1 n)
  show ?case
  proof (cases "n < 10")
    case True
    then show ?thesis
      by (simp add: decimal_small is_ascii_digit_def digit_step_def digit_value_def)
  next
    case False
    with "1" have ih: "list_all is_ascii_digit (decimal (n div 10)) \<and> foldl digit_step 0 (decimal (n div 10)) = n div 10"
      by simp
    have "digit_step (n div 10) (48 + n mod 10) = n" by (simp add: digit_step_def digit_value_def)
    moreover have "is_ascii_digit (48 + n mod 10)" by (simp add: is_ascii_digit_def)
    ultimately show ?thesis using False ih by (simp add: decimal_big)
  qed
qed

lemma decimal_ne: "decimal n \<noteq> []"
  by (cases "n < 10") (simp_all add: decimal_small decimal_big)

lemma hd_decimal_digit: "is_ascii_digit (hd (decimal n))"
  using decimal_digits [of n] decimal_ne [of n] by (cases "decimal n") auto

lemma go_atoi_decimal:
  assumes "int n \<le> int64_max"
  shows "go_atoi (decimal n) = (int n, True)"
proof -
  have d: "list_all is_ascii_digit (decimal n)" "foldl digit_step 0 (decimal n) = n"
    using decimal_digits by auto
  have "n \<le> uint64_max" using assms by (simp add: int64_max_def uint64_max_def)
  then have p: "parse_uint (decimal n) = Some (n, True)"
    using parse_uint_digits_ok [OF d(1)] d(2) decimal_ne by (simp add: parse_uint_def)
  have h: "hd (decimal n) \<noteq> 45 \<and> hd (decimal n) \<noteq> 43"
    using hd_decimal_digit [of n] by (auto simp: is_ascii_digit_def)
  show ?thesis
    using p h assms decimal_ne [of n] by (cases "decimal n") (auto simp: go_atoi_def)
qed

lemma validate_identifier_uri_decimal:
  "validate_identifier_uri cfg \<lparr>uri_id = decimal n\<rparr> = []"
proof -
  have "decimal n \<noteq> []" "list_all is_ascii_digit (decimal n)"
    using decimal_ne decimal_digits by auto
  then show ?thesis by (simp add: validate_identifier_uri_def Suc_le_eq)
qed

lemma format_go_date_parse:
  assumes "go_date_parse s = Some d" and "is_ascii_digit (hd s)"
  shows "format_date d = s"
proof -
  obtain y m dd where d: "d = (y, m, dd)" by (cases d) auto
  from go_date_parse_shape [OF assms(1) [unfolded d] assms(2)] show ?thesis
    by (auto simp: d format_date_def pad2_digits pad4_digits simp del: of_nat_add of_nat_mult)
qed

lemma default_params: "page_param None = Some 1" "limit_param None = Some 10"
  by (simp_all add: page_param_def limit_param_def default_query_def go_atoi_def parse_uint_def
      is_ascii_digit_def digit_value_def uint64_max_def int64_max_def)

subsection \<open>Properties of the validation layer\<close>

text \<open>C7: If the letter class excludes the ASCII digits, an author name that contains
  a digit is rejected, and the first message of the 422 answer is for field
  \<open>Name\<close> with the text "invalid name (digit is not allowed)".\<close>

theorem name_digit_rejected:
  assumes "\<forall>c. is_ascii_digit c \<longrightarrow> \<not> is_letter cfg c"
      and "\<exists>c\<in>set (ab_name a). is_ascii_digit c"
  shows "hd (parse_validation_error (validate_author_base cfg a)) =
         \<lparr>vm_field = ''Name'', vm_message = ''invalid name (digit is not allowed)'', vm_value = ab_name a\<rparr>"
proof -
  obtain c where c: "c \<in> set (ab_name a)" "is_ascii_digit c" using assms(2) by blast
  then have ne: "ab_name a \<noteq> []" by auto
  have "\<not> valid_name cfg (ab_name a)"
    using c assms(1) by (auto simp: valid_name_def list_all_iff is_ascii_digit_def)
  with ne show ?thesis
    by (simp add: validate_author_base_def parse_validation_error_def error_message_def)
qed

theorem name_digit_rejected_witness:
  "hd (parse_validation_error (validate_author_base example_cfg
         \<lparr>ab_name = ustr_of ''Jo3'', ab_email = ustr_of ''jo@x.io'', ab_birth_date = None, ab_bio = None\<rparr>))
       = \<lparr>vm_field = ''Name'', vm_message = ''invalid name (digit is not allowed)'', vm_value = ustr_of ''Jo3''\<rparr>"
proof -
  have h1: "\<forall>c. is_ascii_digit c \<longrightarrow> \<not> is_letter example_cfg c"
    by (simp add: example_cfg_def is_ascii_digit_def)
  have h2: "\<exists>c\<in>set (ab_name \<lparr>ab_name = ustr_of ''Jo3'', ab_email = ustr_of ''jo@x.io'',
                                   ab_birth_date = None, ab_bio = None\<rparr>). is_ascii_digit c"
    by (simp add: is_ascii_digit_def)
  show ?thesis using name_digit_rejected [OF h1 h2] h1 h2 by simp
qed

text \<open>C8: The binding tags of \<open>AuthorBaseModel\<close> accept a payload exactly when the
  name has 3 to 65 runes and matches the name pattern, the e-mail is present and
  well-formed, and a given birth date parses in the layout 2006-01-02.\<close>

theorem validate_author_base_iff:
  "validate_author_base cfg a = [] \<longleftrightarrow>
     3 \<le> length (ab_name a) \<and> length (ab_name a) \<le> 65 \<and> valid_name cfg (ab_name a)
     \<and> ab_email a \<noteq> [] \<and> is_email cfg (ab_email a)
     \<and> (case ab_birth_date a of None \<Rightarrow> True | Some d \<Rightarrow> go_date_parse d \<noteq> None)"
  by (auto simp: validate_author_base_def omit_empty_def valid_name_def
      split: option.splits if_splits)

text \<open>C9: A date accepted by the \<open>datetime=2006-01-02\<close> tag whose year is written
  with four digits is printed back by \<open>pgtype.Date\<close>'s JSON form as the same
  string.\<close>

theorem date_format_roundtrip:
  assumes "go_date_parse s = Some d" and "is_ascii_digit (hd s)"
  shows "format_date d = s"
  using assms by (rule format_go_date_parse)

theorem date_format_roundtrip_witness:
  "go_date_parse (ustr_of ''2024-02-29'') = Some (2024, 2, 29)
   \<and> is_ascii_digit (hd (ustr_of ''2024-02-29''))
   \<and> format_date (2024, 2, 29) = ustr_of ''2024-02-29''"
proof -
  have h1: "go_date_parse (ustr_of ''2024-02-29'') = Some (2024, 2, 29)"
    by (simp add: go_date_parse_def time_atoi_def digits_value_def two_digits_def
        is_ascii_digit_def digit_value_def days_in_def is_leap_def)
  have h2: "is_ascii_digit (hd (ustr_of ''2024-02-29''))" by (simp add: is_ascii_digit_def)
  show ?thesis using date_format_roundtrip [OF h1 h2] h1 h2 by simp
qed

text \<open>C10: The binding tags of \<open>BookBaseModel\<close> accept a payload exactly when the title
  has 1 to 128 runes, the publication date parses, and the author identifier is
  a non-empty string of decimal digits.\<close>

theorem validate_book_base_iff:
  "validate_book_base cfg b = [] \<longleftrightarrow>
     1 \<le> length (bb_title b) \<and> length (bb_title b) \<le> 128
     \<and> go_date_parse (bb_pub_date b) \<noteq> None
     \<and> bb_author_id b \<noteq> [] \<and> list_all is_ascii_digit (bb_author_id b)"
  by (auto simp: validate_book_base_def go_date_parse_def split: option.splits if_splits)

text \<open>C11: The path identifier is accepted exactly when it is a non-empty string of
  decimal digits: \<open>gte=1\<close> bounds its length, not its value, so the
  identifier "0" passes and is read as 0.\<close>

theorem identifier_uri_accepts_zero:
  "(validate_identifier_uri cfg u = [] \<longleftrightarrow> uri_id u \<noteq> [] \<and> list_all is_ascii_digit (uri_id u))
   \<and> validate_identifier_uri cfg \<lparr>uri_id = ustr_of ''0''\<rparr> = []
   \<and> go_atoi (ustr_of ''0'') = (0, True)"
  by (auto simp: validate_identifier_uri_def is_ascii_digit_def go_atoi_def parse_uint_def
      digit_value_def uint64_max_def int64_max_def Suc_le_eq)

end
