(* ===== verification/Store.thy ===== *)
theory Store
  imports Pagination Validation
begin

text \<open>
  The relational store as the data access layer sees it: the tables
  \<open>authors\<close> and \<open>books\<close> of the schema in the spec (section 6), their
  serial sequences, and one function per SQL statement that
  src/pkg/models/author.go and book.go send.  PostgreSQL is an external
  collaborator; what the model takes from it is the behaviour of these
  statements: a serial id is drawn before the constraints are checked (a
  failed insert consumes it), the unique index on \<open>email\<close> gives SQLSTATE
  23505, the foreign key \<open>books.author_id\<close> gives 23503 on insert, update
  and on the deletion of a referenced author, a negative \<open>OFFSET\<close> gives
  2201X, and text parameters are converted at bind time (a date outside the
  calendar 22008, a malformed one 22007, an id that is not a decimal
  \<open>integer\<close> 22P02 or 22003).  The ids are \<open>integer\<close> columns fed by
  \<open>integer\<close> sequences: \<open>nextval\<close> fails with 2200H once a sequence reaches
  \<open>int4_max\<close>, and pgx refuses to encode a Go \<open>int\<close> id parameter outside
  the \<open>int4\<close> range before the statement is sent.  \<open>db_online\<close> is false
  when the store cannot be reached; every statement then fails with a
  connection error.
\<close>

datatype go_error =
    PgError string
  | ErrNoRows
  | ErrTooManyRows
  | ErrTooManyAffectedRows
  | ErrScanNull
  | ConnError
  | DivideByZero
  | EncodeError

record author_row =
  ar_id :: int
  ar_name :: ustr
  ar_email :: ustr
  ar_birth_date :: "date option"
  ar_bio :: "ustr option"

record book_row =
  br_id :: int
  br_title :: ustr
  br_desc :: "ustr option"
  br_pub_date :: date
  br_author_id :: int

record db =
  db_online :: bool
  db_authors :: "author_row list"
  db_books :: "book_row list"
  db_author_seq :: int
  db_book_seq :: int

subsection \<open>Parameter conversion\<close>

definition int4_max :: int where
  "int4_max = 2 ^ 31 - 1"

text \<open>pgx encodes a Go \<open>int\<close> bound to an \<open>integer\<close> parameter on the client and
  refuses a value outside the \<open>int4\<close> range before the statement runs.\<close>

definition in_int4 :: "int \<Rightarrow> bool" where
  "in_int4 i \<longleftrightarrow> - (2 ^ 31) \<le> i \<and> i \<le> int4_max"

text \<open>A \<open>date\<close> parameter sent as text: the layout the validator admits, with
  a year of four digits from 1 on.\<close>

definition pg_date_in :: "ustr \<Rightarrow> go_error + date" where
  "pg_date_in s =
     (case go_date_parse s of
        Some (y, m, dd) \<Rightarrow>
          if is_ascii_digit (hd s) \<and> 1 \<le> y then Inr (y, m, dd) else Inl (PgError ''22008'')
      | None \<Rightarrow> Inl (PgError ''22007''))"

text \<open>An \<open>integer\<close> parameter sent as text (decimal digits only).\<close>

definition pg_int4_in :: "ustr \<Rightarrow> go_error + int" where
  "pg_int4_in s =
     (case digits_value s of
        Some n \<Rightarrow> if int n \<le> int4_max then Inr (int n) else Inl (PgError ''22003'')
      | None \<Rightarrow> Inl (PgError ''22P02''))"

definition opt_date_in :: "ustr option \<Rightarrow> go_error + date option" where
  "opt_date_in v = (case v of None \<Rightarrow> Inr None | Some s \<Rightarrow> map_sum id Some (pg_date_in s))"

subsection \<open>Queries\<close>

definition count_books_of :: "db \<Rightarrow> int \<Rightarrow> nat" where
  "count_books_of d i = length (filter (\<lambda>b. br_author_id b = i) (db_books d))"

definition author_exists :: "db \<Rightarrow> int \<Rightarrow> bool" where
  "author_exists d i \<longleftrightarrow> i \<in> ar_id ` set (db_authors d)"

definition find_author :: "db \<Rightarrow> int \<Rightarrow> author_row option" where
  "find_author d i = find (\<lambda>r. ar_id r = i) (db_authors d)"

text \<open>\<open>pgx.CollectExactlyOneRow\<close> and \<open>pgxscan.ScanOne\<close>.\<close>

definition collect_exactly_one :: "'a list \<Rightarrow> go_error + 'a" where
  "collect_exactly_one xs = (case xs of [] \<Rightarrow> Inl ErrNoRows | [x] \<Rightarrow> Inr x | _ \<Rightarrow> Inl ErrTooManyRows)"

text \<open>\<open>LIMIT l OFFSET off\<close>: the offset is checked first.\<close>

definition sql_select_page :: "int \<Rightarrow> int \<Rightarrow> 'a list \<Rightarrow> go_error + 'a list" where
  "sql_select_page l off xs =
     (if off < 0 then Inl (PgError ''2201X'') else if l < 0 then Inl (PgError ''2201W'')
      else Inr (limit_offset l off xs))"

text \<open>The author columns with the \<open>COUNT(b.id)\<close> of a \<open>LEFT JOIN books\<close>.\<close>

definition with_total :: "db \<Rightarrow> author_row \<Rightarrow> author_row \<times> nat" where
  "with_total d r = (r, count_books_of d (ar_id r))"

definition sql_author_detail :: "db \<Rightarrow> int \<Rightarrow> go_error + (author_row \<times> nat) list" where
  "sql_author_detail d i =
     (if \<not> db_online d then Inl ConnError
      else if \<not> in_int4 i then Inl EncodeError
      else Inr (map (with_total d) (filter (\<lambda>r. ar_id r = i) (db_authors d))))"

definition sql_count_authors :: "db \<Rightarrow> go_error + int" where
  "sql_count_authors d = (if \<not> db_online d then Inl ConnError else Inr (int (length (db_authors d))))"

text \<open>\<open>ORDER BY a.id DESC\<close>.\<close>

definition authors_desc :: "db \<Rightarrow> author_row list" where
  "authors_desc d = rev (sort_key ar_id (db_authors d))"

definition sql_fetch_authors :: "db \<Rightarrow> int \<Rightarrow> int \<Rightarrow> go_error + (author_row \<times> nat) list" where
  "sql_fetch_authors d l off =
     (if \<not> db_online d then Inl ConnError else sql_select_page l off (map (with_total d) (authors_desc d)))"

text \<open>A book with its \<open>LEFT JOIN authors\<close> columns (absent when no author
  matches) and the author's book count.\<close>

definition book_join :: "db \<Rightarrow> book_row \<Rightarrow> book_row \<times> (author_row \<times> nat) option" where
  "book_join d b = (b, map_option (with_total d) (find_author d (br_author_id b)))"

definition sql_book_detail :: "db \<Rightarrow> int \<Rightarrow> go_error + (book_row \<times> (author_row \<times> nat) option) list" where
  "sql_book_detail d i =
     (if \<not> db_online d then Inl ConnError
      else if \<not> in_int4 i then Inl EncodeError
      else Inr (map (book_join d) (filter (\<lambda>b. br_id b = i) (db_books d))))"

text \<open>\<open>SELECT COUNT(books.id) FROM books\<close>, with the author filter
  \<open>JOIN authors ... where authors.id = @author_id\<close> when one is given.\<close>

definition sql_count_books :: "db \<Rightarrow> int option \<Rightarrow> go_error + int" where
  "sql_count_books d a =
     (if \<not> db_online d then Inl ConnError
      else if \<not> pred_option in_int4 a then Inl EncodeError
      else Inr (int (length (filter (\<lambda>b. case a of None \<Rightarrow> True
                                          | Some i \<Rightarrow> br_author_id b = i \<and> author_exists d i) (db_books d)))))"

definition books_desc :: "db \<Rightarrow> book_row list" where
  "books_desc d = rev (sort_key br_id (db_books d))"

text \<open>The book listing: the author filter \<open>WHERE a.id = @author_id\<close> keeps the
  rows whose joined author has that id.\<close>

definition sql_fetch_books :: "db \<Rightarrow> int option \<Rightarrow> int \<Rightarrow> int \<Rightarrow>
    go_error + (book_row \<times> (author_row \<times> nat) option) list" where
  "sql_fetch_books d a l off =
     (if \<not> db_online d then Inl ConnError
      else if \<not> pred_option in_int4 a then Inl EncodeError
      else sql_select_page l off
             (filter (\<lambda>(b, j). case a of None \<Rightarrow> True
                                | Some i \<Rightarrow> (case j of Some (r, _) \<Rightarrow> ar_id r = i | None \<Rightarrow> False))
                (map (book_join d) (books_desc d))))"

subsection \<open>Statements that write\<close>

text \<open>\<open>INSERT INTO authors ... RETURNING ...\<close>: bind-time conversion of the
  birth date, then \<open>nextval\<close> of the \<open>serial\<close> sequence (an \<open>integer\<close>
  sequence: at \<open>int4_max\<close> it fails with 2200H and stays), then the unique index
  on \<open>email\<close>.  The result
  pairs the outcome with the store afterwards; a failed statement leaves the
  tables as they were but not the sequence.\<close>

definition sql_insert_author :: "db \<Rightarrow> author_base \<Rightarrow> (go_error + author_row) \<times> db" where
  "sql_insert_author d a =
     (if \<not> db_online d then (Inl ConnError, d)
      else case opt_date_in (ab_birth_date a) of
        Inl e \<Rightarrow> (Inl e, d)
      | Inr bd \<Rightarrow>
          if int4_max \<le> db_author_seq d then (Inl (PgError ''2200H''), d) else
          (let i = db_author_seq d + 1;
               d1 = d\<lparr>db_author_seq := i\<rparr>;
               r = \<lparr>ar_id = i, ar_name = ab_name a, ar_email = ab_email a,
                    ar_birth_date = bd, ar_bio = ab_bio a\<rparr>
           in if ab_email a \<in> ar_email ` set (db_authors d) then (Inl (PgError ''23505''), d1)
              else (Inr r, d1\<lparr>db_authors := db_authors d @ [r]\<rparr>)))"

text \<open>\<open>UPDATE authors SET ... WHERE id = @id RETURNING ...\<close>; no matching row
  makes \<open>QueryRow(...).Scan\<close> fail with \<open>pgx.ErrNoRows\<close>.\<close>

definition sql_update_author :: "db \<Rightarrow> int \<Rightarrow> author_base \<Rightarrow> (go_error + author_row) \<times> db" where
  "sql_update_author d i a =
     (if \<not> db_online d then (Inl ConnError, d)
      else if \<not> in_int4 i then (Inl EncodeError, d)
      else case opt_date_in (ab_birth_date a) of
        Inl e \<Rightarrow> (Inl e, d)
      | Inr bd \<Rightarrow>
          (let upd = (\<lambda>r. r\<lparr>ar_name := ab_name a, ar_email := ab_email a,
                              ar_birth_date := bd, ar_bio := ab_bio a\<rparr>)
           in case find_author d i of
                None \<Rightarrow> (Inl ErrNoRows, d)
              | Some r \<Rightarrow>
                  if ab_email a \<in> ar_email ` set (filter (\<lambda>r. ar_id r \<noteq> i) (db_authors d))
                  then (Inl (PgError ''23505''), d)
                  else (Inr (upd r),
                        d\<lparr>db_authors := map (\<lambda>r. if ar_id r = i then upd r else r) (db_authors d)\<rparr>)))"

text \<open>\<open>DELETE FROM authors WHERE id = $1\<close>: the number of rows affected, or
  the foreign key's error while a book still references the author.\<close>

definition sql_delete_author :: "db \<Rightarrow> int \<Rightarrow> (go_error + nat) \<times> db" where
  "sql_delete_author d i =
     (if \<not> db_online d then (Inl ConnError, d)
      else if \<not> in_int4 i then (Inl EncodeError, d)
      else if i \<in> br_author_id ` set (db_books d) \<and> author_exists d i
      then (Inl (PgError ''23503''), d)
      else (Inr (length (filter (\<lambda>r. ar_id r = i) (db_authors d))),
            d\<lparr>db_authors := filter (\<lambda>r. ar_id r \<noteq> i) (db_authors d)\<rparr>))"

text \<open>\<open>INSERT INTO books ... RETURNING ...\<close>: the date and the author id are
  converted in parameter order, \<open>nextval\<close> is drawn, and the foreign key is
  checked at the end of the statement.\<close>

definition sql_insert_book :: "db \<Rightarrow> book_base \<Rightarrow> (go_error + book_row) \<times> db" where
  "sql_insert_book d b =
     (if \<not> db_online d then (Inl ConnError, d)
      else case pg_date_in (bb_pub_date b) of
        Inl e \<Rightarrow> (Inl e, d)
      | Inr pd \<Rightarrow>
          (case pg_int4_in (bb_author_id b) of
             Inl e \<Rightarrow> (Inl e, d)
           | Inr ai \<Rightarrow>
               if int4_max \<le> db_book_seq d then (Inl (PgError ''2200H''), d) else
               (let i = db_book_seq d + 1;
                    d1 = d\<lparr>db_book_seq := i\<rparr>;
                    r = \<lparr>br_id = i, br_title = bb_title b, br_desc = bb_desc b,
                         br_pub_date = pd, br_author_id = ai\<rparr>
                in if \<not> author_exists d ai then (Inl (PgError ''23503''), d1)
                   else (Inr r, d1\<lparr>db_books := db_books d @ [r]\<rparr>))))"

definition sql_update_book :: "db \<Rightarrow> int \<Rightarrow> book_base \<Rightarrow> (go_error + book_row) \<times> db" where
  "sql_update_book d i b =
     (if \<not> db_online d then (Inl ConnError, d)
      else if \<not> in_int4 i then (Inl EncodeError, d)
      else case pg_date_in (bb_pub_date b) of
        Inl e \<Rightarrow> (Inl e, d)
      | Inr pd \<Rightarrow>
          (case pg_int4_in (bb_author_id b) of
             Inl e \<Rightarrow> (Inl e, d)
           | Inr ai \<Rightarrow>
               (let upd = (\<lambda>r. r\<lparr>br_title := bb_title b, br_desc := bb_desc b,
                                   br_pub_date := pd, br_author_id := ai\<rparr>)
                in case find (\<lambda>r. br_id r = i) (db_books d) of
                     None \<Rightarrow> (Inl ErrNoRows, d)
                   | Some r \<Rightarrow>
                       if \<not> author_exists d ai then (Inl (PgError ''23503''), d)
                       else (Inr (upd r),
                             d\<lparr>db_books := map (\<lambda>r. if br_id r = i then upd r else r) (db_books d)\<rparr>))))"

definition sql_delete_book :: "db \<Rightarrow> int \<Rightarrow> (go_error + nat) \<times> db" where
  "sql_delete_book d i =
     (if \<not> db_online d then (Inl ConnError, d)
      else if \<not> in_int4 i then (Inl EncodeError, d)
      else (Inr (length (filter (\<lambda>r. br_id r = i) (db_books d))),
            d\<lparr>db_books := filter (\<lambda>r. br_id r \<noteq> i) (db_books d)\<rparr>))"

subsection \<open>The store invariant\<close>

text \<open>What the schema guarantees of every committed state: ids are distinct,
  positive and not beyond their sequence, the sequences stay within \<open>int4\<close>,
  e-mails are unique, and every book references an existing author.\<close>

definition db_wf :: "db \<Rightarrow> bool" where
  "db_wf d \<longleftrightarrow>
     distinct (map ar_id (db_authors d)) \<and> distinct (map br_id (db_books d))
     \<and> distinct (map ar_email (db_authors d))
     \<and> list_all (\<lambda>r. 0 < ar_id r \<and> ar_id r \<le> db_author_seq d) (db_authors d)
     \<and> list_all (\<lambda>b. 0 < br_id b \<and> br_id b \<le> db_book_seq d) (db_books d)
     \<and> list_all (\<lambda>b. author_exists d (br_author_id b)) (db_books d)
     \<and> 0 \<le> db_author_seq d \<and> 0 \<le> db_book_seq d
     \<and> db_author_seq d \<le> int4_max \<and> db_book_seq d \<le> int4_max"

subsection \<open>Statements as steps\<close>

text \<open>Every write the data access layer sends is one of these statements, and
  each runs atomically in the store; concurrent requests interleave at the
  granularity of statements, so the states the store passes through are the
  ones reachable from the empty store by statements in some order, with the
  connection going up and down in between.\<close>

datatype stmt = InsAuthor author_base | UpdAuthor int author_base | DelAuthor int
  | InsBook book_base | UpdBook int book_base | DelBook int

fun exec_stmt :: "db \<Rightarrow> stmt \<Rightarrow> db" where
  "exec_stmt d (InsAuthor a) = snd (sql_insert_author d a)"
| "exec_stmt d (UpdAuthor i a) = snd (sql_update_author d i a)"
| "exec_stmt d (DelAuthor i) = snd (sql_delete_author d i)"
| "exec_stmt d (InsBook b) = snd (sql_insert_book d b)"
| "exec_stmt d (UpdBook i b) = snd (sql_update_book d i b)"
| "exec_stmt d (DelBook i) = snd (sql_delete_book d i)"

definition empty_db :: db where
  "empty_db = \<lparr>db_online = True, db_authors = [], db_books = [], db_author_seq = 0, db_book_seq = 0\<rparr>"

inductive store_reachable :: "db \<Rightarrow> bool" where
  init: "store_reachable empty_db"
| exec: "store_reachable d \<Longrightarrow> store_reachable (exec_stmt d s)"
| online: "store_reachable d \<Longrightarrow> store_reachable (d\<lparr>db_online := b\<rparr>)"

text \<open>An author payload for the witnesses.\<close>

definition example_author :: author_base where
  "example_author =
     \<lparr>ab_name = ustr_of ''Ann'', ab_email = ustr_of ''ann@x.io'', ab_birth_date = None, ab_bio = None\<rparr>"

text \<open>The abstract view of the tables: the author table as a finite map from
  ids to rows, and the pair of tables without the sequences.\<close>

definition authors_map :: "db \<Rightarrow> int \<rightharpoonup> author_row" where
  "authors_map d = map_of (map (\<lambda>r. (ar_id r, r)) (db_authors d))"

definition db_tables :: "db \<Rightarrow> author_row list \<times> book_row list" where
  "db_tables d = (db_authors d, db_books d)"

text \<open>A store with one author and one book, for the witnesses.\<close>

definition example_store :: db where
  "example_store =
     empty_db\<lparr>db_authors := [\<lparr>ar_id = 1, ar_name = ustr_of ''Ann'', ar_email = ustr_of ''ann@x.io'',
                               ar_birth_date = None, ar_bio = None\<rparr>],
              db_books := [\<lparr>br_id = 1, br_title = ustr_of ''Dune'', br_desc = None,
                             br_pub_date = (1965, 8, 1), br_author_id = 1\<rparr>],
              db_author_seq := 1, db_book_seq := 1\<rparr>"

text \<open>Statements executed in order, and the statements that delete every
  book and then every author of a state.\<close>

definition exec_stmts :: "db \<Rightarrow> stmt list \<Rightarrow> db" where
  "exec_stmts d ss = foldl exec_stmt d ss"

definition drain_stmts :: "db \<Rightarrow> stmt list" where
  "drain_stmts d = map (\<lambda>r. DelBook (br_id r)) (db_books d) @ map (\<lambda>r. DelAuthor (ar_id r)) (db_authors d)"

subsection \<open>Preservation of the store invariant\<close>

lemmas store_eval [model_simps] =
  sql_insert_author_def sql_update_author_def sql_delete_author_def sql_insert_book_def
  sql_update_book_def sql_delete_book_def sql_author_detail_def sql_book_detail_def
  sql_count_authors_def sql_count_books_def sql_fetch_authors_def sql_fetch_books_def
  sql_select_page_def opt_date_in_def pg_date_in_def pg_int4_in_def collect_exactly_one_def
  with_total_def book_join_def find_author_def count_books_of_def author_exists_def
  authors_desc_def books_desc_def empty_db_def example_author_def int4_max_def in_int4_def

lemma author_exists_update_seq [simp]:
  "author_exists (d\<lparr>db_author_seq := s\<rparr>) i = author_exists d i"
  "author_exists (d\<lparr>db_book_seq := s\<rparr>) i = author_exists d i"
  "author_exists (d\<lparr>db_books := bs\<rparr>) i = author_exists d i"
  by (simp_all add: author_exists_def)

lemma wf_bump_author_seq:
  "db_wf d \<Longrightarrow> db_author_seq d < int4_max \<Longrightarrow> db_wf (d\<lparr>db_author_seq := db_author_seq d + 1\<rparr>)"
  unfolding db_wf_def list_all_iff by force

lemma wf_bump_book_seq:
  "db_wf d \<Longrightarrow> db_book_seq d < int4_max \<Longrightarrow> db_wf (d\<lparr>db_book_seq := db_book_seq d + 1\<rparr>)"
  unfolding db_wf_def list_all_iff by force

lemma wf_add_author:
  assumes wf: "db_wf d" and id: "ar_id r = db_author_seq d + 1"
      and sq: "db_author_seq d < int4_max" and em: "ar_email r \<notin> ar_email ` set (db_authors d)"
  shows "db_wf (d\<lparr>db_author_seq := db_author_seq d + 1, db_authors := db_authors d @ [r]\<rparr>)"
proof -
  have "ar_id r \<notin> ar_id ` set (db_authors d)"
    using wf id unfolding db_wf_def list_all_iff by force
  then show ?thesis
    using wf id sq em unfolding db_wf_def list_all_iff author_exists_def by force
qed

lemma wf_add_book:
  assumes wf: "db_wf d" and id: "br_id r = db_book_seq d + 1"
      and sq: "db_book_seq d < int4_max" and fk: "author_exists d (br_author_id r)"
  shows "db_wf (d\<lparr>db_book_seq := db_book_seq d + 1, db_books := db_books d @ [r]\<rparr>)"
proof -
  have "br_id r \<notin> br_id ` set (db_books d)"
    using wf id unfolding db_wf_def list_all_iff by force
  then show ?thesis
    using wf id sq fk unfolding db_wf_def list_all_iff author_exists_def by force
qed

lemma wf_delete_author:
  assumes wf: "db_wf d" and fk: "i \<notin> br_author_id ` set (db_books d)"
  shows "db_wf (d\<lparr>db_authors := filter (\<lambda>r. ar_id r \<noteq> i) (db_authors d)\<rparr>)"
proof -
  have fk': "author_exists (d\<lparr>db_authors := filter (\<lambda>r. ar_id r \<noteq> i) (db_authors d)\<rparr>) (br_author_id b)"
    if b: "b \<in> set (db_books d)" for b
  proof -
    obtain r where r: "r \<in> set (db_authors d)" "ar_id r = br_author_id b"
      using wf b by (auto simp: db_wf_def list_all_iff author_exists_def)
    moreover have "br_author_id b \<noteq> i" using fk b by force
    ultimately show ?thesis by (force simp: author_exists_def)
  qed
  show ?thesis
    using wf fk' unfolding db_wf_def list_all_iff by (simp add: distinct_map_filter)
qed

lemma wf_delete_book:
  assumes wf: "db_wf d"
  shows "db_wf (d\<lparr>db_books := filter (\<lambda>r. br_id r \<noteq> i) (db_books d)\<rparr>)"
  using wf unfolding db_wf_def list_all_iff author_exists_def
  by (auto simp: distinct_map_filter)

lemma wf_update_author:
  assumes wf: "db_wf d"
      and keep: "\<And>r. ar_id (upd r) = ar_id r"
      and em: "\<And>r. ar_id r = i \<Longrightarrow> ar_email (upd r) \<notin> ar_email ` set (filter (\<lambda>r. ar_id r \<noteq> i) (db_authors d))"
  shows "db_wf (d\<lparr>db_authors := map (\<lambda>r. if ar_id r = i then upd r else r) (db_authors d)\<rparr>)"
proof -
  let ?f = "\<lambda>r. if ar_id r = i then upd r else r"
  have ids: "map ar_id (map ?f (db_authors d)) = map ar_id (db_authors d)"
    by (simp add: keep)
  have di: "distinct (map ar_id (db_authors d))" and de: "distinct (map ar_email (db_authors d))"
    using wf by (simp_all add: db_wf_def)
  have "inj_on (ar_email \<circ> ?f) (set (db_authors d))"
  proof (rule inj_onI)
    fix x y assume x: "x \<in> set (db_authors d)" and y: "y \<in> set (db_authors d)"
      and eq: "(ar_email \<circ> ?f) x = (ar_email \<circ> ?f) y"
    show "x = y"
    proof (cases "ar_id x = i"; cases "ar_id y = i")
      assume "ar_id x = i" "ar_id y = i"
      then show ?thesis using x y di by (metis distinct_map inj_onD)
    next
      assume xi: "ar_id x = i" and yi: "ar_id y \<noteq> i"
      then have "ar_email y = ar_email (upd x)" using eq by simp
      moreover have "y \<in> set (filter (\<lambda>r. ar_id r \<noteq> i) (db_authors d))" using y yi by simp
      ultimately have "ar_email (upd x) \<in> ar_email ` set (filter (\<lambda>r. ar_id r \<noteq> i) (db_authors d))"
        by (metis imageI)
      with em [OF xi] show ?thesis by blast
    next
      assume xi: "ar_id x \<noteq> i" and yi: "ar_id y = i"
      then have "ar_email x = ar_email (upd y)" using eq by simp
      moreover have "x \<in> set (filter (\<lambda>r. ar_id r \<noteq> i) (db_authors d))" using x xi by simp
      ultimately have "ar_email (upd y) \<in> ar_email ` set (filter (\<lambda>r. ar_id r \<noteq> i) (db_authors d))"
        by (metis imageI)
      with em [OF yi] show ?thesis by blast
    next
      assume "ar_id x \<noteq> i" "ar_id y \<noteq> i"
      then show ?thesis using eq x y de by (simp add: distinct_map inj_on_def)
    qed
  qed
  moreover have "distinct (db_authors d)" using di by (simp add: distinct_map)
  ultimately have "distinct (map (ar_email \<circ> ?f) (db_authors d))"
    by (simp only: distinct_map)
  then have "distinct (map ar_email (map ?f (db_authors d)))" by simp
  moreover have "ar_id ` set (map ?f (db_authors d)) = ar_id ` set (db_authors d)"
    using ids by (metis list.set_map)
  moreover have fid: "\<And>r. ar_id (?f r) = ar_id r" by (simp add: keep)
  ultimately show ?thesis
    using wf ids unfolding db_wf_def list_all_iff author_exists_def
    by (simp add: fid o_def del: map_map) (auto simp: keep)
qed

lemma wf_update_book:
  assumes wf: "db_wf d"
      and keep: "\<And>r. br_id (upd r) = br_id r"
      and fk: "\<And>r. author_exists d (br_author_id (upd r))"
  shows "db_wf (d\<lparr>db_books := map (\<lambda>r. if br_id r = i then upd r else r) (db_books d)\<rparr>)"
proof -
  have "map br_id (map (\<lambda>r. if br_id r = i then upd r else r) (db_books d)) = map br_id (db_books d)"
    by (simp add: keep)
  then show ?thesis
    using wf fk keep unfolding db_wf_def list_all_iff author_exists_def
    by (auto simp del: map_map)
qed

lemma fk_author_exists:
  "db_wf d \<Longrightarrow> i \<in> br_author_id ` set (db_books d) \<Longrightarrow> author_exists d i"
  unfolding db_wf_def list_all_iff by blast

lemma sql_insert_author_wf:
  assumes "db_wf d" and "sql_insert_author d a = (res, d')"
  shows "db_wf d'"
  using assms wf_bump_author_seq [OF assms(1)] wf_add_author [OF assms(1)]
  by (auto simp: sql_insert_author_def Let_def split: sum.splits if_splits)

lemma sql_update_author_wf:
  assumes "db_wf d" and "sql_update_author d i a = (res, d')"
  shows "db_wf d'"
  using assms wf_update_author [OF assms(1)]
  by (auto simp: sql_update_author_def Let_def split: sum.splits if_splits option.splits)

lemma sql_delete_author_wf:
  assumes "db_wf d" and "sql_delete_author d i = (res, d')"
  shows "db_wf d'"
  using assms wf_delete_author [OF assms(1)] fk_author_exists [OF assms(1)]
  by (auto simp: sql_delete_author_def split: if_splits)

lemma sql_insert_book_wf:
  assumes "db_wf d" and "sql_insert_book d b = (res, d')"
  shows "db_wf d'"
  using assms wf_bump_book_seq [OF assms(1)] wf_add_book [OF assms(1)]
  by (auto simp: sql_insert_book_def Let_def split: sum.splits if_splits)

lemma sql_update_book_wf:
  assumes "db_wf d" and "sql_update_book d i b = (res, d')"
  shows "db_wf d'"
  using assms wf_update_book [OF assms(1)]
  by (auto simp: sql_update_book_def Let_def split: sum.splits if_splits option.splits)

lemma sql_delete_book_wf:
  assumes "db_wf d" and "sql_delete_book d i = (res, d')"
  shows "db_wf d'"
  using assms wf_delete_book [OF assms(1)]
  by (auto simp: sql_delete_book_def split: if_splits)

lemmas sql_wf = sql_insert_author_wf sql_update_author_wf sql_delete_author_wf
  sql_insert_book_wf sql_update_book_wf sql_delete_book_wf

lemma exec_stmt_wf:
  assumes "db_wf d"
  shows "db_wf (exec_stmt d s)"
proof (cases s)
  case (InsAuthor a)
  then show ?thesis using sql_insert_author_wf [OF assms] by (cases "sql_insert_author d a") simp
next
  case (UpdAuthor i a)
  then show ?thesis using sql_update_author_wf [OF assms] by (cases "sql_update_author d i a") simp
next
  case (DelAuthor i)
  then show ?thesis using sql_delete_author_wf [OF assms] by (cases "sql_delete_author d i") simp
next
  case (InsBook b)
  then show ?thesis using sql_insert_book_wf [OF assms] by (cases "sql_insert_book d b") simp
next
  case (UpdBook i b)
  then show ?thesis using sql_update_book_wf [OF assms] by (cases "sql_update_book d i b") simp
next
  case (DelBook i)
  then show ?thesis using sql_delete_book_wf [OF assms] by (cases "sql_delete_book d i") simp
qed

lemma db_wf_online [simp]: "db_wf (d\<lparr>db_online := b\<rparr>) = db_wf d"
  by (simp add: db_wf_def author_exists_def)

lemma insort_key_append_greater:
  "f y < f x \<Longrightarrow> insort_key f y (zs @ [x]) = insort_key f y zs @ [x]"
  by (induction zs) auto

lemma sort_key_append_max:
  "(\<forall>y\<in>set xs. f y < f x) \<Longrightarrow> sort_key f (xs @ [x]) = sort_key f xs @ [x]"
  by (induction xs) (auto simp: insort_key_append_greater)

lemma sql_insert_author_Inr:
  assumes "sql_insert_author d a = (Inr r, d')"
  shows "ar_id r = db_author_seq d + 1 \<and> db_authors d' = db_authors d @ [r]"
  using assms by (auto simp: sql_insert_author_def Let_def split: sum.splits if_splits)

subsection \<open>Statements on a given store\<close>

lemma sql_insert_author_dup:
  assumes "db_online d" "opt_date_in (ab_birth_date a) = Inr bd" "db_author_seq d < int4_max"
      and "ab_email a \<in> ar_email ` set (db_authors d)"
  shows "sql_insert_author d a = (Inl (PgError ''23505''), d\<lparr>db_author_seq := db_author_seq d + 1\<rparr>)"
  using assms by (simp add: sql_insert_author_def Let_def)

lemma sql_insert_author_ok:
  assumes "db_online d" "opt_date_in (ab_birth_date a) = Inr bd" "db_author_seq d < int4_max"
      and "ab_email a \<notin> ar_email ` set (db_authors d)"
  shows "sql_insert_author d a =
           (Inr \<lparr>ar_id = db_author_seq d + 1, ar_name = ab_name a, ar_email = ab_email a,
                      ar_birth_date = bd, ar_bio = ab_bio a\<rparr>,
            d\<lparr>db_author_seq := db_author_seq d + 1,
              db_authors := db_authors d @ [\<lparr>ar_id = db_author_seq d + 1, ar_name = ab_name a, ar_email = ab_email a,
                      ar_birth_date = bd, ar_bio = ab_bio a\<rparr>]\<rparr>)"
  using assms by (simp add: sql_insert_author_def Let_def)

lemma count_books_fresh:
  assumes "db_wf d" "db_author_seq d < i"
  shows "count_books_of d i = 0"
proof -
  have "\<forall>b\<in>set (db_books d). br_author_id b \<noteq> i"
    using assms unfolding db_wf_def list_all_iff author_exists_def by fastforce
  then show ?thesis by (simp add: count_books_of_def filter_empty_conv)
qed

lemma sql_insert_book_ok:
  assumes "db_online d" "pg_date_in (bb_pub_date b) = Inr pd" "pg_int4_in (bb_author_id b) = Inr ai"
      and "db_book_seq d < int4_max" and "author_exists d ai"
  shows "sql_insert_book d b =
           (Inr \<lparr>br_id = db_book_seq d + 1, br_title = bb_title b, br_desc = bb_desc b,
                      br_pub_date = pd, br_author_id = ai\<rparr>,
            d\<lparr>db_book_seq := db_book_seq d + 1,
              db_books := db_books d @ [\<lparr>br_id = db_book_seq d + 1, br_title = bb_title b, br_desc = bb_desc b,
                      br_pub_date = pd, br_author_id = ai\<rparr>]\<rparr>)"
  using assms by (simp add: sql_insert_book_def Let_def)

lemma books_desc_strict:
  assumes "distinct (map br_id (db_books d))"
  shows "sorted_wrt (>) (map br_id (books_desc d))"
proof -
  have "mset (map br_id (sort_key br_id (db_books d))) = mset (map br_id (db_books d))"
    by simp
  then have "distinct (map br_id (sort_key br_id (db_books d)))"
    using assms mset_eq_imp_distinct_iff by blast
  then have "sorted_wrt (<) (map br_id (sort_key br_id (db_books d)))"
    by (simp add: strict_sorted_iff sorted_sort_key)
  then show ?thesis by (simp add: books_desc_def rev_map [symmetric] sorted_wrt_rev)
qed

lemma sql_count_books_author:
  "db_online d \<Longrightarrow> in_int4 i \<Longrightarrow> author_exists d i \<Longrightarrow> sql_count_books d (Some i) = Inr (int (count_books_of d i))"
  by (simp add: sql_count_books_def count_books_of_def)

lemma sql_fetch_books_ok:
  "db_online d \<Longrightarrow> pred_option in_int4 a \<Longrightarrow> 0 \<le> l \<Longrightarrow> 0 \<le> off \<Longrightarrow>
   sql_fetch_books d a l off =
     Inr (limit_offset l off
            (filter (\<lambda>(b, j). case a of None \<Rightarrow> True
                               | Some i \<Rightarrow> (case j of Some (r, _) \<Rightarrow> ar_id r = i | None \<Rightarrow> False))
               (map (book_join d) (books_desc d))))"
  by (simp add: sql_fetch_books_def sql_select_page_def)

lemma exec_stmts_reachable:
  "store_reachable d \<Longrightarrow> store_reachable (exec_stmts d ss)"
  by (induction ss arbitrary: d) (simp_all add: exec_stmts_def store_reachable.exec)

lemma exec_delete_books:
  "db_online d \<Longrightarrow> list_all (\<lambda>r. in_int4 (br_id r)) bs \<Longrightarrow>
   exec_stmts d (map (\<lambda>r. DelBook (br_id r)) bs)
     = d\<lparr>db_books := filter (\<lambda>r. br_id r \<notin> br_id ` set bs) (db_books d)\<rparr>"
proof (induction bs arbitrary: d)
  case Nil
  then show ?case by (simp add: exec_stmts_def)
next
  case (Cons b bs)
  have "exec_stmt d (DelBook (br_id b)) = d\<lparr>db_books := filter (\<lambda>r. br_id r \<noteq> br_id b) (db_books d)\<rparr>"
    using Cons.prems by (simp add: sql_delete_book_def)
  then show ?case using Cons.IH [of "d\<lparr>db_books := filter (\<lambda>r. br_id r \<noteq> br_id b) (db_books d)\<rparr>"] Cons.prems
    by (simp add: exec_stmts_def conj_commute)
qed

lemma exec_delete_authors:
  "db_online d \<Longrightarrow> db_books d = [] \<Longrightarrow> list_all (\<lambda>r. in_int4 (ar_id r)) as \<Longrightarrow>
   exec_stmts d (map (\<lambda>r. DelAuthor (ar_id r)) as)
     = d\<lparr>db_authors := filter (\<lambda>r. ar_id r \<notin> ar_id ` set as) (db_authors d)\<rparr>"
proof (induction as arbitrary: d)
  case Nil
  then show ?case by (simp add: exec_stmts_def)
next
  case (Cons a as)
  have "exec_stmt d (DelAuthor (ar_id a)) = d\<lparr>db_authors := filter (\<lambda>r. ar_id r \<noteq> ar_id a) (db_authors d)\<rparr>"
    using Cons.prems by (simp add: sql_delete_author_def)
  then show ?case using Cons.IH [of "d\<lparr>db_authors := filter (\<lambda>r. ar_id r \<noteq> ar_id a) (db_authors d)\<rparr>"] Cons.prems
    by (simp add: exec_stmts_def conj_commute)
qed

lemma wf_in_int4:
  assumes "db_wf d"
  shows "list_all (\<lambda>r. in_int4 (ar_id r)) (db_authors d)" and "list_all (\<lambda>b. in_int4 (br_id b)) (db_books d)"
  using assms by (auto simp: db_wf_def list_all_iff in_int4_def)

lemma wf_author_in_int4: "db_wf d \<Longrightarrow> r \<in> set (db_authors d) \<Longrightarrow> in_int4 (ar_id r)"
  using wf_in_int4(1) by (fastforce simp: list_all_iff)

lemma wf_book_in_int4: "db_wf d \<Longrightarrow> b \<in> set (db_books d) \<Longrightarrow> in_int4 (br_id b)"
  using wf_in_int4(2) by (fastforce simp: list_all_iff)

lemma wf_exists_in_int4: "db_wf d \<Longrightarrow> author_exists d i \<Longrightarrow> in_int4 i"
  using wf_author_in_int4 by (auto simp: author_exists_def)

lemma store_reachable_wf_lemma:
  "store_reachable d \<Longrightarrow> db_wf d"
proof (induction rule: store_reachable.induct)
  case init
  show ?case by (simp add: empty_db_def db_wf_def int4_max_def)
next
  case (exec d s)
  from exec.IH show ?case by (rule exec_stmt_wf)
next
  case (online d b)
  then show ?case by simp
qed

subsection \<open>Properties of the store\<close>

text \<open>C12: A successful author insert draws an id larger than every id in the
  table, so the listing \<open>ORDER BY a.id DESC\<close> shows the new author first,
  followed by the earlier listing unchanged.\<close>

theorem insert_author_listed_first:
  assumes "db_wf d" and "sql_insert_author d a = (Inr r, d')"
  shows "authors_desc d' = r # authors_desc d \<and> (\<forall>x\<in>set (db_authors d). ar_id x < ar_id r)"
proof -
  note ins = sql_insert_author_Inr [OF assms(2)]
  have lt: "\<forall>x\<in>set (db_authors d). ar_id x < ar_id r"
    using assms(1) ins by (auto simp: db_wf_def list_all_iff)
  then have "sort_key ar_id (db_authors d') = sort_key ar_id (db_authors d) @ [r]"
    using ins by (simp add: sort_key_append_max)
  then show ?thesis using lt by (simp add: authors_desc_def)
qed

theorem insert_author_listed_first_witness:
  "authors_desc (snd (sql_insert_author empty_db example_author)) = [\<lparr>ar_id = 1, ar_name = ustr_of ''Ann'', ar_email = ustr_of ''ann@x.io'', ar_birth_date = None, ar_bio = None\<rparr>]"
proof -
  have wf: "db_wf empty_db" by (simp add: empty_db_def db_wf_def int4_max_def)
  have e: "sql_insert_author empty_db example_author = (Inr \<lparr>ar_id = 1, ar_name = ustr_of ''Ann'', ar_email = ustr_of ''ann@x.io'', ar_birth_date = None, ar_bio = None\<rparr>,
      empty_db\<lparr>db_author_seq := 1, db_authors := [\<lparr>ar_id = 1, ar_name = ustr_of ''Ann'', ar_email = ustr_of ''ann@x.io'', ar_birth_date = None, ar_bio = None\<rparr>]\<rparr>)"
    by (simp add: sql_insert_author_def empty_db_def example_author_def opt_date_in_def Let_def int4_max_def)
  show ?thesis using insert_author_listed_first [OF wf e] e by (simp add: authors_desc_def empty_db_def)
qed
text \<open>C31: On a well-formed store the author statements refine the operations
  of a finite map from ids to rows: a successful insert adds a row under an id
  that was not in the map, a successful update replaces the row of an existing
  id, and a delete removes the id.\<close>

theorem author_table_refines_map:
  assumes "db_wf d"
  shows "(sql_insert_author d a = (Inr r, d1) \<longrightarrow>
            ar_id r \<notin> dom (authors_map d) \<and> authors_map d1 = (authors_map d)(ar_id r \<mapsto> r))
       \<and> (sql_update_author d i a = (Inr r', d2) \<longrightarrow>
            i \<in> dom (authors_map d) \<and> authors_map d2 = (authors_map d)(i \<mapsto> r'))
       \<and> (sql_delete_author d i = (Inr n, d3) \<longrightarrow> authors_map d3 = (authors_map d)(i := None))"
proof (intro conjI impI)
  assume h: "sql_insert_author d a = (Inr r, d1)"
  note ins = sql_insert_author_Inr [OF h]
  have fresh: "ar_id r \<notin> ar_id ` set (db_authors d)"
    using assms ins by (auto simp: db_wf_def list_all_iff)
  then show "ar_id r \<notin> dom (authors_map d)" by (simp add: authors_map_def)
  show "authors_map d1 = (authors_map d)(ar_id r \<mapsto> r)"
    unfolding authors_map_def ins [THEN conjunct2] by (rule map_of_keyed_snoc [OF fresh])
next
  assume h: "sql_update_author d i a = (Inr r', d2)"
  then obtain r0 bd where r0: "find_author d i = Some r0" and bd: "opt_date_in (ab_birth_date a) = Inr bd"
    and r': "r' = r0\<lparr>ar_name := ab_name a, ar_email := ab_email a, ar_birth_date := bd, ar_bio := ab_bio a\<rparr>"
    and d2: "db_authors d2 = map (\<lambda>x. if ar_id x = i then x\<lparr>ar_name := ab_name a, ar_email := ab_email a,
                ar_birth_date := bd, ar_bio := ab_bio a\<rparr> else x) (db_authors d)"
    by (auto simp: sql_update_author_def Let_def split: if_splits sum.splits option.splits)
  have mem: "r0 \<in> set (db_authors d)" "ar_id r0 = i"
    using r0 by (auto simp: find_author_def dest: find_Some_iff [THEN iffD1] simp: find_Some_iff in_set_conv_nth)
  then show "i \<in> dom (authors_map d)" by (auto simp: authors_map_def)
  show "authors_map d2 = (authors_map d)(i \<mapsto> r')"
    using map_of_keyed_update [of ar_id "db_authors d" r0
        "\<lambda>x. x\<lparr>ar_name := ab_name a, ar_email := ab_email a, ar_birth_date := bd, ar_bio := ab_bio a\<rparr>"]
      assms mem d2 r' by (simp add: authors_map_def db_wf_def)
next
  assume "sql_delete_author d i = (Inr n, d3)"
  then have "db_authors d3 = filter (\<lambda>r. ar_id r \<noteq> i) (db_authors d)"
    by (auto simp: sql_delete_author_def split: if_splits)
  then show "authors_map d3 = (authors_map d)(i := None)"
    by (simp add: authors_map_def map_of_keyed_filter)
qed

theorem author_table_refines_map_witness:
  "authors_map (snd (sql_insert_author example_store (example_author\<lparr>ab_email := ustr_of ''bo@x.io''\<rparr>)))
     = (authors_map example_store)(2 \<mapsto> \<lparr>ar_id = 2, ar_name = ustr_of ''Ann'', ar_email = ustr_of ''bo@x.io'',
                                          ar_birth_date = None, ar_bio = None\<rparr>)
   \<and> authors_map (snd (sql_update_author example_store 1 (example_author\<lparr>ab_email := ustr_of ''bo@x.io''\<rparr>)))
     = (authors_map example_store)(1 \<mapsto> \<lparr>ar_id = 1, ar_name = ustr_of ''Ann'', ar_email = ustr_of ''bo@x.io'',
                                          ar_birth_date = None, ar_bio = None\<rparr>)
   \<and> authors_map (snd (sql_delete_author example_store 7)) = (authors_map example_store)(7 := None)"
proof -
  let ?a = "example_author\<lparr>ab_email := ustr_of ''bo@x.io''\<rparr>"
  have wf: "db_wf example_store"
    by (simp add: example_store_def empty_db_def db_wf_def author_exists_def int4_max_def)
  have ins: "sql_insert_author example_store ?a =
      (Inr \<lparr>ar_id = 2, ar_name = ustr_of ''Ann'', ar_email = ustr_of ''bo@x.io'', ar_birth_date = None, ar_bio = None\<rparr>,
       snd (sql_insert_author example_store ?a))"
    by (simp add: sql_insert_author_def example_store_def empty_db_def example_author_def opt_date_in_def Let_def int4_max_def)
  have upd: "sql_update_author example_store 1 ?a =
      (Inr \<lparr>ar_id = 1, ar_name = ustr_of ''Ann'', ar_email = ustr_of ''bo@x.io'', ar_birth_date = None, ar_bio = None\<rparr>,
       snd (sql_update_author example_store 1 ?a))"
    by (simp add: sql_update_author_def example_store_def empty_db_def example_author_def opt_date_in_def
        find_author_def Let_def in_int4_def int4_max_def)
  have del: "sql_delete_author example_store 7 = (Inr 0, snd (sql_delete_author example_store 7))"
    by (simp add: sql_delete_author_def example_store_def empty_db_def author_exists_def in_int4_def int4_max_def)
  show ?thesis
    using author_table_refines_map [OF wf, of ?a _ _ 1 _ _ _ _] author_table_refines_map [OF wf, of ?a _ _ 7]
      ins upd del by fastforce
qed

text \<open>C33: Whatever interleaving of statements led to a state, while the
  connection is up the store can always be emptied: deleting every book and
  then every author leads to a reachable state with both tables empty.\<close>

theorem store_can_drain:
  assumes "store_reachable d" and "db_online d"
  shows "store_reachable (exec_stmts d (drain_stmts d)) \<and> db_tables (exec_stmts d (drain_stmts d)) = ([], [])"
proof -
  note ids = wf_in_int4 [OF store_reachable_wf_lemma [OF assms(1)]]
  let ?d1 = "exec_stmts d (map (\<lambda>r. DelBook (br_id r)) (db_books d))"
  have d1: "?d1 = d\<lparr>db_books := []\<rparr>"
    using exec_delete_books [OF assms(2) ids(2)] by simp
  have "exec_stmts d (drain_stmts d) = exec_stmts ?d1 (map (\<lambda>r. DelAuthor (ar_id r)) (db_authors d))"
    by (simp add: exec_stmts_def drain_stmts_def)
  also have "\<dots> = d\<lparr>db_books := [], db_authors := []\<rparr>"
    using exec_delete_authors [of "d\<lparr>db_books := []\<rparr>" "db_authors d"] assms(2) ids(1) d1
    by simp
  finally have eq: "exec_stmts d (drain_stmts d) = d\<lparr>db_books := [], db_authors := []\<rparr>" .
  have "store_reachable (exec_stmts d (drain_stmts d))"
    by (rule exec_stmts_reachable [OF assms(1)])
  then show ?thesis unfolding eq by (simp add: db_tables_def)
qed

theorem store_can_drain_witness:
  "store_reachable (exec_stmts (exec_stmt empty_db (InsAuthor example_author))
                     (drain_stmts (exec_stmt empty_db (InsAuthor example_author))))
   \<and> db_tables (exec_stmts (exec_stmt empty_db (InsAuthor example_author))
                     (drain_stmts (exec_stmt empty_db (InsAuthor example_author)))) = ([], [])"
proof (rule store_can_drain)
  show "store_reachable (exec_stmt empty_db (InsAuthor example_author))"
    by (rule store_reachable.exec [OF store_reachable.init])
  show "db_online (exec_stmt empty_db (InsAuthor example_author))"
    by (simp add: empty_db_def sql_insert_author_def example_author_def opt_date_in_def Let_def)
qed

end
