(* ===== verification/Models.thy ===== *)
theory Models
  imports Store
begin

text \<open>
  The data access layer, src/pkg/models/author.go and book.go: the structs
  \<open>AuthorDBModel\<close> and \<open>BookDBModel\<close>, and one definition per method
  (\<open>Insert\<close>, \<open>Detail\<close>, \<open>Update\<close>, \<open>Delete\<close>, \<open>Fetch\<close>).  A method takes
  the store and its receiver and returns the error it returns (\<open>None\<close> for
  \<open>nil\<close>), the receiver as the method leaves it, and the store afterwards.
  Transactions are explicit: \<open>Begin\<close> fails when the store is down, a
  statement that fails inside the transaction leaves the tables as they were
  (the explicit \<open>Rollback\<close>, or the deferred \<open>Commit\<close> of an aborted
  transaction), and the nested \<open>author.Detail()\<close> of the book methods runs on
  another pooled connection, so it reads the committed store, without the
  transaction's own uncommitted row.
\<close>

record author_model =
  am_id :: int
  am_name :: ustr
  am_email :: ustr
  am_birth_date :: "date option"
  am_bio :: "ustr option"
  am_book_total :: nat

record book_model =
  bm_id :: int
  bm_title :: ustr
  bm_desc :: "ustr option"
  bm_pub_date :: "date option"
  bm_author :: author_model

text \<open>\<open>new(models.AuthorDBModel)\<close> and \<open>new(models.BookDBModel)\<close>.\<close>

definition new_author_model :: author_model where
  "new_author_model =
     \<lparr>am_id = 0, am_name = [], am_email = [], am_birth_date = None, am_bio = None, am_book_total = 0\<rparr>"

definition new_book_model :: book_model where
  "new_book_model =
     \<lparr>bm_id = 0, bm_title = [], bm_desc = None, bm_pub_date = None, bm_author = new_author_model\<rparr>"

text \<open>\<open>pgx.RowToStructByName[AuthorDBModel]\<close> on a row with its book count.\<close>

definition author_model_of :: "author_row \<times> nat \<Rightarrow> author_model" where
  "author_model_of rc =
     (case rc of (r, n) \<Rightarrow>
        \<lparr>am_id = ar_id r, am_name = ar_name r, am_email = ar_email r,
         am_birth_date = ar_birth_date r, am_bio = ar_bio r, am_book_total = n\<rparr>)"

text \<open>\<open>pgxscan\<close> filling a \<open>BookDBModel\<close> with its nested author.\<close>

definition book_model_of :: "book_row \<Rightarrow> author_row \<times> nat \<Rightarrow> book_model" where
  "book_model_of b rc =
     \<lparr>bm_id = br_id b, bm_title = br_title b, bm_desc = br_desc b,
      bm_pub_date = Some (br_pub_date b), bm_author = author_model_of rc\<rparr>"

subsection \<open>AuthorDBModel\<close>

text \<open>\<open>Insert\<close>: the \<open>RETURNING\<close> columns are scanned into the receiver;
  \<open>BookTotal\<close> keeps its value.\<close>

definition author_insert :: "db \<Rightarrow> author_model \<Rightarrow> author_base \<Rightarrow> go_error option \<times> author_model \<times> db" where
  "author_insert d m a =
     (if \<not> db_online d then (Some ConnError, m, d)
      else case sql_insert_author d a of
        (Inl e, d') \<Rightarrow> (Some e, m, d')
      | (Inr r, d') \<Rightarrow>
          (None, m\<lparr>am_id := ar_id r, am_name := ar_name r, am_email := ar_email r,
                   am_birth_date := ar_birth_date r, am_bio := ar_bio r\<rparr>, d'))"

text \<open>\<open>Detail\<close>: \<open>*m, err = pgx.CollectExactlyOneRow(...)\<close> assigns the zero
  struct to the receiver when no single row comes back.\<close>

definition author_detail :: "db \<Rightarrow> author_model \<Rightarrow> go_error option \<times> author_model" where
  "author_detail d m =
     (case sql_author_detail d (am_id m) of
        Inl e \<Rightarrow> (Some e, m)
      | Inr rows \<Rightarrow>
          (case collect_exactly_one rows of
             Inl e \<Rightarrow> (Some e, new_author_model)
           | Inr rc \<Rightarrow> (None, author_model_of rc)))"

text \<open>\<open>Update\<close>: name, e-mail, birth date and bio come back from
  \<open>RETURNING\<close>; the id and the book count stay.\<close>

definition author_update :: "db \<Rightarrow> author_model \<Rightarrow> author_base \<Rightarrow> go_error option \<times> author_model \<times> db" where
  "author_update d m a =
     (if \<not> db_online d then (Some ConnError, m, d)
      else case sql_update_author d (am_id m) a of
        (Inl e, d') \<Rightarrow> (Some e, m, d')
      | (Inr r, d') \<Rightarrow>
          (None, m\<lparr>am_name := ar_name r, am_email := ar_email r,
                   am_birth_date := ar_birth_date r, am_bio := ar_bio r\<rparr>, d'))"

text \<open>\<open>Delete\<close>: more than one affected row rolls the transaction back and
  returns \<open>ErrTooManyAffectedRows\<close>; zero rows are accepted.\<close>

definition author_delete :: "db \<Rightarrow> author_model \<Rightarrow> go_error option \<times> db" where
  "author_delete d m =
     (if \<not> db_online d then (Some ConnError, d)
      else case sql_delete_author d (am_id m) of
        (Inl e, d') \<Rightarrow> (Some e, d')
      | (Inr n, d') \<Rightarrow> if n > 1 then (Some ErrTooManyAffectedRows, d) else (None, d'))"

text \<open>\<open>FetchAuthorDBModel.Fetch\<close>: the count, the pagination (a zero
  \<open>Limit\<close> would be Go's integer division panic), then the page query.\<close>

definition author_fetch :: "db \<Rightarrow> author_model fetch_model \<Rightarrow> go_error option \<times> author_model fetch_model" where
  "author_fetch d m =
     (case sql_count_authors d of
        Inl e \<Rightarrow> (Some e, m)
      | Inr rt \<Rightarrow>
          if fm_limit m = 0 then (Some DivideByZero, m\<lparr>fm_record_total := rt\<rparr>)
          else (let m' = paginate rt m
                in case sql_fetch_authors d (fm_limit m') (page_offset m') of
                     Inl e \<Rightarrow> (Some e, m')
                   | Inr rows \<Rightarrow> (None, m'\<lparr>fm_data := map author_model_of rows\<rparr>)))"

subsection \<open>BookDBModel\<close>

text \<open>\<open>Insert\<close>: the insert runs in a transaction; the embedded author is read
  by \<open>author.Detail()\<close> before the deferred \<open>Commit\<close>, on the committed store
  \<open>d\<close>.  A failure of that read returns the error without a rollback, so the
  deferred \<open>Commit\<close> still commits the new book.\<close>

definition book_insert :: "db \<Rightarrow> book_model \<Rightarrow> book_base \<Rightarrow> go_error option \<times> book_model \<times> db" where
  "book_insert d m b =
     (if \<not> db_online d then (Some ConnError, m, d)
      else case sql_insert_book d b of
        (Inl e, d') \<Rightarrow> (Some e, m, d')
      | (Inr r, d') \<Rightarrow>
          (let m1 = m\<lparr>bm_id := br_id r, bm_title := br_title r, bm_desc := br_desc r,
                      bm_pub_date := Some (br_pub_date r)\<rparr>
           in case author_detail d (new_author_model\<lparr>am_id := br_author_id r\<rparr>) of
                (Some e, _) \<Rightarrow> (Some e, m1, d')
              | (None, au) \<Rightarrow> (None, m1\<lparr>bm_author := au\<rparr>, d')))"

text \<open>\<open>Detail\<close>: \<open>pgxscan.ScanOne\<close> of the joined row; \<open>NULL\<close> author
  columns cannot be scanned into the nested struct.\<close>

definition book_detail :: "db \<Rightarrow> book_model \<Rightarrow> go_error option \<times> book_model" where
  "book_detail d m =
     (case sql_book_detail d (bm_id m) of
        Inl e \<Rightarrow> (Some e, m)
      | Inr rows \<Rightarrow>
          (case collect_exactly_one rows of
             Inl e \<Rightarrow> (Some e, m)
           | Inr (b, None) \<Rightarrow> (Some ErrScanNull, m)
           | Inr (b, Some rc) \<Rightarrow> (None, book_model_of b rc)))"

text \<open>\<open>Update\<close>: the update runs in a transaction, the author is read on the
  committed store, and a failed read rolls the update back.\<close>

definition book_update :: "db \<Rightarrow> book_model \<Rightarrow> book_base \<Rightarrow> go_error option \<times> book_model \<times> db" where
  "book_update d m b =
     (if \<not> db_online d then (Some ConnError, m, d)
      else case sql_update_book d (bm_id m) b of
        (Inl e, d') \<Rightarrow> (Some e, m, d')
      | (Inr r, d') \<Rightarrow>
          (let m1 = m\<lparr>bm_title := br_title r, bm_desc := br_desc r,
                      bm_pub_date := Some (br_pub_date r)\<rparr>
           in case author_detail d (new_author_model\<lparr>am_id := br_author_id r\<rparr>) of
                (Some e, _) \<Rightarrow> (Some e, m1, d)
              | (None, au) \<Rightarrow> (None, m1\<lparr>bm_author := au\<rparr>, d')))"

definition book_delete :: "db \<Rightarrow> book_model \<Rightarrow> go_error option \<times> db" where
  "book_delete d m =
     (if \<not> db_online d then (Some ConnError, d)
      else case sql_delete_book d (bm_id m) of
        (Inl e, d') \<Rightarrow> (Some e, d')
      | (Inr n, d') \<Rightarrow> if n > 1 then (Some ErrTooManyAffectedRows, d) else (None, d'))"

text \<open>\<open>FetchBookDBModel.Fetch(authorID)\<close>; a row without an author cannot be
  scanned.\<close>

definition book_fetch :: "db \<Rightarrow> int option \<Rightarrow> book_model fetch_model \<Rightarrow> go_error option \<times> book_model fetch_model" where
  "book_fetch d a m =
     (case sql_count_books d a of
        Inl e \<Rightarrow> (Some e, m)
      | Inr rt \<Rightarrow>
          if fm_limit m = 0 then (Some DivideByZero, m\<lparr>fm_record_total := rt\<rparr>)
          else (let m' = paginate rt m
                in case sql_fetch_books d a (fm_limit m') (page_offset m') of
                     Inl e \<Rightarrow> (Some e, m')
                   | Inr rows \<Rightarrow>
                       if list_all (\<lambda>(b, j). j \<noteq> None) rows
                       then (None, m'\<lparr>fm_data := map (\<lambda>(b, j). book_model_of b (the j)) rows\<rparr>)
                       else (Some ErrScanNull, m')))"

subsection \<open>Reading one row\<close>

text \<open>On a well-formed store an id selects at most one row, so \<open>Detail\<close>
  either finds it or reports \<open>pgx.ErrNoRows\<close>.\<close>

lemma author_detail_found:
  assumes "db_online d" "db_wf d" "r \<in> set (db_authors d)" "am_id m = ar_id r"
  shows "author_detail d m = (None, author_model_of (r, count_books_of d (ar_id r)))"
  using assms filter_key_unique [of ar_id "db_authors d" r] wf_author_in_int4 [OF assms(2,3)]
  by (simp add: author_detail_def sql_author_detail_def db_wf_def collect_exactly_one_def with_total_def)

lemma author_detail_missing:
  assumes "db_online d" "in_int4 (am_id m)" "am_id m \<notin> ar_id ` set (db_authors d)"
  shows "author_detail d m = (Some ErrNoRows, new_author_model)"
  using assms filter_key_none [of "am_id m" ar_id "db_authors d"]
  by (simp add: author_detail_def sql_author_detail_def collect_exactly_one_def)

lemma author_detail_unencodable:
  "db_online d \<Longrightarrow> \<not> in_int4 (am_id m) \<Longrightarrow> author_detail d m = (Some EncodeError, m)"
  by (simp add: author_detail_def sql_author_detail_def)

lemma find_author_wf:
  "db_wf d \<Longrightarrow> r \<in> set (db_authors d) \<Longrightarrow> find_author d (ar_id r) = Some r"
  unfolding find_author_def db_wf_def by (blast intro: find_key_unique)

lemma book_detail_found:
  assumes "db_online d" "db_wf d" "b \<in> set (db_books d)" "bm_id m = br_id b"
      and "r \<in> set (db_authors d)" "ar_id r = br_author_id b"
  shows "book_detail d m = (None, book_model_of b (r, count_books_of d (ar_id r)))"
proof -
  have "filter (\<lambda>x. br_id x = bm_id m) (db_books d) = [b]"
    using assms(2-4) filter_key_unique [of br_id "db_books d" b] by (simp add: db_wf_def)
  moreover have "find_author d (br_author_id b) = Some r"
    using find_author_wf [OF assms(2,5)] assms(6) by simp
  ultimately show ?thesis using assms(1,4,6) wf_book_in_int4 [OF assms(2,3)]
    by (simp add: book_detail_def sql_book_detail_def collect_exactly_one_def book_join_def with_total_def)
qed

lemma book_detail_missing:
  assumes "db_online d" "in_int4 (bm_id m)" "bm_id m \<notin> br_id ` set (db_books d)"
  shows "book_detail d m = (Some ErrNoRows, m)"
  using assms filter_key_none [of "bm_id m" br_id "db_books d"]
  by (simp add: book_detail_def sql_book_detail_def collect_exactly_one_def)

lemma book_detail_unencodable:
  "db_online d \<Longrightarrow> \<not> in_int4 (bm_id m) \<Longrightarrow> book_detail d m = (Some EncodeError, m)"
  by (simp add: book_detail_def sql_book_detail_def)

subsection \<open>The methods on a given store\<close>

lemma author_insert_dup:
  assumes "db_online d" "opt_date_in (ab_birth_date a) = Inr bd" "db_author_seq d < int4_max"
      and "ab_email a \<in> ar_email ` set (db_authors d)"
  shows "author_insert d m a = (Some (PgError ''23505''), m, d\<lparr>db_author_seq := db_author_seq d + 1\<rparr>)"
  using assms by (simp add: author_insert_def sql_insert_author_dup)

lemma book_insert_unknown_author:
  assumes "db_online d" "pg_date_in (bb_pub_date b) = Inr pd" "pg_int4_in (bb_author_id b) = Inr ai"
      and "db_book_seq d < int4_max" and "\<not> author_exists d ai"
  shows "book_insert d m b = (Some (PgError ''23503''), m, d\<lparr>db_book_seq := db_book_seq d + 1\<rparr>)"
  using assms by (simp add: book_insert_def sql_insert_book_def Let_def)

lemma author_update_ok:
  assumes "db_online d" "db_wf d" "r \<in> set (db_authors d)" "am_id m = ar_id r"
      and "opt_date_in (ab_birth_date a) = Inr bd"
      and "ab_email a \<notin> ar_email ` set (filter (\<lambda>x. ar_id x \<noteq> ar_id r) (db_authors d))"
  shows "author_update d m a =
           (None, m\<lparr>am_name := ab_name a, am_email := ab_email a, am_birth_date := bd, am_bio := ab_bio a\<rparr>,
            d\<lparr>db_authors := map (\<lambda>x. if ar_id x = ar_id r
                                      then x\<lparr>ar_name := ab_name a, ar_email := ab_email a,
                                             ar_birth_date := bd, ar_bio := ab_bio a\<rparr> else x) (db_authors d)\<rparr>)"
proof -
  have "find_author d (ar_id r) = Some r" using find_author_wf [OF assms(2,3)] .
  then show ?thesis using assms(1,4,5,6) wf_author_in_int4 [OF assms(2,3)]
    by (simp add: author_update_def sql_update_author_def Let_def)
qed

lemma author_delete_ok:
  assumes "db_online d" "db_wf d" "in_int4 (am_id m)" "am_id m \<notin> br_author_id ` set (db_books d)"
  shows "author_delete d m = (None, d\<lparr>db_authors := filter (\<lambda>r. ar_id r \<noteq> am_id m) (db_authors d)\<rparr>)"
  using assms id_count_le_one [of ar_id "db_authors d" "am_id m"]
  by (simp add: author_delete_def sql_delete_author_def db_wf_def)

lemma book_delete_ok:
  assumes "db_online d" "db_wf d" "in_int4 (bm_id m)"
  shows "book_delete d m = (None, d\<lparr>db_books := filter (\<lambda>b. br_id b \<noteq> bm_id m) (db_books d)\<rparr>)"
  using assms id_count_le_one [of br_id "db_books d" "bm_id m"]
  by (simp add: book_delete_def sql_delete_book_def db_wf_def)

end
