(* ===== verification/Handlers.thy ===== *)
theory Handlers
  imports Models
begin

text \<open>
  The request handlers of src/pkg/handlers/author.go and book.go.  A handler
  gets the already decoded request parts (path identifier, query parameters,
  JSON body) and the store, and returns the HTTP response it writes and the
  store afterwards.  gin's behaviour that the handlers rely on is explicit:
  a handler that returns without writing leaves status 200 and an empty body,
  and a panic is answered 500 with an empty body by the \<open>Recovery\<close>
  middleware of \<open>gin.Default()\<close>.  Decoding JSON is outside the model: a body
  is either decoded, or decoding failed after filling part of the struct.
\<close>

text \<open>The bodies a response can carry: the JSON documents the handlers write,
  gin's plain-text 404 page, the target of gin's trailing-slash redirect, or
  nothing.\<close>

datatype resp_body =
    JMsg string
  | JValidation "validation_msg list"
  | JAuthor author_model
  | JBook book_model
  | JAuthors "author_model fetch_model"
  | JBooks "book_model fetch_model"
  | PlainText string
  | RedirectTo "ustr list"
  | NoBody

record response =
  status :: nat
  body :: resp_body

definition reply :: "nat \<Rightarrow> resp_body \<Rightarrow> response" where
  "reply s b = \<lparr>status = s, body = b\<rparr>"

text \<open>A JSON body: decoded, or a decoding error (syntax, type mismatch, empty
  body) with whatever the decoder had stored into the struct.\<close>

datatype 'a json_body = Decoded 'a | Malformed 'a

text \<open>\<open>c.ShouldBind\<close>/\<open>c.ShouldBindJSON\<close>: decoding, then the struct's
  binding tags; the error is \<open>validator.ValidationErrors\<close> only in the second
  case.\<close>

datatype 'a bind_result = Bound 'a | BindValidation "field_error list" | BindOther 'a

definition should_bind :: "('a \<Rightarrow> field_error list) \<Rightarrow> 'a json_body \<Rightarrow> 'a bind_result" where
  "should_bind validate jb =
     (case jb of
        Decoded v \<Rightarrow> (let errs = validate v in if errs = [] then Bound v else BindValidation errs)
      | Malformed v \<Rightarrow> BindOther v)"

definition validation_reply :: "field_error list \<Rightarrow> response" where
  "validation_reply errs = reply 422 (JValidation (parse_validation_error errs))"

definition server_error :: response where
  "server_error = reply 500 (JMsg ''oops, we made a mistake'')"

definition page_error :: response where
  "page_error = reply 422 (JMsg ''page parameter should be number and greater than 1'')"

definition limit_error :: response where
  "limit_error = reply 422 (JMsg ''limit parameter should be number and between 5 and 100'')"

text \<open>The identifier handlers read with \<open>strconv.Atoi\<close>, ignoring its error.\<close>

definition uri_int :: "identifier_uri \<Rightarrow> int" where
  "uri_int u = fst (go_atoi (uri_id u))"

subsection \<open>AuthorHandler\<close>

definition author_add :: "vcfg \<Rightarrow> author_base json_body \<Rightarrow> db \<Rightarrow> response \<times> db" where
  "author_add cfg jb d =
     (case should_bind (validate_author_base cfg) jb of
        BindValidation errs \<Rightarrow> (validation_reply errs, d)
      | BindOther _ \<Rightarrow> (reply 500 NoBody, d)
      | Bound a \<Rightarrow>
          (case author_insert d new_author_model a of
             (Some (PgError c), _, d') \<Rightarrow>
               (if c = ''23505'' then reply 409 (JMsg ''email already registered'') else reply 200 NoBody, d')
           | (Some _, _, d') \<Rightarrow> (reply 500 (JMsg ''oops we made mistake''), d')
           | (None, m, d') \<Rightarrow> (reply 200 (JAuthor m), d')))"

text \<open>The listing handlers; Go's division panic (a zero limit) would be
  answered by the recovery middleware.\<close>

definition author_fetch_handler :: "ustr option \<Rightarrow> ustr option \<Rightarrow> db \<Rightarrow> response" where
  "author_fetch_handler qp ql d =
     (case page_param qp of
        None \<Rightarrow> page_error
      | Some p \<Rightarrow>
          (case limit_param ql of
             None \<Rightarrow> limit_error
           | Some l \<Rightarrow>
               (case author_fetch d (init_fetch p l) of
                  (Some DivideByZero, _) \<Rightarrow> reply 500 NoBody
                | (Some _, _) \<Rightarrow> server_error
                | (None, m) \<Rightarrow> reply 200 (JAuthors m))))"

text \<open>The lookup that \<open>Get\<close>, \<open>Update\<close> and \<open>Delete\<close> share after the path
  check: \<open>author.Detail()\<close> on the identifier read by \<open>Atoi\<close>.\<close>

definition author_find :: "identifier_uri \<Rightarrow> db \<Rightarrow> response + author_model" where
  "author_find u d =
     (case author_detail d (new_author_model\<lparr>am_id := uri_int u\<rparr>) of
        (Some e, _) \<Rightarrow> Inl (if e = ErrNoRows then reply 404 (JMsg ''author not found'') else server_error)
      | (None, m) \<Rightarrow> Inr m)"

definition author_get :: "vcfg \<Rightarrow> identifier_uri \<Rightarrow> db \<Rightarrow> response" where
  "author_get cfg u d =
     (let errs = validate_identifier_uri cfg u
      in if errs \<noteq> [] then validation_reply errs
         else (case author_find u d of Inl r \<Rightarrow> r | Inr m \<Rightarrow> reply 200 (JAuthor m)))"

definition author_update_step :: "identifier_uri \<Rightarrow> author_base \<Rightarrow> db \<Rightarrow> response \<times> db" where
  "author_update_step u a d =
     (case author_find u d of
        Inl r \<Rightarrow> (r, d)
      | Inr m \<Rightarrow>
          (case author_update d m a of
             (Some _, _, d') \<Rightarrow> (server_error, d')
           | (None, m', d') \<Rightarrow> (reply 200 (JAuthor m'), d')))"

text \<open>\<open>Update\<close> checks the path, then binds the body: a validation failure is
  answered 422, but any other binding error is ignored and the handler goes
  on with the partly decoded struct.\<close>

definition author_update_handler :: "vcfg \<Rightarrow> identifier_uri \<Rightarrow> author_base json_body \<Rightarrow> db \<Rightarrow> response \<times> db" where
  "author_update_handler cfg u jb d =
     (let errs = validate_identifier_uri cfg u
      in if errs \<noteq> [] then (validation_reply errs, d)
         else (case should_bind (validate_author_base cfg) jb of
                 BindValidation errs' \<Rightarrow> (validation_reply errs', d)
               | BindOther a \<Rightarrow> author_update_step u a d
               | Bound a \<Rightarrow> author_update_step u a d))"

definition author_delete_handler :: "vcfg \<Rightarrow> identifier_uri \<Rightarrow> db \<Rightarrow> response \<times> db" where
  "author_delete_handler cfg u d =
     (let errs = validate_identifier_uri cfg u
      in if errs \<noteq> [] then (validation_reply errs, d)
         else (case author_find u d of
                 Inl r \<Rightarrow> (r, d)
               | Inr m \<Rightarrow>
                   (case author_delete d m of
                      (Some _, d') \<Rightarrow> (server_error, d')
                    | (None, d') \<Rightarrow> (reply 200 (JMsg ''Author Removed''), d'))))"

definition author_books_handler :: "vcfg \<Rightarrow> identifier_uri \<Rightarrow> ustr option \<Rightarrow> ustr option \<Rightarrow> db \<Rightarrow> response" where
  "author_books_handler cfg u qp ql d =
     (let errs = validate_identifier_uri cfg u
      in if errs \<noteq> [] then validation_reply errs
         else (case page_param qp of
                 None \<Rightarrow> page_error
               | Some p \<Rightarrow>
                   (case limit_param ql of
                      None \<Rightarrow> limit_error
                    | Some l \<Rightarrow>
                        (case book_fetch d (Some (uri_int u)) (init_fetch p l) of
                           (Some DivideByZero, _) \<Rightarrow> reply 500 NoBody
                         | (Some _, _) \<Rightarrow> server_error
                         | (None, m) \<Rightarrow> reply 200 (JBooks m)))))"

subsection \<open>BookHandler\<close>

definition book_add :: "vcfg \<Rightarrow> book_base json_body \<Rightarrow> db \<Rightarrow> response \<times> db" where
  "book_add cfg jb d =
     (case should_bind (validate_book_base cfg) jb of
        BindValidation errs \<Rightarrow> (validation_reply errs, d)
      | BindOther _ \<Rightarrow> (reply 500 NoBody, d)
      | Bound b \<Rightarrow>
          (case book_insert d new_book_model b of
             (Some (PgError c), _, d') \<Rightarrow>
               (if c = ''23503'' then reply 422 (JMsg ''unknown author'') else reply 200 NoBody, d')
           | (Some _, _, d') \<Rightarrow> (reply 500 (JMsg ''oops we made mistake''), d')
           | (None, m, d') \<Rightarrow> (reply 200 (JBook m), d')))"

definition book_fetch_handler :: "ustr option \<Rightarrow> ustr option \<Rightarrow> db \<Rightarrow> response" where
  "book_fetch_handler qp ql d =
     (case page_param qp of
        None \<Rightarrow> page_error
      | Some p \<Rightarrow>
          (case limit_param ql of
             None \<Rightarrow> limit_error
           | Some l \<Rightarrow>
               (case book_fetch d None (init_fetch p l) of
                  (Some DivideByZero, _) \<Rightarrow> reply 500 NoBody
                | (Some _, _) \<Rightarrow> server_error
                | (None, m) \<Rightarrow> reply 200 (JBooks m))))"

definition book_find :: "identifier_uri \<Rightarrow> db \<Rightarrow> response + book_model" where
  "book_find u d =
     (case book_detail d (new_book_model\<lparr>bm_id := uri_int u\<rparr>) of
        (Some e, _) \<Rightarrow> Inl (if e = ErrNoRows then reply 404 (JMsg ''book not found'') else server_error)
      | (None, m) \<Rightarrow> Inr m)"

definition book_get :: "vcfg \<Rightarrow> identifier_uri \<Rightarrow> db \<Rightarrow> response" where
  "book_get cfg u d =
     (let errs = validate_identifier_uri cfg u
      in if errs \<noteq> [] then validation_reply errs
         else (case book_find u d of Inl r \<Rightarrow> r | Inr m \<Rightarrow> reply 200 (JBook m)))"

definition book_update_step :: "identifier_uri \<Rightarrow> book_base \<Rightarrow> db \<Rightarrow> response \<times> db" where
  "book_update_step u b d =
     (case book_find u d of
        Inl r \<Rightarrow> (r, d)
      | Inr m \<Rightarrow>
          (case book_update d m b of
             (Some _, _, d') \<Rightarrow> (server_error, d')
           | (None, m', d') \<Rightarrow> (reply 200 (JBook m'), d')))"

definition book_update_handler :: "vcfg \<Rightarrow> identifier_uri \<Rightarrow> book_base json_body \<Rightarrow> db \<Rightarrow> response \<times> db" where
  "book_update_handler cfg u jb d =
     (let errs = validate_identifier_uri cfg u
      in if errs \<noteq> [] then (validation_reply errs, d)
         else (case should_bind (validate_book_base cfg) jb of
                 BindValidation errs' \<Rightarrow> (validation_reply errs', d)
               | BindOther b \<Rightarrow> book_update_step u b d
               | Bound b \<Rightarrow> book_update_step u b d))"

definition book_delete_handler :: "vcfg \<Rightarrow> identifier_uri \<Rightarrow> db \<Rightarrow> response \<times> db" where
  "book_delete_handler cfg u d =
     (let errs = validate_identifier_uri cfg u
      in if errs \<noteq> [] then (validation_reply errs, d)
         else (case book_find u d of
                 Inl r \<Rightarrow> (r, d)
               | Inr m \<Rightarrow>
                   (case book_delete d m of
                      (Some _, d') \<Rightarrow> (server_error, d')
                    | (None, d') \<Rightarrow> (reply 200 (JMsg ''Book Removed''), d'))))"

subsection \<open>Data for the witnesses\<close>

text \<open>A store with two authors, the first of whom has one book, and a book
  payload for that author.\<close>

definition example_db :: db where
  "example_db =
     \<lparr>db_online = True,
      db_authors = [\<lparr>ar_id = 1, ar_name = ustr_of ''Ann'', ar_email = ustr_of ''ann@x.io'', ar_birth_date = None, ar_bio = None\<rparr>,
                    \<lparr>ar_id = 2, ar_name = ustr_of ''Bob'', ar_email = ustr_of ''bob@x.io'', ar_birth_date = None, ar_bio = None\<rparr>],
      db_books = [\<lparr>br_id = 2, br_title = ustr_of ''Dune'', br_desc = None, br_pub_date = (1965, 8, 1), br_author_id = 1\<rparr>],
      db_author_seq = 2, db_book_seq = 2\<rparr>"

definition example_book :: book_base where
  "example_book =
     \<lparr>bb_title = ustr_of ''Emma'', bb_desc = None, bb_pub_date = ustr_of ''1815-12-23'', bb_author_id = ustr_of ''1''\<rparr>"

definition bob_row :: author_row where
  "bob_row = \<lparr>ar_id = 2, ar_name = ustr_of ''Bob'', ar_email = ustr_of ''bob@x.io'', ar_birth_date = None, ar_bio = None\<rparr>"

subsection \<open>Lemmas\<close>

lemma params_window:
  "page_param qp = Some p \<Longrightarrow> limit_param ql = Some l \<Longrightarrow> valid_window p l"
  by (auto simp: page_param_def limit_param_def valid_window_def split: prod.splits if_splits)

lemma should_bind_Decoded_ok [simp]:
  "validate v = [] \<Longrightarrow> should_bind validate (Decoded v) = Bound v"
  by (simp add: should_bind_def)

lemma uri_int_decimal [simp]:
  "int n \<le> int64_max \<Longrightarrow> uri_int \<lparr>uri_id = decimal n\<rparr> = int n"
  using go_atoi_decimal [of n] by (simp add: uri_int_def)

lemma author_find_found:
  assumes "db_online d" "db_wf d" "r \<in> set (db_authors d)" "uri_int u = ar_id r"
  shows "author_find u d = Inr (author_model_of (r, count_books_of d (ar_id r)))"
  using assms author_detail_found [of d r "new_author_model\<lparr>am_id := uri_int u\<rparr>"]
  by (simp add: author_find_def)

lemma author_find_missing:
  assumes "db_online d" "in_int4 (uri_int u)" "uri_int u \<notin> ar_id ` set (db_authors d)"
  shows "author_find u d = Inl (reply 404 (JMsg ''author not found''))"
  using assms author_detail_missing [of d "new_author_model\<lparr>am_id := uri_int u\<rparr>"]
  by (simp add: author_find_def)

lemma author_find_unencodable:
  "db_online d \<Longrightarrow> \<not> in_int4 (uri_int u) \<Longrightarrow> author_find u d = Inl server_error"
  using author_detail_unencodable [of d "new_author_model\<lparr>am_id := uri_int u\<rparr>"]
  by (simp add: author_find_def)

lemma book_find_found:
  assumes "db_online d" "db_wf d" "b \<in> set (db_books d)" "uri_int u = br_id b"
  shows "\<exists>r. author_exists d (br_author_id b) \<and>
             book_find u d = Inr (book_model_of b (r, count_books_of d (br_author_id b)))"
proof -
  have "author_exists d (br_author_id b)" using fk_author_exists [OF assms(2)] assms(3) by blast
  then obtain r where r: "r \<in> set (db_authors d)" "ar_id r = br_author_id b"
    by (auto simp: author_exists_def)
  show ?thesis
    using book_detail_found [OF assms(1-3) _ r] r assms(4) \<open>author_exists d (br_author_id b)\<close>
    by (auto simp: book_find_def)
qed

lemma book_find_missing:
  assumes "db_online d" "in_int4 (uri_int u)" "uri_int u \<notin> br_id ` set (db_books d)"
  shows "book_find u d = Inl (reply 404 (JMsg ''book not found''))"
  using assms book_detail_missing [of d "new_book_model\<lparr>bm_id := uri_int u\<rparr>"]
  by (simp add: book_find_def)

lemma book_find_unencodable:
  "db_online d \<Longrightarrow> \<not> in_int4 (uri_int u) \<Longrightarrow> book_find u d = Inl server_error"
  using book_detail_unencodable [of d "new_book_model\<lparr>bm_id := uri_int u\<rparr>"]
  by (simp add: book_find_def)

lemma example_db_wf: "db_wf example_db"
  by (simp add: example_db_def db_wf_def author_exists_def int4_max_def)

lemma example_author_valid: "validate_author_base example_cfg example_author = []"
  by (simp add: validate_author_base_def example_author_def example_cfg_def valid_name_def omit_empty_def)

lemma example_book_valid: "validate_book_base example_cfg example_book = []"
  by (simp add: validate_book_base_def example_book_def go_date_parse_def time_atoi_def digits_value_def
      two_digits_def is_ascii_digit_def digit_value_def days_in_def is_leap_def)

lemma example_book_in:
  "pg_date_in (bb_pub_date example_book) = Inr (1815, 12, 23)"
  "pg_int4_in (bb_author_id example_book) = Inr 1" "pg_int4_in (ustr_of ''9'') = Inr 9"
  by (simp_all add: example_book_def pg_date_in_def go_date_parse_def time_atoi_def digits_value_def
      two_digits_def is_ascii_digit_def digit_value_def days_in_def is_leap_def pg_int4_in_def int4_max_def)

lemma example_db_facts:
  "db_online example_db" "author_exists example_db 1" "count_books_of example_db 1 = 1"
  "db_book_seq example_db < int4_max"
  by (simp_all add: example_db_def author_exists_def count_books_of_def int4_max_def)

text \<open>The statuses each handler can answer with.\<close>

lemma handler_status:
  "status (fst (author_add cfg ja d)) \<in> {200, 409, 422, 500}"
  "status (author_fetch_handler qp ql d) \<in> {200, 422, 500}"
  "status (author_get cfg u d) \<in> {200, 404, 422, 500}"
  "status (fst (author_update_handler cfg u ja d)) \<in> {200, 404, 422, 500}"
  "status (fst (author_delete_handler cfg u d)) \<in> {200, 404, 422, 500}"
  "status (author_books_handler cfg u qp ql d) \<in> {200, 422, 500}"
  "status (fst (book_add cfg jb d)) \<in> {200, 422, 500}"
  "status (book_fetch_handler qp ql d) \<in> {200, 422, 500}"
  "status (book_get cfg u d) \<in> {200, 404, 422, 500}"
  "status (fst (book_update_handler cfg u jb d)) \<in> {200, 404, 422, 500}"
  "status (fst (book_delete_handler cfg u d)) \<in> {200, 404, 422, 500}"
  by (auto simp: author_add_def author_fetch_handler_def author_get_def author_update_handler_def
      author_update_step_def author_delete_handler_def author_books_handler_def book_add_def
      book_fetch_handler_def book_get_def book_update_handler_def book_update_step_def
      book_delete_handler_def author_find_def book_find_def reply_def server_error_def
      validation_reply_def page_error_def limit_error_def Let_def
      split: prod.splits option.splits go_error.splits bind_result.splits sum.splits)

lemmas handler_status_in = handler_status [THEN subsetD [rotated]]

subsection \<open>Properties of the handlers\<close>

text \<open>C13: A \<open>POST /authors\<close> with a valid payload whose e-mail is new stores
  the author under the next serial id and answers 200 with the submitted fields and
  \<open>book_total\<close> 0; a \<open>GET /authors/:id\<close> for that id afterwards answers 200 with
  the same author.\<close>

theorem add_then_get_author:
  assumes "validate_author_base cfg a = []" and "db_online d" and "db_wf d"
      and "opt_date_in (ab_birth_date a) = Inr bd"
      and "ab_email a \<notin> ar_email ` set (db_authors d)"
      and "db_author_seq d + 1 \<le> int4_max"
  shows "\<exists>d'. author_add cfg (Decoded a) d =
                (reply 200 (JAuthor \<lparr>am_id = db_author_seq d + 1, am_name = ab_name a,
                   am_email = ab_email a, am_birth_date = bd, am_bio = ab_bio a, am_book_total = 0\<rparr>), d')
            \<and> author_get cfg \<lparr>uri_id = decimal (nat (db_author_seq d + 1))\<rparr> d' =
                reply 200 (JAuthor \<lparr>am_id = db_author_seq d + 1, am_name = ab_name a,
                   am_email = ab_email a, am_birth_date = bd, am_bio = ab_bio a, am_book_total = 0\<rparr>)"
proof -
  let ?r = "\<lparr>ar_id = db_author_seq d + 1, ar_name = ab_name a, ar_email = ab_email a,
              ar_birth_date = bd, ar_bio = ab_bio a\<rparr>"
  let ?d' = "d\<lparr>db_author_seq := db_author_seq d + 1, db_authors := db_authors d @ [?r]\<rparr>"
  have s4: "db_author_seq d < int4_max" using assms(6) by simp
  have s64: "db_author_seq d + 1 \<le> int64_max" using assms(6) by (simp add: int4_max_def int64_max_def)
  note ins = sql_insert_author_ok [OF assms(2,4) s4 assms(5)]
  have wf': "db_wf ?d'" using sql_insert_author_wf [OF assms(3) ins] .
  have seq: "0 \<le> db_author_seq d" using assms(3) by (simp add: db_wf_def)
  have cnt: "count_books_of ?d' (ar_id ?r) = 0"
    using count_books_fresh [OF assms(3), of "db_author_seq d + 1"]
    by (simp add: count_books_of_def)
  have find: "author_find \<lparr>uri_id = decimal (nat (db_author_seq d + 1))\<rparr> ?d' =
                Inr (author_model_of (?r, 0))"
    using author_find_found [OF _ wf', of ?r] cnt assms(2) s64 seq uri_int_decimal
    by simp
  show ?thesis
    using assms(1,2) ins find
    by (simp add: author_add_def author_get_def author_insert_def validate_identifier_uri_decimal
        author_model_of_def new_author_model_def)
qed

theorem add_then_get_author_witness:
  "\<exists>d'. author_add example_cfg (Decoded example_author) empty_db =
          (reply 200 (JAuthor \<lparr>am_id = 1, am_name = ustr_of ''Ann'', am_email = ustr_of ''ann@x.io'',
                               am_birth_date = None, am_bio = None, am_book_total = 0\<rparr>), d')
      \<and> author_get example_cfg \<lparr>uri_id = decimal 1\<rparr> d' =
          reply 200 (JAuthor \<lparr>am_id = 1, am_name = ustr_of ''Ann'', am_email = ustr_of ''ann@x.io'',
                               am_birth_date = None, am_bio = None, am_book_total = 0\<rparr>)"
  using add_then_get_author [OF example_author_valid, of empty_db None]
  by (simp add: empty_db_def example_author_def opt_date_in_def db_wf_def int4_max_def)

text \<open>C14: While the id sequence is not exhausted, a \<open>POST /authors\<close> whose
  e-mail is already registered is answered 409 "email already registered"; the
  tables are unchanged and only the id sequence advances.\<close>

theorem add_duplicate_email_conflict:
  assumes "validate_author_base cfg a = []" and "db_online d"
      and "opt_date_in (ab_birth_date a) = Inr bd"
      and "db_author_seq d < int4_max" and "ab_email a \<in> ar_email ` set (db_authors d)"
  shows "author_add cfg (Decoded a) d =
           (reply 409 (JMsg ''email already registered''), d\<lparr>db_author_seq := db_author_seq d + 1\<rparr>)"
  using assms by (simp add: author_add_def author_insert_dup)

theorem add_duplicate_email_conflict_witness:
  "author_add example_cfg (Decoded example_author) example_db =
     (reply 409 (JMsg ''email already registered''), example_db\<lparr>db_author_seq := 3\<rparr>)"
  using add_duplicate_email_conflict [OF example_author_valid, of example_db None]
  by (simp add: example_db_def example_author_def opt_date_in_def int4_max_def)

text \<open>C15: While the book sequence is not exhausted, a \<open>POST /books\<close> whose
  author id names no author is answered 422 "unknown author"; the tables are
  unchanged and only the book sequence advances.\<close>

theorem add_book_unknown_author:
  assumes "validate_book_base cfg b = []" and "db_online d"
      and "pg_date_in (bb_pub_date b) = Inr pd" and "pg_int4_in (bb_author_id b) = Inr ai"
      and "db_book_seq d < int4_max" and "\<not> author_exists d ai"
  shows "book_add cfg (Decoded b) d = (reply 422 (JMsg ''unknown author''), d\<lparr>db_book_seq := db_book_seq d + 1\<rparr>)"
  using assms by (simp add: book_add_def book_insert_unknown_author)

theorem add_book_unknown_author_witness:
  "book_add example_cfg (Decoded (example_book\<lparr>bb_author_id := ustr_of ''9''\<rparr>)) example_db =
     (reply 422 (JMsg ''unknown author''), example_db\<lparr>db_book_seq := 3\<rparr>)"
proof -
  have v: "validate_book_base example_cfg (example_book\<lparr>bb_author_id := ustr_of ''9''\<rparr>) = []"
    using example_book_valid by (simp add: validate_book_base_def example_book_def is_ascii_digit_def)
  show ?thesis
    using add_book_unknown_author [OF v, of example_db "(1815, 12, 23)" 9] example_book_in
    by (simp add: example_db_def example_book_def author_exists_def int4_max_def)
qed

text \<open>C16: \<open>GET /authors/:id\<close> and \<open>GET /books/:id\<close> for an id that is not in the
  table answer 404 with "author not found" and "book not found" when the id fits
  the \<open>int4\<close> column; a larger id is refused by pgx's parameter encoding and
  answered 500.\<close>

theorem get_missing_not_found:
  assumes "validate_identifier_uri cfg u = []" and "db_online d"
  shows "(uri_int u \<notin> ar_id ` set (db_authors d) \<longrightarrow>
            author_get cfg u d = (if in_int4 (uri_int u) then reply 404 (JMsg ''author not found'') else server_error))
       \<and> (uri_int u \<notin> br_id ` set (db_books d) \<longrightarrow>
            book_get cfg u d = (if in_int4 (uri_int u) then reply 404 (JMsg ''book not found'') else server_error))"
  using assms author_find_missing book_find_missing author_find_unencodable book_find_unencodable
  by (simp add: author_get_def book_get_def)

theorem get_missing_not_found_witness:
  "author_get example_cfg \<lparr>uri_id = decimal 7\<rparr> example_db = reply 404 (JMsg ''author not found'')
   \<and> book_get example_cfg \<lparr>uri_id = decimal 7\<rparr> example_db = reply 404 (JMsg ''book not found'')
   \<and> author_get example_cfg \<lparr>uri_id = decimal 3000000000\<rparr> example_db = server_error
   \<and> book_get example_cfg \<lparr>uri_id = decimal 3000000000\<rparr> example_db = server_error"
  using get_missing_not_found [of example_cfg "\<lparr>uri_id = decimal 7\<rparr>" example_db]
        get_missing_not_found [of example_cfg "\<lparr>uri_id = decimal 3000000000\<rparr>" example_db]
  by (simp add: validate_identifier_uri_decimal uri_int_decimal int64_max_def example_db_def
      in_int4_def int4_max_def)

text \<open>C17: Deleting an author that has no books, or deleting a book, answers 200 with
  the confirmation message, and fetching the same id afterwards answers 404.\<close>

theorem delete_then_get_not_found:
  assumes "validate_identifier_uri cfg u = []" and "db_online d" and "db_wf d"
  shows "(uri_int u \<in> ar_id ` set (db_authors d) \<and> uri_int u \<notin> br_author_id ` set (db_books d) \<longrightarrow>
            (\<exists>d'. author_delete_handler cfg u d = (reply 200 (JMsg ''Author Removed''), d')
                 \<and> author_get cfg u d' = reply 404 (JMsg ''author not found'')))
       \<and> (uri_int u \<in> br_id ` set (db_books d) \<longrightarrow>
            (\<exists>d'. book_delete_handler cfg u d = (reply 200 (JMsg ''Book Removed''), d')
                 \<and> book_get cfg u d' = reply 404 (JMsg ''book not found'')))"
proof (intro conjI impI)
  assume h: "uri_int u \<in> ar_id ` set (db_authors d) \<and> uri_int u \<notin> br_author_id ` set (db_books d)"
  then obtain r where r: "r \<in> set (db_authors d)" "uri_int u = ar_id r" by blast
  note find = author_find_found [OF assms(2,3) r]
  let ?m = "author_model_of (r, count_books_of d (ar_id r))"
  have del: "author_delete d ?m = (None, d\<lparr>db_authors := filter (\<lambda>x. ar_id x \<noteq> ar_id r) (db_authors d)\<rparr>)"
    using author_delete_ok [OF assms(2,3), of ?m] wf_author_in_int4 [OF assms(3) r(1)] h r
    by (simp add: author_model_of_def)
  have "author_get cfg u (d\<lparr>db_authors := filter (\<lambda>x. ar_id x \<noteq> ar_id r) (db_authors d)\<rparr>) =
          reply 404 (JMsg ''author not found'')"
    using assms(1,2) author_find_missing [of "d\<lparr>db_authors := filter (\<lambda>x. ar_id x \<noteq> ar_id r) (db_authors d)\<rparr>" u] r
          wf_author_in_int4 [OF assms(3) r(1)]
    by (simp add: author_get_def)
  then show "\<exists>d'. author_delete_handler cfg u d = (reply 200 (JMsg ''Author Removed''), d')
                 \<and> author_get cfg u d' = reply 404 (JMsg ''author not found'')"
    using assms(1) find del by (simp add: author_delete_handler_def)
next
  assume "uri_int u \<in> br_id ` set (db_books d)"
  then obtain b where b: "b \<in> set (db_books d)" "uri_int u = br_id b" by blast
  obtain r where find: "book_find u d = Inr (book_model_of b (r, count_books_of d (br_author_id b)))"
    using book_find_found [OF assms(2,3) b] by blast
  let ?d' = "d\<lparr>db_books := filter (\<lambda>x. br_id x \<noteq> br_id b) (db_books d)\<rparr>"
  have del: "book_delete d (book_model_of b (r, count_books_of d (br_author_id b))) = (None, ?d')"
    using book_delete_ok [OF assms(2,3)] wf_book_in_int4 [OF assms(3) b(1)] by (simp add: book_model_of_def)
  have "book_get cfg u ?d' = reply 404 (JMsg ''book not found'')"
    using assms(1,2) book_find_missing [of ?d' u] b wf_book_in_int4 [OF assms(3) b(1)]
    by (simp add: book_get_def)
  then show "\<exists>d'. book_delete_handler cfg u d = (reply 200 (JMsg ''Book Removed''), d')
                 \<and> book_get cfg u d' = reply 404 (JMsg ''book not found'')"
    using assms(1) find del by (simp add: book_delete_handler_def)
qed

theorem delete_then_get_not_found_witness:
  "(\<exists>d'. author_delete_handler example_cfg \<lparr>uri_id = decimal 2\<rparr> example_db = (reply 200 (JMsg ''Author Removed''), d')
        \<and> author_get example_cfg \<lparr>uri_id = decimal 2\<rparr> d' = reply 404 (JMsg ''author not found''))
   \<and> (\<exists>d'. book_delete_handler example_cfg \<lparr>uri_id = decimal 2\<rparr> example_db = (reply 200 (JMsg ''Book Removed''), d')
        \<and> book_get example_cfg \<lparr>uri_id = decimal 2\<rparr> d' = reply 404 (JMsg ''book not found''))"
  using delete_then_get_not_found [of example_cfg "\<lparr>uri_id = decimal 2\<rparr>" example_db] example_db_wf
  by (simp add: validate_identifier_uri_decimal uri_int_decimal int64_max_def example_db_def)

text \<open>C18: \<open>GET /authors/:id/books\<close> for an author with books answers 200 with a
  page whose books all belong to that author, in strictly descending id order.\<close>

theorem author_books_listing:
  assumes "validate_identifier_uri cfg u = []" and "db_online d" and "db_wf d"
      and "page_param qp = Some p" and "limit_param ql = Some l"
      and "uri_int u \<in> br_author_id ` set (db_books d)"
  shows "\<exists>m. author_books_handler cfg u qp ql d = reply 200 (JBooks m)
            \<and> list_all (\<lambda>x. am_id (bm_author x) = uri_int u) (fm_data m)
            \<and> sorted_wrt (>) (map bm_id (fm_data m))"
proof -
  let ?i = "uri_int u"
  let ?rt = "int (count_books_of d ?i)"
  let ?m = "paginate ?rt (init_fetch p l) :: book_model fetch_model"
  let ?Q = "\<lambda>(b :: book_row, j :: (author_row \<times> nat) option).
              case j of Some (r, _) \<Rightarrow> ar_id r = ?i | None \<Rightarrow> False"
  let ?rows = "limit_offset l (page_offset ?m) (filter ?Q (map (book_join d) (books_desc d)))"
  have win: "valid_window p l" using params_window [OF assms(4,5)] .
  have ex: "author_exists d ?i" using fk_author_exists [OF assms(3,6)] .
  have pos: "0 < ?rt" using assms(6) by (auto simp: count_books_of_def filter_empty_conv)
  note off = paginate_offset_nonneg [OF win pos]
  have l0: "0 \<le> l" "l \<noteq> 0" using win by (auto simp: valid_window_def)
  have i4: "in_int4 ?i" using wf_exists_in_int4 [OF assms(3) ex] .
  then have po: "pred_option in_int4 (Some ?i)" by simp
  have rows: "sql_fetch_books d (Some ?i) (fm_limit ?m) (page_offset ?m) = Inr ?rows"
    using sql_fetch_books_ok [OF assms(2) po l0(1) off(1)] by (simp add: init_fetch_def)
  have q: "list_all ?Q ?rows" by (rule list_all_limit_offset_filter)
  then have nn: "list_all (\<lambda>(b, j). j \<noteq> None) ?rows"
    by (rule list.pred_mono_strong) (auto split: option.splits)
  have fetch: "book_fetch d (Some ?i) (init_fetch p l) =
                 (None, ?m\<lparr>fm_data := map (\<lambda>(b, j). book_model_of b (the j)) ?rows\<rparr>)"
    using sql_count_books_author [OF assms(2) i4 ex] rows nn l0 off(2)
    by (simp add: book_fetch_def init_fetch_def Let_def del: not_None_eq)
  have owner: "list_all (\<lambda>x. am_id (bm_author x) = ?i) (map (\<lambda>(b, j). book_model_of b (the j)) ?rows)"
    unfolding list.pred_map using q
    by (rule list.pred_mono_strong) (auto simp: book_model_of_def author_model_of_def split: option.splits)
  have "sorted_wrt (>) (map (br_id \<circ> fst) (map (book_join d) (books_desc d)))"
    using books_desc_strict [of d] assms(3) by (simp add: db_wf_def book_join_def comp_def)
  then have "sorted_wrt (>) (map (br_id \<circ> fst) ?rows)" by (rule sorted_limit_offset_filter)
  then have srt: "sorted_wrt (>) (map bm_id (map (\<lambda>(b, j). book_model_of b (the j)) ?rows))"
    by (simp add: book_model_of_def case_prod_beta comp_def)
  show ?thesis
    using assms(1,4,5) fetch owner srt by (simp add: author_books_handler_def reply_def)
qed

theorem author_books_listing_witness:
  "\<exists>m. author_books_handler example_cfg \<lparr>uri_id = decimal 1\<rparr> None None example_db = reply 200 (JBooks m)
       \<and> list_all (\<lambda>x. am_id (bm_author x) = 1) (fm_data m) \<and> sorted_wrt (>) (map bm_id (fm_data m))"
  using author_books_listing [OF validate_identifier_uri_decimal example_db_facts(1) example_db_wf default_params]
  by (simp add: int64_max_def example_db_def)

text \<open>C19: With valid \<open>page\<close> and \<open>limit\<close>, \<open>GET /authors\<close> on an empty author
  table and \<open>GET /books\<close> on an empty book table answer 500: the page is clamped to
  0 and the page query runs with \<open>OFFSET -limit\<close>, which the store rejects.\<close>

theorem empty_listing_server_error:
  assumes "page_param qp = Some p" and "limit_param ql = Some l" and "db_online d"
  shows "(db_authors d = [] \<longrightarrow> author_fetch_handler qp ql d = server_error)
       \<and> (db_books d = [] \<longrightarrow> book_fetch_handler qp ql d = server_error)"
proof -
  have win: "valid_window p l" using params_window [OF assms(1,2)] .
  then have l0: "l \<noteq> 0" by (simp add: valid_window_def)
  show ?thesis
  proof (intro conjI impI)
    assume "db_authors d = []"
    then show "author_fetch_handler qp ql d = server_error"
      using assms empty_listing_offset [OF win, where 'a = author_model] l0
      by (simp add: author_fetch_handler_def author_fetch_def sql_count_authors_def
          sql_fetch_authors_def sql_select_page_def init_fetch_def Let_def)
  next
    assume "db_books d = []"
    then show "book_fetch_handler qp ql d = server_error"
      using assms empty_listing_offset [OF win, where 'a = book_model] l0
      by (simp add: book_fetch_handler_def book_fetch_def sql_count_books_def
          sql_fetch_books_def sql_select_page_def init_fetch_def Let_def)
  qed
qed

theorem empty_listing_server_error_witness:
  "author_fetch_handler None None empty_db = server_error \<and> book_fetch_handler None None empty_db = server_error"
  using empty_listing_server_error [OF default_params, of empty_db] by (simp add: empty_db_def)

text \<open>C20: While the book sequence is not exhausted, a \<open>POST /books\<close> for an
  existing author answers with the embedded author's
  \<open>book_total\<close> as it was before the new book was committed: one less than the
  count the store holds afterwards.\<close>

theorem add_book_stale_total:
  assumes "validate_book_base cfg b = []" and "db_online d" and "db_wf d"
      and "pg_date_in (bb_pub_date b) = Inr pd" and "pg_int4_in (bb_author_id b) = Inr ai"
      and "author_exists d ai" and "db_book_seq d < int4_max"
  shows "\<exists>m d'. book_add cfg (Decoded b) d = (reply 200 (JBook m), d')
              \<and> am_book_total (bm_author m) = count_books_of d ai
              \<and> count_books_of d' ai = count_books_of d ai + 1"
proof -
  obtain r where r: "r \<in> set (db_authors d)" "ar_id r = ai" using assms(6) by (auto simp: author_exists_def)
  have det: "author_detail d (new_author_model\<lparr>am_id := ai\<rparr>) = (None, author_model_of (r, count_books_of d ai))"
    using author_detail_found [OF assms(2,3) r(1)] r(2) by simp
  show ?thesis
    using assms(1,2) sql_insert_book_ok [OF assms(2,4,5,7,6)] det
    by (simp add: book_add_def book_insert_def author_model_of_def count_books_of_def
        reply_def)
qed

theorem add_book_stale_total_witness:
  "\<exists>m d'. book_add example_cfg (Decoded example_book) example_db = (reply 200 (JBook m), d')
          \<and> am_book_total (bm_author m) = 1 \<and> count_books_of d' 1 = 2"
  using add_book_stale_total [OF example_book_valid example_db_facts(1) example_db_wf
      example_book_in(1,2) example_db_facts(2,4)] example_db_facts(3)
  by (simp add: numeral_2_eq_2)



text \<open>C22: \<open>PUT /authors/:id\<close> with a body that fails to decode is not rejected:
  the partly decoded struct is written without validation and the handler answers
  200 with it.\<close>

theorem update_malformed_body_applied:
  assumes "validate_identifier_uri cfg u = []" and "db_online d" and "db_wf d"
      and "r \<in> set (db_authors d)" and "uri_int u = ar_id r"
      and "opt_date_in (ab_birth_date a) = Inr bd"
      and "ab_email a \<notin> ar_email ` set (filter (\<lambda>x. ar_id x \<noteq> ar_id r) (db_authors d))"
  shows "\<exists>m d'. author_update_handler cfg u (Malformed a) d = (reply 200 (JAuthor m), d')
              \<and> am_name m = ab_name a \<and> am_email m = ab_email a
              \<and> find_author d' (ar_id r) =
                  Some (r\<lparr>ar_name := ab_name a, ar_email := ab_email a, ar_birth_date := bd, ar_bio := ab_bio a\<rparr>)"
proof -
  note find = author_find_found [OF assms(2,3,4,5)]
  let ?m = "author_model_of (r, count_books_of d (ar_id r))"
  note upd = author_update_ok [OF assms(2,3,4) _ assms(6,7), of ?m]
  have "find (\<lambda>x. ar_id x = ar_id r)
          (map (\<lambda>x. if ar_id x = ar_id r
                    then x\<lparr>ar_name := ab_name a, ar_email := ab_email a, ar_birth_date := bd, ar_bio := ab_bio a\<rparr>
                    else x) (db_authors d))
        = Some (r\<lparr>ar_name := ab_name a, ar_email := ab_email a, ar_birth_date := bd, ar_bio := ab_bio a\<rparr>)"
    using assms(3,4) by (intro find_map_update_key) (simp_all add: db_wf_def)
  then show ?thesis using assms(1) find upd
    by (simp add: author_update_handler_def should_bind_def author_update_step_def author_model_of_def
        find_author_def reply_def)
qed

theorem update_malformed_body_applied_witness:
  "\<exists>m d'. author_update_handler example_cfg \<lparr>uri_id = decimal 2\<rparr>
            (Malformed \<lparr>ab_name = [], ab_email = ustr_of ''bob@x.io'', ab_birth_date = None, ab_bio = None\<rparr>)
            example_db = (reply 200 (JAuthor m), d')
          \<and> am_name m = [] \<and> am_email m = ustr_of ''bob@x.io''
          \<and> find_author d' 2 = Some (bob_row\<lparr>ar_name := []\<rparr>)"
proof -
  have r: "bob_row \<in> set (db_authors example_db)" by (simp add: bob_row_def example_db_def)
  show ?thesis
    using update_malformed_body_applied [where cfg = example_cfg and u = "\<lparr>uri_id = decimal 2\<rparr>"
        and d = example_db and r = bob_row
        and a = "\<lparr>ab_name = [], ab_email = ustr_of ''bob@x.io'', ab_birth_date = None, ab_bio = None\<rparr>"
        and bd = None] validate_identifier_uri_decimal example_db_facts(1) example_db_wf r
    by (simp add: bob_row_def example_db_def int64_max_def opt_date_in_def)
qed

text \<open>C23: \<open>PUT /authors/:id\<close> with the e-mail of another author, and
  \<open>PUT /books/:id\<close> with an unknown author id, answer 500 and leave the store
  unchanged: the update handlers translate no store error into 409 or 422.\<close>

theorem update_conflicts_server_error:
  assumes "validate_identifier_uri cfg u = []" and "db_online d" and "db_wf d"
  shows "(\<forall>r. r \<in> set (db_authors d) \<and> uri_int u = ar_id r \<and> validate_author_base cfg a = []
              \<and> opt_date_in (ab_birth_date a) = Inr bd
              \<and> ab_email a \<in> ar_email ` set (filter (\<lambda>x. ar_id x \<noteq> ar_id r) (db_authors d))
          \<longrightarrow> author_update_handler cfg u (Decoded a) d = (server_error, d))
       \<and> (\<forall>bk. bk \<in> set (db_books d) \<and> uri_int u = br_id bk \<and> validate_book_base cfg b = []
              \<and> pg_date_in (bb_pub_date b) = Inr pd \<and> pg_int4_in (bb_author_id b) = Inr ai
              \<and> \<not> author_exists d ai
          \<longrightarrow> book_update_handler cfg u (Decoded b) d = (server_error, d))"
proof (intro conjI allI impI)
  fix r assume h: "r \<in> set (db_authors d) \<and> uri_int u = ar_id r \<and> validate_author_base cfg a = []
              \<and> opt_date_in (ab_birth_date a) = Inr bd
              \<and> ab_email a \<in> ar_email ` set (filter (\<lambda>x. ar_id x \<noteq> ar_id r) (db_authors d))"
  note find = author_find_found [OF assms(2,3), of r u]
  have "find_author d (ar_id r) = Some r" using find_author_wf [OF assms(3)] h by blast
  then show "author_update_handler cfg u (Decoded a) d = (server_error, d)"
    using assms(1,2) h find
    by (simp add: author_update_handler_def author_update_step_def author_update_def
        sql_update_author_def author_model_of_def Let_def)
next
  fix bk assume h: "bk \<in> set (db_books d) \<and> uri_int u = br_id bk \<and> validate_book_base cfg b = []
              \<and> pg_date_in (bb_pub_date b) = Inr pd \<and> pg_int4_in (bb_author_id b) = Inr ai
              \<and> \<not> author_exists d ai"
  obtain r where find: "book_find u d = Inr (book_model_of bk (r, count_books_of d (br_author_id bk)))"
    using book_find_found [OF assms(2,3), of bk u] h by blast
  have "find (\<lambda>x. br_id x = br_id bk) (db_books d) = Some bk"
    using find_key_unique [of br_id "db_books d" bk] assms(3) h by (simp add: db_wf_def)
  then show "book_update_handler cfg u (Decoded b) d = (server_error, d)"
    using assms(1,2) h find
    by (simp add: book_update_handler_def book_update_step_def book_update_def
        sql_update_book_def book_model_of_def Let_def)
qed

theorem update_conflicts_server_error_witness:
  "author_update_handler example_cfg \<lparr>uri_id = decimal 2\<rparr> (Decoded example_author) example_db
     = (server_error, example_db)
   \<and> book_update_handler example_cfg \<lparr>uri_id = decimal 2\<rparr> (Decoded (example_book\<lparr>bb_author_id := ustr_of ''9''\<rparr>)) example_db
     = (server_error, example_db)"
proof -
  have r: "bob_row \<in> set (db_authors example_db)" by (simp add: bob_row_def example_db_def)
  have v: "validate_book_base example_cfg (example_book\<lparr>bb_author_id := ustr_of ''9''\<rparr>) = []"
    using example_book_valid by (simp add: validate_book_base_def example_book_def is_ascii_digit_def)
  note c = update_conflicts_server_error [where cfg = example_cfg and u = "\<lparr>uri_id = decimal 2\<rparr>"
      and d = example_db and a = example_author and bd = None
      and b = "example_book\<lparr>bb_author_id := ustr_of ''9''\<rparr>" and pd = "(1815, 12, 23)" and ai = 9,
      OF validate_identifier_uri_decimal example_db_facts(1) example_db_wf]
  show ?thesis
    using c [THEN conjunct1, rule_format, of bob_row] c [THEN conjunct2, rule_format, of "hd (db_books example_db)"]
      r example_author_valid v example_book_in
    by (simp add: bob_row_def example_db_def int64_max_def opt_date_in_def example_author_def example_book_def
        author_exists_def)
qed

text \<open>C24: \<open>DELETE /authors/:id\<close> of an author who still has books answers 500
  "oops, we made a mistake" and leaves the store unchanged (the foreign key
  gives 23503).\<close>

theorem delete_author_with_books_fails:
  assumes "validate_identifier_uri cfg u = []" and "db_online d" and "db_wf d"
      and "uri_int u \<in> br_author_id ` set (db_books d)"
  shows "author_delete_handler cfg u d = (server_error, d)"
proof -
  have ex: "author_exists d (uri_int u)" using fk_author_exists [OF assms(3,4)] .
  then obtain r where r: "r \<in> set (db_authors d)" "uri_int u = ar_id r"
    by (auto simp: author_exists_def)
  note find = author_find_found [OF assms(2,3) r]
  have "author_delete d (author_model_of (r, count_books_of d (ar_id r))) = (Some (PgError ''23503''), d)"
    using assms(2,4) ex r wf_author_in_int4 [OF assms(3) r(1)]
    by (simp add: author_delete_def sql_delete_author_def author_model_of_def)
  then show ?thesis using assms(1) find by (simp add: author_delete_handler_def)
qed

theorem delete_author_with_books_fails_witness:
  "author_delete_handler example_cfg \<lparr>uri_id = decimal 1\<rparr> example_db = (server_error, example_db)"
  using delete_author_with_books_fails [of example_cfg "\<lparr>uri_id = decimal 1\<rparr>" example_db] example_db_wf
  by (simp add: validate_identifier_uri_decimal int64_max_def example_db_def)

end
