(* ===== verification/Router.thy ===== *)
theory Router
  imports Handlers
begin

text \<open>
  The route table of src/pkg/handlers/handler.go (\<open>IncludeHandlers\<close>),
  installed on the engine of src/pkg/app/rest_server.go (\<open>CreateRestApp\<close>,
  \<open>gin.Default()\<close>), and gin's dispatch of a request to the handler its
  method and path select.  A path is the list of its segments between
  slashes (\<open>/authors/7/books\<close> is \<open>[authors, 7, books]\<close>, \<open>/authors/\<close> is
  \<open>[authors, '']\<close>); a \<open>:id\<close> segment matches any non-empty segment.  With
  gin's defaults a request that matches no route is answered 404 with the
  text "404 page not found", also when only the method differs, and a path
  that matches once its trailing slash is removed is redirected there (301
  for GET, 307 otherwise).  \<open>serve\<close> composes the router with the handlers
  of Handlers.thy: the request carries its query parameters and its body as
  the handler would decode it into \<open>AuthorBaseModel\<close> or \<open>BookBaseModel\<close>.
\<close>

datatype http_method = GET | POST | PUT | DELETE | PATCH | HEAD | OPTIONS

datatype route_seg = Lit ustr | Param string

datatype endpoint =
    AuthorFetch | AuthorAdd | AuthorGet | AuthorUpdate | AuthorDelete | AuthorBooks
  | BookFetch | BookAdd | BookGet | BookUpdate | BookDelete

text \<open>The groups \<open>/authors\<close> and \<open>/books\<close> with their routes, in the order
  \<open>IncludeHandlers\<close> registers them.\<close>

definition routes :: "(http_method \<times> route_seg list \<times> endpoint) list" where
  "routes =
     [(GET, [Lit (ustr_of ''authors'')], AuthorFetch),
      (POST, [Lit (ustr_of ''authors'')], AuthorAdd),
      (GET, [Lit (ustr_of ''authors''), Param ''id''], AuthorGet),
      (PUT, [Lit (ustr_of ''authors''), Param ''id''], AuthorUpdate),
      (DELETE, [Lit (ustr_of ''authors''), Param ''id''], AuthorDelete),
      (GET, [Lit (ustr_of ''authors''), Param ''id'', Lit (ustr_of ''books'')], AuthorBooks),
      (GET, [Lit (ustr_of ''books'')], BookFetch),
      (POST, [Lit (ustr_of ''books'')], BookAdd),
      (GET, [Lit (ustr_of ''books''), Param ''id''], BookGet),
      (PUT, [Lit (ustr_of ''books''), Param ''id''], BookUpdate),
      (DELETE, [Lit (ustr_of ''books''), Param ''id''], BookDelete)]"

text \<open>Matching a route's segments against a path, collecting the parameters.\<close>

fun match_segs :: "route_seg list \<Rightarrow> ustr list \<Rightarrow> (string \<times> ustr) list option" where
  "match_segs [] [] = Some []"
| "match_segs (Lit l # rs) (s # ss) = (if s = l then match_segs rs ss else None)"
| "match_segs (Param n # rs) (s # ss) =
     (if s = [] then None else map_option (\<lambda>ps. (n, s) # ps) (match_segs rs ss))"
| "match_segs _ _ = None"

definition route :: "http_method \<Rightarrow> ustr list \<Rightarrow> (endpoint \<times> (string \<times> ustr) list) option" where
  "route m p =
     (case [(e, ps). (m', rs, e) \<leftarrow> routes, m' = m, Some ps \<leftarrow> [match_segs rs p]] of
        [] \<Rightarrow> None
      | x # _ \<Rightarrow> Some x)"

text \<open>\<open>c.Param(name)\<close>: the empty string when the route has no such parameter.\<close>

definition path_param :: "(string \<times> ustr) list \<Rightarrow> string \<Rightarrow> ustr" where
  "path_param ps n = (case map_of ps n of Some v \<Rightarrow> v | None \<Rightarrow> [])"

text \<open>gin's trailing-slash recommendation: the path ends in a slash and
  matches a route of the same method without it.\<close>

definition trailing_slash :: "http_method \<Rightarrow> ustr list \<Rightarrow> bool" where
  "trailing_slash m p \<longleftrightarrow> p \<noteq> [] \<and> last p = [] \<and> butlast p \<noteq> [] \<and> route m (butlast p) \<noteq> None"

text \<open>A request as the handlers see it.\<close>

record request =
  rq_method :: http_method
  rq_path :: "ustr list"
  rq_page :: "ustr option"
  rq_limit :: "ustr option"
  rq_author_body :: "author_base json_body"
  rq_book_body :: "book_base json_body"

definition not_found :: response where
  "not_found = reply 404 (PlainText ''404 page not found'')"

text \<open>The engine's \<open>ServeHTTP\<close>: route, then run the handler.\<close>

definition serve :: "vcfg \<Rightarrow> request \<Rightarrow> db \<Rightarrow> response \<times> db" where
  "serve cfg rq d =
     (case route (rq_method rq) (rq_path rq) of
        None \<Rightarrow>
          (if trailing_slash (rq_method rq) (rq_path rq)
           then (reply (if rq_method rq = GET then 301 else 307) (RedirectTo (butlast (rq_path rq))), d)
           else (not_found, d))
      | Some (e, ps) \<Rightarrow>
          (let u = \<lparr>uri_id = path_param ps ''id''\<rparr>
           in case e of
                AuthorFetch \<Rightarrow> (author_fetch_handler (rq_page rq) (rq_limit rq) d, d)
              | AuthorAdd \<Rightarrow> author_add cfg (rq_author_body rq) d
              | AuthorGet \<Rightarrow> (author_get cfg u d, d)
              | AuthorUpdate \<Rightarrow> author_update_handler cfg u (rq_author_body rq) d
              | AuthorDelete \<Rightarrow> author_delete_handler cfg u d
              | AuthorBooks \<Rightarrow> (author_books_handler cfg u (rq_page rq) (rq_limit rq) d, d)
              | BookFetch \<Rightarrow> (book_fetch_handler (rq_page rq) (rq_limit rq) d, d)
              | BookAdd \<Rightarrow> book_add cfg (rq_book_body rq) d
              | BookGet \<Rightarrow> (book_get cfg u d, d)
              | BookUpdate \<Rightarrow> book_update_handler cfg u (rq_book_body rq) d
              | BookDelete \<Rightarrow> book_delete_handler cfg u d))"

text \<open>A request for the witnesses.\<close>

definition example_request :: request where
  "example_request =
     \<lparr>rq_method = GET, rq_path = [], rq_page = None, rq_limit = None,
      rq_author_body = Decoded example_author, rq_book_body = Decoded example_book\<rparr>"

subsection \<open>Lemmas\<close>

lemma ustr_of_route_lits [simp]:
  "ustr_of ''authors'' \<noteq> ustr_of ''books''" "ustr_of ''books'' \<noteq> ustr_of ''authors''"
  by simp_all

lemma route_head:
  "route m p \<noteq> None \<Longrightarrow> p \<noteq> [] \<and> (hd p = ustr_of ''authors'' \<or> hd p = ustr_of ''books'')"
  by (cases p) (auto simp: route_def routes_def split: if_splits)

lemma route_method:
  "route m p \<noteq> None \<Longrightarrow> m \<in> {GET, POST, PUT, DELETE}"
  by (cases m) (auto simp: route_def routes_def)

lemma serve_routed_status:
  assumes "route (rq_method rq) (rq_path rq) = Some x"
  shows "status (fst (serve cfg rq d)) \<in> {200, 404, 409, 422, 500}"
proof -
  obtain e ps where x: "x = (e, ps)" by (cases x)
  show ?thesis
    by (cases e; simp only: serve_def assms x Let_def option.case prod.case endpoint.case fst_conv;
        rule handler_status_in; simp)
qed

subsection \<open>Properties of the router\<close>

text \<open>C28: No two routes of the table overlap: for every method and path at
  most one route matches, so the handler a request reaches does not depend on
  the order of registration or on gin's precedence rules.\<close>

theorem route_unique:
  "length [(m', rs, e) \<leftarrow> routes. m' = m \<and> match_segs rs p \<noteq> None] \<le> 1"
proof (cases p rule: remdups_adj.cases)
  case 1
  then show ?thesis by (simp add: routes_def)
next
  case (2 a)
  then show ?thesis by (cases m) (auto simp: routes_def)
next
  case (3 a b q)
  then show ?thesis
    by (cases m; cases q rule: remdups_adj.cases) (auto simp: routes_def)
qed

text \<open>C29: The router implements the HTTP surface of the specification: each
  of its eleven method and path pairs, with any non-empty identifier, reaches
  the handler for it with the identifier as the path parameter \<open>id\<close>.\<close>

theorem serve_spec_table:
  assumes "i \<noteq> []"
  shows "serve cfg (rq\<lparr>rq_method := GET, rq_path := [ustr_of ''authors'']\<rparr>) d
           = (author_fetch_handler (rq_page rq) (rq_limit rq) d, d)
   \<and> serve cfg (rq\<lparr>rq_method := POST, rq_path := [ustr_of ''authors'']\<rparr>) d
           = author_add cfg (rq_author_body rq) d
   \<and> serve cfg (rq\<lparr>rq_method := GET, rq_path := [ustr_of ''authors'', i]\<rparr>) d
           = (author_get cfg \<lparr>uri_id = i\<rparr> d, d)
   \<and> serve cfg (rq\<lparr>rq_method := PUT, rq_path := [ustr_of ''authors'', i]\<rparr>) d
           = author_update_handler cfg \<lparr>uri_id = i\<rparr> (rq_author_body rq) d
   \<and> serve cfg (rq\<lparr>rq_method := DELETE, rq_path := [ustr_of ''authors'', i]\<rparr>) d
           = author_delete_handler cfg \<lparr>uri_id = i\<rparr> d
   \<and> serve cfg (rq\<lparr>rq_method := GET, rq_path := [ustr_of ''authors'', i, ustr_of ''books'']\<rparr>) d
           = (author_books_handler cfg \<lparr>uri_id = i\<rparr> (rq_page rq) (rq_limit rq) d, d)
   \<and> serve cfg (rq\<lparr>rq_method := GET, rq_path := [ustr_of ''books'']\<rparr>) d
           = (book_fetch_handler (rq_page rq) (rq_limit rq) d, d)
   \<and> serve cfg (rq\<lparr>rq_method := POST, rq_path := [ustr_of ''books'']\<rparr>) d
           = book_add cfg (rq_book_body rq) d
   \<and> serve cfg (rq\<lparr>rq_method := GET, rq_path := [ustr_of ''books'', i]\<rparr>) d
           = (book_get cfg \<lparr>uri_id = i\<rparr> d, d)
   \<and> serve cfg (rq\<lparr>rq_method := PUT, rq_path := [ustr_of ''books'', i]\<rparr>) d
           = book_update_handler cfg \<lparr>uri_id = i\<rparr> (rq_book_body rq) d
   \<and> serve cfg (rq\<lparr>rq_method := DELETE, rq_path := [ustr_of ''books'', i]\<rparr>) d
           = book_delete_handler cfg \<lparr>uri_id = i\<rparr> d"
  using assms by (simp add: serve_def route_def routes_def path_param_def)

theorem serve_spec_table_witness:
  "serve example_cfg (example_request\<lparr>rq_method := GET, rq_path := [ustr_of ''authors'', ustr_of ''7'']\<rparr>) example_db
     = (author_get example_cfg \<lparr>uri_id = ustr_of ''7''\<rparr> example_db, example_db)
   \<and> serve example_cfg (example_request\<lparr>rq_method := DELETE, rq_path := [ustr_of ''books'', ustr_of ''7'']\<rparr>) example_db
     = book_delete_handler example_cfg \<lparr>uri_id = ustr_of ''7''\<rparr> example_db"
  using serve_spec_table [of "ustr_of ''7''" example_cfg example_request example_db] by simp

text \<open>C30: A request whose path does not start with \<open>authors\<close> or
  \<open>books\<close>, or whose method is not GET, POST, PUT or DELETE, is answered 404
  "404 page not found" (not 405) and leaves the store unchanged.\<close>

theorem unknown_route_not_found:
  assumes "hd (rq_path rq) \<notin> {ustr_of ''authors'', ustr_of ''books''} \<or> rq_method rq \<notin> {GET, POST, PUT, DELETE}"
  shows "serve cfg rq d = (not_found, d)"
proof -
  have none: "route (rq_method rq) q = None" if "q = rq_path rq \<or> (q = butlast (rq_path rq) \<and> q \<noteq> [])" for q
  proof (rule ccontr)
    assume "route (rq_method rq) q \<noteq> None"
    then have "q \<noteq> [] \<and> (hd q = ustr_of ''authors'' \<or> hd q = ustr_of ''books'')" "rq_method rq \<in> {GET, POST, PUT, DELETE}"
      using route_head route_method by blast+
    moreover have "hd q = hd (rq_path rq)"
      using that calculation(1) by (cases "rq_path rq" rule: rev_cases) (auto simp: hd_append)
    ultimately show False using assms by auto
  qed
  then show ?thesis by (auto simp: serve_def trailing_slash_def)
qed

theorem unknown_route_not_found_witness:
  "serve example_cfg (example_request\<lparr>rq_path := [ustr_of ''publishers'']\<rparr>) example_db = (not_found, example_db)
   \<and> serve example_cfg (example_request\<lparr>rq_method := PATCH, rq_path := [ustr_of ''authors'']\<rparr>) example_db
       = (not_found, example_db)"
proof -
  have a: "hd (rq_path (example_request\<lparr>rq_path := [ustr_of ''publishers'']\<rparr>)) \<notin> {ustr_of ''authors'', ustr_of ''books''}
           \<or> rq_method (example_request\<lparr>rq_path := [ustr_of ''publishers'']\<rparr>) \<notin> {GET, POST, PUT, DELETE}"
    by simp
  have b: "hd (rq_path (example_request\<lparr>rq_method := PATCH, rq_path := [ustr_of ''authors'']\<rparr>)) \<notin> {ustr_of ''authors'', ustr_of ''books''}
           \<or> rq_method (example_request\<lparr>rq_method := PATCH, rq_path := [ustr_of ''authors'']\<rparr>) \<notin> {GET, POST, PUT, DELETE}"
    by simp
  show ?thesis using unknown_route_not_found [OF a] unknown_route_not_found [OF b] by simp
qed

text \<open>C32: Every request is answered with one of the statuses 200, 301, 307,
  404, 409, 422 or 500; in particular no 201, 204, 400 or 405 is ever sent.\<close>

theorem serve_status_codes:
  "status (fst (serve cfg rq d)) \<in> {200, 301, 307, 404, 409, 422, 500}"
proof (cases "route (rq_method rq) (rq_path rq)")
  case None
  then show ?thesis by (simp add: serve_def not_found_def reply_def)
next
  case (Some x)
  then show ?thesis using serve_routed_status [OF Some, of cfg d] by blast
qed

end
