(* ===== verification/Pool.thy ===== *)
theory Pool
  imports Prelude
begin

text \<open>
  The connection pool of src/pkg/database/pool.go and the startup sequence of
  src/cmd/server/main.go that uses it.  \<open>GetConnection\<close> guards the
  construction of the process-wide \<open>dbInstance\<close> with a \<open>sync.Once\<close>: the
  first call builds the connection string from the environment and calls
  \<open>pgxpool.New\<close>; when that fails the closure returns and \<open>dbInstance\<close> stays
  \<open>nil\<close>.  Every call returns \<open>dbInstance\<close> and a \<open>nil\<close> error.  The
  environment is \<open>os.Getenv\<close>, a function from keys to values (the empty string
  for an unset key), and whether \<open>pgxpool.New\<close> accepts a connection string is
  a parameter \<open>pool_new\<close> of the model (the driver parses the string; it does
  not connect).  Concurrent first callers are serialised by the \<open>Once\<close>, so a
  run of the program is a sequence of calls.
\<close>

type_synonym getenv = "string \<Rightarrow> string"

text \<open>\<open>DbPool{Conn: db}\<close>: a pool built from its connection string.\<close>

datatype dbpool = DbPool string

text \<open>The package variables \<open>dbInstance\<close> and \<open>dbOnce\<close>.\<close>

record pool_state =
  once_done :: bool
  db_instance :: "dbpool option"

definition init_pool :: pool_state where
  "init_pool = \<lparr>once_done = False, db_instance = None\<rparr>"

text \<open>The \<open>fmt.Sprintf\<close> template of the connection string.\<close>

definition conn_string :: "getenv \<Rightarrow> string" where
  "conn_string env =
     ''postgres://'' @ env ''DB_USER'' @ '':'' @ env ''DB_PASS'' @ ''@'' @ env ''DB_HOST'' @ '':''
     @ env ''DB_PORT'' @ ''/'' @ env ''DB_NAME'' @ ''?sslmode=disable''"

text \<open>\<open>GetConnection\<close>: the instance and the error it returns, and the
  package state afterwards.  The error is always \<open>nil\<close>.\<close>

definition get_connection :: "(string \<Rightarrow> bool) \<Rightarrow> getenv \<Rightarrow> pool_state \<Rightarrow>
    (dbpool option \<times> bool) \<times> pool_state" where
  "get_connection pool_new env s =
     (let s' = (if once_done s then s
                else (let cs = conn_string env
                      in if pool_new cs then \<lparr>once_done = True, db_instance = Some (DbPool cs)\<rparr>
                         else s\<lparr>once_done := True\<rparr>))
      in ((db_instance s', False), s'))"

text \<open>\<open>DbPool.Ping\<close>: the pool's \<open>Ping\<close> (whether the store answers), read
  through \<open>db.Conn\<close>; on a \<open>nil\<close> instance that read is a nil pointer
  dereference, the value \<open>None\<close>.\<close>

definition db_ping :: "(dbpool \<Rightarrow> bool) \<Rightarrow> dbpool option \<Rightarrow> bool option" where
  "db_ping ping inst = (case inst of None \<Rightarrow> None | Some p \<Rightarrow> Some (ping p))"

text \<open>A sequence of calls, each with the environment it reads; the results in
  order.  The second component of a result is whether the error is
  non-\<open>nil\<close>.\<close>

fun run_pool :: "(string \<Rightarrow> bool) \<Rightarrow> getenv list \<Rightarrow> pool_state \<Rightarrow> (dbpool option \<times> bool) list" where
  "run_pool pool_new [] s = []"
| "run_pool pool_new (env # envs) s =
     (case get_connection pool_new env s of (r, s') \<Rightarrow> r # run_pool pool_new envs s')"

subsection \<open>Startup\<close>

text \<open>How \<open>main\<close> ends: \<open>log.Fatal\<close> with its message, a runtime panic, or
  \<open>app.Run\<close> listening on an address with the pool state it leaves.\<close>

datatype startup_result = Fatal string | Panic string | Serving string pool_state

text \<open>\<open>APP_HOST\<close> and \<open>APP_PORT\<close> with their defaults.\<close>

definition listen_addr :: "getenv \<Rightarrow> string" where
  "listen_addr env =
     (let host = (if env ''APP_HOST'' = [] then ''127.0.0.1'' else env ''APP_HOST'');
          port = (if env ''APP_PORT'' = [] then ''8000'' else env ''APP_PORT'')
      in host @ '':'' @ port)"

text \<open>\<open>main\<close>: \<open>godotenv.Load\<close> (whether the \<open>.env\<close> file was read), then
  \<open>GetConnection\<close>, then \<open>dbconn.Ping\<close>.  Registering the validator and
  building the router cannot fail.\<close>

definition startup :: "bool \<Rightarrow> (string \<Rightarrow> bool) \<Rightarrow> (dbpool \<Rightarrow> bool) \<Rightarrow> getenv \<Rightarrow> startup_result" where
  "startup env_loaded pool_new ping env =
     (if \<not> env_loaded then Fatal ''Unable to find .env file''
      else case get_connection pool_new env init_pool of
        ((inst, err), s) \<Rightarrow>
          if err then Fatal ''Error create database connection pool''
          else case db_ping ping inst of
            None \<Rightarrow> Panic ''invalid memory address or nil pointer dereference''
          | Some ok \<Rightarrow> if \<not> ok then Fatal ''Failed to connect database''
                       else Serving (listen_addr env) s)"

subsection \<open>Lemmas\<close>

lemma get_connection_done:
  "once_done s \<Longrightarrow> get_connection pool_new env s = ((db_instance s, False), s)"
  by (simp add: get_connection_def)

lemma get_connection_first:
  "get_connection pool_new env init_pool =
     ((if pool_new (conn_string env) then Some (DbPool (conn_string env)) else None, False),
      \<lparr>once_done = True,
       db_instance = (if pool_new (conn_string env) then Some (DbPool (conn_string env)) else None)\<rparr>)"
  by (simp add: get_connection_def init_pool_def)

lemma run_pool_done:
  "once_done s \<Longrightarrow> run_pool pool_new envs s = replicate (length envs) (db_instance s, False)"
  by (induction envs) (simp_all add: get_connection_done)

text \<open>C25: Whatever the environments of the calls, every call of
  \<open>GetConnection\<close> returns the instance fixed by the first call (a pool built
  from the first caller's environment, or \<open>nil\<close> when \<open>pgxpool.New\<close> failed)
  and a \<open>nil\<close> error.\<close>

theorem get_connection_once:
  "run_pool pool_new (env # envs) init_pool =
     replicate (Suc (length envs))
       (if pool_new (conn_string env) then Some (DbPool (conn_string env)) else None, False)"
  by (simp add: get_connection_first run_pool_done)

text \<open>C26: \<open>main\<close> never ends in its "Error create database connection pool"
  branch, since \<open>GetConnection\<close> returns no error; when \<open>pgxpool.New\<close> fails the
  process dies instead with a nil pointer dereference in \<open>Ping\<close>.\<close>

theorem startup_pool_failure_panics:
  "startup env_loaded pool_new ping env \<noteq> Fatal ''Error create database connection pool''
   \<and> (env_loaded \<and> \<not> pool_new (conn_string env) \<longrightarrow>
        startup env_loaded pool_new ping env = Panic ''invalid memory address or nil pointer dereference'')"
  by (auto simp: startup_def db_ping_def get_connection_first listen_addr_def Let_def)

theorem startup_pool_failure_panics_witness:
  "startup True (\<lambda>cs. False) (\<lambda>p. True) (\<lambda>k. [])
     = Panic ''invalid memory address or nil pointer dereference''"
  using startup_pool_failure_panics [of True "\<lambda>cs. False" "\<lambda>p. True" "\<lambda>k. []"] by simp

text \<open>C27: A process that reaches \<open>app.Run\<close> listens on \<open>APP_HOST:APP_PORT\<close>
  (127.0.0.1 and 8000 by default) and holds a non-\<open>nil\<close> pool, which every later
  \<open>GetConnection\<close> of the data access layer returns with a \<open>nil\<close> error.\<close>

theorem serving_pool_fixed:
  assumes "startup env_loaded pool_new ping env = Serving addr s"
  shows "addr = listen_addr env \<and> db_instance s = Some (DbPool (conn_string env))
         \<and> run_pool pool_new envs s = replicate (length envs) (Some (DbPool (conn_string env)), False)"
proof -
  have ok: "env_loaded" "pool_new (conn_string env)"
    and s: "s = \<lparr>once_done = True, db_instance = Some (DbPool (conn_string env))\<rparr>"
    and a: "addr = listen_addr env"
    using assms by (auto simp: startup_def db_ping_def get_connection_first split: if_splits)
  then show ?thesis by (simp add: run_pool_done)
qed

theorem serving_pool_fixed_witness:
  "startup True (\<lambda>cs. True) (\<lambda>p. True) (\<lambda>k. []) =
     Serving ''127.0.0.1:8000'' \<lparr>once_done = True, db_instance = Some (DbPool ''postgres://:@:/?sslmode=disable'')\<rparr>
   \<and> run_pool (\<lambda>cs. True) [\<lambda>k. ''x''] \<lparr>once_done = True, db_instance = Some (DbPool ''postgres://:@:/?sslmode=disable'')\<rparr>
       = [(Some (DbPool ''postgres://:@:/?sslmode=disable''), False)]"
proof -
  have st: "startup True (\<lambda>cs. True) (\<lambda>p. True) (\<lambda>k. []) =
     Serving ''127.0.0.1:8000'' \<lparr>once_done = True, db_instance = Some (DbPool ''postgres://:@:/?sslmode=disable'')\<rparr>"
    by (simp add: startup_def db_ping_def get_connection_first conn_string_def listen_addr_def)
  show ?thesis
    using serving_pool_fixed [OF st, of "[\<lambda>k. ''x'']"] st by (simp add: conn_string_def)
qed

end
