(* ===== verification/Tests.thy ===== *)
theory Tests
  imports Router Pool
begin

text \<open>
  The test suite src/test/author_test.go.  \<open>TestMain\<close> repeats the startup of
  \<open>main\<close> (environment file, \<open>GetConnection\<close>, \<open>Ping\<close>, the validator, the
  router) without listening, then runs the tests; \<open>TestFetchAuthors\<close> sends
  \<open>GET /authors\<close> through the router and expects status 200.  The database
  the test talks to is the store \<open>d\<close>; the pool's \<open>Ping\<close> is the parameter
  \<open>ping\<close> as in theory Pool.
\<close>

text \<open>\<open>http.NewRequest("GET", "/authors", nil)\<close>: no query and no body; an
  absent body is a decoding error with the zero structs.\<close>

definition fetch_authors_request :: request where
  "fetch_authors_request =
     \<lparr>rq_method = GET, rq_path = [ustr_of ''authors''], rq_page = None, rq_limit = None,
      rq_author_body = Malformed \<lparr>ab_name = [], ab_email = [], ab_birth_date = None, ab_bio = None\<rparr>,
      rq_book_body = Malformed \<lparr>bb_title = [], bb_desc = None, bb_pub_date = [], bb_author_id = []\<rparr>\<rparr>"

text \<open>\<open>TestFetchAuthors\<close>: \<open>router.ServeHTTP\<close> on the request, then
  \<open>assert.Equal(t, 200, w.Code)\<close>; whether the assertion holds.\<close>

definition test_fetch_authors :: "vcfg \<Rightarrow> db \<Rightarrow> bool" where
  "test_fetch_authors cfg d = (status (fst (serve cfg fetch_authors_request d)) = 200)"

text \<open>How a run of the test binary ends: \<open>log.Fatal\<close> in the setup, a runtime
  panic, or \<open>os.Exit(m.Run())\<close> with whether every test passed.\<close>

datatype test_outcome = TestFatal string | TestPanic string | TestsRan bool

definition test_main :: "bool \<Rightarrow> (string \<Rightarrow> bool) \<Rightarrow> (dbpool \<Rightarrow> bool) \<Rightarrow> getenv \<Rightarrow> vcfg \<Rightarrow> db \<Rightarrow> test_outcome" where
  "test_main env_loaded pool_new ping env cfg d =
     (if \<not> env_loaded then TestFatal ''Unable to find .env file''
      else case get_connection pool_new env init_pool of
        ((inst, err), s) \<Rightarrow>
          if err then TestFatal ''Error create database connection pool''
          else case db_ping ping inst of
            None \<Rightarrow> TestPanic ''invalid memory address or nil pointer dereference''
          | Some ok \<Rightarrow> if \<not> ok then TestFatal ''Failed to connect database''
                       else TestsRan (test_fetch_authors cfg d))"

subsection \<open>Lemmas\<close>

text \<open>\<open>TestMain\<close> performs the startup of \<open>main\<close>: it fails exactly where
  \<open>main\<close> fails, and runs the tests exactly when \<open>main\<close> would serve.\<close>

lemma test_main_startup:
  "test_main env_loaded pool_new ping env cfg d =
     (case startup env_loaded pool_new ping env of
        Fatal m \<Rightarrow> TestFatal m | Panic m \<Rightarrow> TestPanic m
      | Serving a s \<Rightarrow> TestsRan (test_fetch_authors cfg d))"
  by (simp add: test_main_def startup_def db_ping_def split: prod.split option.split)

text \<open>The listing of authors with an admitted window answers 200 exactly when
  the store is reachable and the table is not empty, and 500 otherwise.\<close>

lemma author_fetch_handler_status:
  assumes "page_param qp = Some p" and "limit_param ql = Some l"
  shows "status (author_fetch_handler qp ql d) = (if db_online d \<and> db_authors d \<noteq> [] then 200 else 500)"
proof -
  have win: "valid_window p l" using params_window [OF assms] .
  then have l0: "l \<noteq> 0" by (simp add: valid_window_def)
  consider "\<not> db_online d" | "db_online d" "db_authors d = []" | "db_online d" "db_authors d \<noteq> []"
    by blast
  then show ?thesis
  proof cases
    case 1
    then show ?thesis using assms
      by (simp add: author_fetch_handler_def author_fetch_def sql_count_authors_def server_error_def reply_def)
  next
    case 2
    then show ?thesis using assms l0 empty_listing_offset [OF win, where 'a = author_model]
      by (simp add: author_fetch_handler_def author_fetch_def sql_count_authors_def
          sql_fetch_authors_def sql_select_page_def init_fetch_def server_error_def reply_def Let_def)
  next
    case 3
    then have "0 < int (length (db_authors d))" by simp
    note off = paginate_offset_nonneg [OF win this]
    have off': "\<not> page_offset (paginate (int (length (db_authors d))) (init_fetch p l :: author_model fetch_model)) < 0"
      by (rule leD [OF off(1)])
    show ?thesis using 3 assms l0 off' off(2) win
      by (simp add: author_fetch_handler_def author_fetch_def sql_count_authors_def
          sql_fetch_authors_def sql_select_page_def init_fetch_def reply_def Let_def valid_window_def)
  qed
qed

subsection \<open>Properties of the test suite\<close>

text \<open>C34: A run of the test binary ends with every test passing exactly when
  the \<open>.env\<close> file is read, the pool is built and answers \<open>Ping\<close>, the
  database is reachable and the authors table is not empty: against a fresh
  database \<open>TestFetchAuthors\<close> fails, since the empty listing is answered 500.\<close>

theorem test_fetch_authors_passes:
  "test_main env_loaded pool_new ping env cfg d = TestsRan True \<longleftrightarrow>
     env_loaded \<and> pool_new (conn_string env) \<and> ping (DbPool (conn_string env))
     \<and> db_online d \<and> db_authors d \<noteq> []"
proof -
  have "test_fetch_authors cfg d \<longleftrightarrow> db_online d \<and> db_authors d \<noteq> []"
    using author_fetch_handler_status [OF default_params, of d]
    by (simp add: test_fetch_authors_def fetch_authors_request_def serve_def route_def routes_def Let_def)
  then show ?thesis
    by (simp add: test_main_def db_ping_def get_connection_first)
qed

theorem test_fetch_authors_passes_witness:
  "test_main True (\<lambda>cs. True) (\<lambda>p. True) (\<lambda>k. []) example_cfg example_db = TestsRan True
   \<and> test_main True (\<lambda>cs. True) (\<lambda>p. True) (\<lambda>k. []) example_cfg empty_db \<noteq> TestsRan True"
  using test_fetch_authors_passes [of True "\<lambda>cs. True" "\<lambda>p. True" "\<lambda>k. []" example_cfg example_db]
        test_fetch_authors_passes [of True "\<lambda>cs. True" "\<lambda>p. True" "\<lambda>k. []" example_cfg empty_db]
  by (simp add: example_db_def empty_db_def)

end
