(* ===== verification/Spec2Isabelle.thy ===== *)
theory Spec2Isabelle
  imports Router Pool Tests
begin

text \<open>
  A verification development of bookies (kasfil/bookies), a Go HTTP API that
  manages authors and their books in PostgreSQL.  A request enters gin's
  router (src/pkg/app/rest_server.go, src/pkg/handlers/handler.go), which
  picks a handler of src/pkg/handlers/author.go or book.go; the handler binds
  and validates the request (binding tags of src/pkg/models, the custom
  \<open>validname\<close> rule of src/pkg/validators/validname.go, messages of
  src/pkg/utilities/error.go), calls a method of the data access layer
  (src/pkg/models/author.go, book.go), which sends SQL through the pool that
  src/pkg/database/pool.go builds once and src/cmd/server/main.go checks at
  startup.  Each part is one theory; each theory imports the parts it calls.

  \<^bold>\<open>Theories and what they model.\<close>
  \<^item> Prelude: Unicode code points and user strings (\<open>ustr\<close>), Go's
    truncating \<open>/\<close> and \<open>%\<close> (\<open>go_div\<close>, \<open>go_mod\<close>), \<open>math.Ceil\<close> of an
    exact quotient (\<open>float_ceil_div\<close>, Go's value for dividends below
    \<open>2^53\<close>), the int64 range, and the list and map
    lemmas the components share (keyed lists, \<open>map_of\<close> of keyed rows).
  \<^item> Pagination: the record \<open>FetchAuthorDBModel\<close>/\<open>FetchBookDBModel\<close>
    (\<open>fetch_model\<close>) and the page arithmetic of their \<open>Fetch\<close> methods
    (\<open>page_total_of\<close>, \<open>paginate\<close>, \<open>page_offset\<close>, \<open>limit_offset\<close>).
  \<^item> Validation: \<open>strconv.Atoi\<close> and \<open>ParseUint\<close>, \<open>time.Parse\<close> with
    layout 2006-01-02 and the JSON form of \<open>pgtype.Date\<close>, the structs
    \<open>AuthorBaseModel\<close>, \<open>BookBaseModel\<close>, \<open>IdentifierURI\<close> with their tags
    checked field by field in declaration order (\<open>validate_author_base\<close>,
    \<open>validate_book_base\<close>, \<open>validate_identifier_uri\<close>), \<open>ValidName\<close> and
    \<open>ParseValidationError\<close>.  Which runes are letters and which strings are
    e-mail addresses is the parameter \<open>vcfg\<close>: the Unicode tables and the
    validator's e-mail pattern are library data, not code of the repository.
  \<^item> Store: PostgreSQL as the code uses it, modelled from the schema of
    the spec: the tables as lists of rows with their serial sequences
    (\<open>db\<close>), one definition per SQL statement the code sends (sequence
    values drawn before the checks, an \<open>integer\<close> sequence failing with
    2200H at \<open>int4_max\<close>, SQLSTATE 23505, 23503, 2201W, 2201X, 22007, 22008,
    22P02, 22003 as errors, and pgx's refusal to encode a Go \<open>int\<close> id
    outside \<open>int4\<close>, \<open>in_int4\<close>), \<open>db_wf\<close> (the schema's constraints), \<open>exec_stmt\<close> and the inductive \<open>store_reachable\<close>
    (any interleaving of statements of concurrent requests, each atomic, as
    under READ COMMITTED for single statements).
  \<^item> Models: the structs \<open>AuthorDBModel\<close>, \<open>BookDBModel\<close> and one
    definition per method (\<open>author_insert\<close> ... \<open>book_fetch\<close>), each with the
    error values it returns (\<open>ErrTooManyAffectedRows\<close>, \<open>pgx.ErrNoRows\<close>,
    \<open>*pgconn.PgError\<close>).
  \<^item> Handlers: every method of \<open>AuthorHandler\<close> and \<open>BookHandler\<close>, returning
    the status and body written and the store afterwards.  gin's behaviour
    they rely on is explicit: no write means 200 with an empty body.
  \<^item> Router: the route table of \<open>IncludeHandlers\<close> (\<open>routes\<close>), gin's
    matching with 404 and trailing-slash redirects, and \<open>serve\<close>, one
    request through router and handler.
  \<^item> Pool: \<open>GetConnection\<close> with its \<open>sync.Once\<close> as a state
    \<open>pool_state\<close>, \<open>DbPool.Ping\<close> as \<open>db_ping\<close> (a nil instance is a
    panic), and \<open>main\<close> as \<open>startup\<close>, ending in \<open>log.Fatal\<close>, a panic
    or \<open>app.Run\<close>.
  \<^item> Tests: the test suite src/test/author_test.go, \<open>TestMain\<close> as
    \<open>test_main\<close> (the startup of \<open>main\<close> without listening, then the tests)
    and \<open>TestFetchAuthors\<close> as \<open>test_fetch_authors\<close> (\<open>GET /authors\<close>
    through \<open>serve\<close>, expecting 200).

  \<^bold>\<open>What the lemmas show.\<close>
  Pagination (C1-C6): the clamped page lies in the window, the integer page
  count equals the real ceiling, previous/next pages are the neighbours, the
  pages of a listing partition it, and no int64 overflow occurs for the
  parameters the handlers admit and record counts below \<open>2^53\<close>; an empty
  table gives a negative offset.  Validation (C7-C11): each binding rule
  accepts exactly the values the tags describe, the tag order fixes the
  message, date printing and parsing are inverse, and a path id of 0 passes.
  Store (C12, C31, C33): an insert is listed first; the author table refines
  a finite map under insert, update and delete; from every reachable state
  an empty store remains reachable by deletes.  Handlers (C13-C24): the
  functional behaviour and the error answers of each endpoint, round trips
  (add then get, delete then get), ids beyond \<open>int4\<close> answered 500, and the
  divergences listed as findings.  Pool and Router (C25-C30, C32): the pool
  is built once, a failed pool panics at startup, the route table is
  unambiguous and matches the spec's endpoint table, unknown routes get
  gin's 404, and every status is one of the documented codes.  Tests (C34):
  the test binary passes exactly when the database is reachable through the
  pool and holds at least one author.

  \<^bold>\<open>Bounds and termination.\<close>
  Integers the code holds in Go \<open>int\<close> are HOL \<open>int\<close> with the int64 range
  checked where the code could overflow (\<open>Atoi\<close>, page arithmetic); ids are
  \<open>int4\<close> in the schema (\<open>int4_max\<close>), so their sequences stop there and a
  Go \<open>int\<close> id outside the range is refused before a statement runs.
  \<open>math.Ceil\<close> of the \<open>float64\<close> quotient is taken exactly; that is Go's
  value for record counts below \<open>2^53\<close> (see \<open>float_ceil_div\<close>), which a
  table with \<open>int4\<close> ids never exceeds.  The repository has no unbounded loop:
  the loops over runes, digits, rows and validation errors are structural
  recursion over finite lists, so every definition is total and executable,
  and no fuel is needed.

  \<^bold>\<open>Not modelled.\<close>
  Logging;
  the registration of the validator and the inside of the validator library
  beyond the tags used; the JSON decoder itself (a body is given already decoded, or as a
  decoding error with the fields the decoder had stored, \<open>json_body\<close>); the pgx scanning machinery beyond the row-to-struct
  mapping; the network: \<open>pgxpool.New\<close> and \<open>Ping\<close> are the parameters
  \<open>pool_new\<close> and \<open>ping\<close>, the environment a function \<open>getenv\<close>; and
  concurrency inside a statement (statements are atomic).
\<close>

end
